theory Spec2Isabelle
  imports Main "HOL-Library.Sublist"
begin

section \<open>JavaScript strings and numbers\<close>

text \<open>
  A JavaScript string is a sequence of UTF-16 code units. It is modelled as a
  \<^typ>\<open>string\<close>, a list of 8-bit characters: a character of ASCII is one element, and text
  beyond ASCII is its UTF-8 byte sequence. The strings modelled are the well-formed ones,
  those without an unpaired surrogate. A property that may be missing is a
  \<^typ>\<open>string option\<close> with \<open>None\<close> for \<open>undefined\<close>. The values of the parameter object handed
  to the tool executor are strings: the assistant's JSON proposal is modelled with every
  supplied field carrying a string.
\<close>

definition truthy :: "string option \<Rightarrow> bool" where
  "truthy v = (case v of None \<Rightarrow> False | Some s \<Rightarrow> s \<noteq> [])"

text \<open>\<open>a || b\<close> on possibly missing strings, and \<open>a || 'literal'\<close>.\<close>

definition js_or :: "string option \<Rightarrow> string option \<Rightarrow> string option" where
  "js_or a b = (if truthy a then a else b)"

definition or_str :: "string option \<Rightarrow> string \<Rightarrow> string" where
  "or_str a d = (case a of None \<Rightarrow> d | Some s \<Rightarrow> if s = [] then d else s)"

text \<open>Template interpolation \<open>${v}\<close> of a possibly missing string.\<close>

definition interp :: "string option \<Rightarrow> string" where
  "interp v = (case v of None \<Rightarrow> ''undefined'' | Some s \<Rightarrow> s)"

text \<open>\<open>s.split(c)\<close> for a one-character separator: \<open>''.split('/')\<close> is \<open>['']\<close>.\<close>

fun split_on :: "char \<Rightarrow> string \<Rightarrow> string list" where
  "split_on c [] = [] # []"
| "split_on c (x # xs) =
     (if x = c then [] # split_on c xs
      else (case split_on c xs of [] \<Rightarrow> [x] # [] | p # ps \<Rightarrow> (x # p) # ps))"

text \<open>
  \<open>s.length\<close> counts code units. Of the bytes of UTF-8 a continuation byte (\<open>10xxxxxx\<close>)
  adds none, the lead byte of a four-byte sequence (\<open>11110xxx\<close>, a character beyond the
  basic plane, which UTF-16 writes as a surrogate pair) adds two, and every other byte one.
\<close>

definition code_units :: "char \<Rightarrow> nat" where
  "code_units c =
     (if \<not> digit7 c then 1 else if \<not> digit6 c then 0 else if digit5 c \<and> digit4 c then 2 else 1)"

definition js_length :: "string \<Rightarrow> nat" where
  "js_length s = sum_list (map code_units s)"

text \<open>\<open>s.padStart(n, c)\<close> for a fill character of ASCII: \<open>s\<close> is filled up to \<open>n\<close> code units.\<close>

definition padStart :: "nat \<Rightarrow> char \<Rightarrow> string \<Rightarrow> string" where
  "padStart n c s = replicate (n - js_length s) c @ s"

text \<open>
  What the JavaScript runtime contributes: the lower-case form of a text that is not all
  ASCII (the case mapping of Unicode is the runtime's table), the locale rendering of a date
  string, the time stamp of a date string (\<open>None\<close> for an invalid date), the time stamp of
  today's midnight and today's ISO date.
\<close>

record env =
  lowerCase :: "string \<Rightarrow> string"
  localeDate :: "string \<Rightarrow> string"
  dateMs :: "string option \<Rightarrow> int option"
  midnightMs :: int
  todayIso :: string

text \<open>
  \<open>s.toLowerCase()\<close>: on a text of ASCII the letters \<open>A\<close> to \<open>Z\<close> are replaced by \<open>a\<close> to
  \<open>z\<close> and nothing else changes; any other text is mapped by the runtime.
\<close>

definition is_ascii :: "char \<Rightarrow> bool" where
  "is_ascii c = (\<not> digit7 c)"

definition toLowerChar :: "char \<Rightarrow> char" where
  "toLowerChar c =
     (case map_of (zip ''ABCDEFGHIJKLMNOPQRSTUVWXYZ'' ''abcdefghijklmnopqrstuvwxyz'') c of
        None \<Rightarrow> c | Some l \<Rightarrow> l)"

definition asciiLower :: "string \<Rightarrow> string" where
  "asciiLower s = map toLowerChar s"

definition toLowerCase :: "env \<Rightarrow> string \<Rightarrow> string" where
  "toLowerCase e s = (if list_all is_ascii s then asciiLower s else lowerCase e s)"

text \<open>\<open>hay.includes(needle)\<close> is \<^term>\<open>sublist needle hay\<close>.\<close>

definition str_includes :: "string \<Rightarrow> string \<Rightarrow> bool" where
  "str_includes hay needle = sublist needle hay"

definition nl :: string where
  "nl = [CHR 0x0A]"

text \<open>\<open>lines.join('\n')\<close>.\<close>

fun join_nl :: "string list \<Rightarrow> string" where
  "join_nl [] = []"
| "join_nl [l] = l"
| "join_nl (l # ls) = l @ nl @ join_nl ls"

text \<open>
  A JavaScript number that the handlers produce with \<open>parseInt\<close> or read from a record:
  an integer or \<open>NaN\<close>. The integers are those a JavaScript number holds exactly (up to
  \<open>2^53\<close> in size); quantities and thresholds are of this kind.
\<close>

datatype num = NaN | Num int

definition num_truthy :: "num option \<Rightarrow> bool" where
  "num_truthy v = (case v of Some (Num n) \<Rightarrow> n \<noteq> 0 | _ \<Rightarrow> False)"

text \<open>\<open>v || d\<close> for a numeric property and a non-zero literal default \<open>d\<close>.\<close>

definition or_num :: "num option \<Rightarrow> int \<Rightarrow> int" where
  "or_num v d = (case v of Some (Num n) \<Rightarrow> if n = 0 then d else n | _ \<Rightarrow> d)"

definition digit_char :: "nat \<Rightarrow> char" where
  "digit_char d = ''0123456789'' ! d"

function show_nat :: "nat \<Rightarrow> string" where
  "show_nat n = (if n < 10 then [digit_char n] else show_nat (n div 10) @ [digit_char (n mod 10)])"
  by pat_completeness auto
termination
  by (relation "measure (\<lambda>n. n)") auto

declare show_nat.simps [simp del]

definition show_int :: "int \<Rightarrow> string" where
  "show_int i = (if i < 0 then CHR ''-'' # show_nat (nat (- i)) else show_nat (nat i))"

definition show_num :: "num \<Rightarrow> string" where
  "show_num v = (case v of NaN \<Rightarrow> ''NaN'' | Num i \<Rightarrow> show_int i)"

definition interp_num :: "num option \<Rightarrow> string" where
  "interp_num v = (case v of None \<Rightarrow> ''undefined'' | Some n \<Rightarrow> show_num n)"

text \<open>
  White space, as \<open>parseInt\<close> skips it and \<open>\s\<close> matches it: six characters of ASCII, the
  no-break space, the spaces \<open>U+1680\<close>, \<open>U+2000\<close> to \<open>U+200A\<close>, \<open>U+202F\<close>, \<open>U+205F\<close> and
  \<open>U+3000\<close>, the line and the paragraph separator and the byte-order mark, the latter in
  their UTF-8 form. \<open>space_width s\<close> is the number of bytes of the white-space character at
  the head of \<open>s\<close>, and \<open>0\<close> if there is none.
\<close>

definition is_space :: "char \<Rightarrow> bool" where
  "is_space c = (c \<in> set [CHR '' '', CHR 0x09, CHR 0x0A, CHR 0x0B, CHR 0x0C, CHR 0x0D])"

definition wide_spaces :: "string list" where
  "wide_spaces =
     [CHR 0xE1, CHR 0x9A, CHR 0x80] # [CHR 0xE2, CHR 0x80, CHR 0x80] #
     [CHR 0xE2, CHR 0x80, CHR 0x81] # [CHR 0xE2, CHR 0x80, CHR 0x82] #
     [CHR 0xE2, CHR 0x80, CHR 0x83] # [CHR 0xE2, CHR 0x80, CHR 0x84] #
     [CHR 0xE2, CHR 0x80, CHR 0x85] # [CHR 0xE2, CHR 0x80, CHR 0x86] #
     [CHR 0xE2, CHR 0x80, CHR 0x87] # [CHR 0xE2, CHR 0x80, CHR 0x88] #
     [CHR 0xE2, CHR 0x80, CHR 0x89] # [CHR 0xE2, CHR 0x80, CHR 0x8A] #
     [CHR 0xE2, CHR 0x80, CHR 0xA8] # [CHR 0xE2, CHR 0x80, CHR 0xA9] #
     [CHR 0xE2, CHR 0x80, CHR 0xAF] # [CHR 0xE2, CHR 0x81, CHR 0x9F] #
     [CHR 0xE3, CHR 0x80, CHR 0x80] # [CHR 0xEF, CHR 0xBB, CHR 0xBF] # []"

definition space_width :: "string \<Rightarrow> nat" where
  "space_width s =
     (case s of
        [] \<Rightarrow> 0
      | c # r \<Rightarrow>
          if is_space c then 1
          else if take 2 s = [CHR 0xC2, CHR 0xA0] then 2
          else if take 3 s \<in> set wide_spaces then 3
          else 0)"

function drop_spaces :: "string \<Rightarrow> string" where
  "drop_spaces s = (if space_width s = 0 then s else drop_spaces (drop (space_width s) s))"
  by pat_completeness auto
termination
proof (relation "measure length")
  fix s :: string
  assume "space_width s \<noteq> 0"
  then show "(drop (space_width s) s, s) \<in> measure length"
    by (cases s) (simp_all add: space_width_def)
qed simp

declare drop_spaces.simps [simp del]

text \<open>
  \<open>parseInt(s)\<close> with no radix: leading white space is skipped, a sign is read, a
  \<open>0x\<close> prefix selects base 16, and the longest run of digits is the value; no digit
  gives \<open>NaN\<close>. \<open>parseInt(undefined)\<close> is \<open>NaN\<close>.
\<close>

definition digit_val :: "nat \<Rightarrow> char \<Rightarrow> nat option" where
  "digit_val radix c =
     (case map_of (zip ''0123456789abcdefABCDEF''
                       [0, 1, 2, 3, 4, 5, 6, 7, 8, 9, 10, 11, 12, 13, 14, 15, 10, 11, 12, 13, 14, 15]) c of
        None \<Rightarrow> None
      | Some v \<Rightarrow> if v < radix then Some v else None)"

fun read_digits :: "nat \<Rightarrow> string \<Rightarrow> nat option \<Rightarrow> nat option" where
  "read_digits radix [] acc = acc"
| "read_digits radix (c # cs) acc =
     (case digit_val radix c of
        None \<Rightarrow> acc
      | Some v \<Rightarrow> read_digits radix cs (Some ((case acc of None \<Rightarrow> 0 | Some a \<Rightarrow> a) * radix + v)))"

definition parse_unsigned :: "string \<Rightarrow> nat option" where
  "parse_unsigned s =
     (case s of
        CHR ''0'' # x # rest \<Rightarrow>
          (if x = CHR ''x'' \<or> x = CHR ''X'' then read_digits 16 rest None
           else read_digits 10 s None)
      | _ \<Rightarrow> read_digits 10 s None)"

definition parseInt :: "string option \<Rightarrow> num" where
  "parseInt v =
     (case v of
        None \<Rightarrow> NaN
      | Some s \<Rightarrow>
          (let t = drop_spaces s in
           case t of
             CHR ''-'' # r \<Rightarrow> (case parse_unsigned r of None \<Rightarrow> NaN | Some n \<Rightarrow> Num (- int n))
           | CHR ''+'' # r \<Rightarrow> (case parse_unsigned r of None \<Rightarrow> NaN | Some n \<Rightarrow> Num (int n))
           | _ \<Rightarrow> (case parse_unsigned t of None \<Rightarrow> NaN | Some n \<Rightarrow> Num (int n))))"

text \<open>\<open>parseInt(v) || d\<close>.\<close>

definition parseInt_or :: "string option \<Rightarrow> int \<Rightarrow> int" where
  "parseInt_or v d = or_num (Some (parseInt v)) d"

subsection \<open>Symbols used in the messages (UTF-8)\<close>

definition sym_cross :: string where "sym_cross = [CHR 0xE2, CHR 0x9D, CHR 0x8C]"
definition sym_check :: string where "sym_check = [CHR 0xE2, CHR 0x9C, CHR 0x85]"
definition sym_bullet :: string where "sym_bullet = [CHR 0xE2, CHR 0x80, CHR 0xA2]"
definition sym_clipboard :: string where "sym_clipboard = [CHR 0xF0, CHR 0x9F, CHR 0x93, CHR 0x8B]"
definition sym_calendar :: string where "sym_calendar = [CHR 0xF0, CHR 0x9F, CHR 0x93, CHR 0x85]"
definition sym_clock :: string where "sym_clock = [CHR 0xE2, CHR 0x8F, CHR 0xB0]"
definition sym_bulb :: string where "sym_bulb = [CHR 0xF0, CHR 0x9F, CHR 0x92, CHR 0xA1]"
definition sym_red :: string where "sym_red = [CHR 0xF0, CHR 0x9F, CHR 0x94, CHR 0xB4]"
definition sym_green :: string where "sym_green = [CHR 0xF0, CHR 0x9F, CHR 0x9F, CHR 0xA2]"
definition sym_yellow :: string where "sym_yellow = [CHR 0xF0, CHR 0x9F, CHR 0x9F, CHR 0xA1]"
definition sym_glass :: string where "sym_glass = [CHR 0xF0, CHR 0x9F, CHR 0x94, CHR 0x8D]"
definition sym_box :: string where "sym_box = [CHR 0xF0, CHR 0x9F, CHR 0x93, CHR 0xA6]"


section \<open>Records of the clinic\<close>

text \<open>
  The four record kinds are JavaScript objects; every property the code reads is a field
  here, \<open>None\<close> when the object does not carry it. The object literal a create handler builds
  has no \<open>id\<close>; the persistence collaborator assigns one. The partial object an update
  handler builds (\<open>updates\<close>) is a record of the same kind with only the changed fields set.
\<close>

record patient =
  p_id :: "nat option"
  p_name :: "string option"
  p_dob :: "string option"
  p_phone :: "string option"
  p_email :: "string option"
  p_patientNumber :: "nat option"
  p_patient_number :: "nat option"

record appointment =
  a_id :: "nat option"
  a_patientName :: "string option"
  a_date :: "string option"
  a_time :: "string option"
  a_type :: "string option"
  a_duration :: "num option"
  a_notes :: "string option"
  a_status :: "string option"

record deadline =
  d_id :: "nat option"
  d_title :: "string option"
  d_date :: "string option"
  d_dueDate :: "string option"
  d_priority :: "string option"
  d_description :: "string option"

record item =
  i_id :: "nat option"
  i_name :: "string option"
  i_itemName :: "string option"
  i_item_name :: "string option"
  i_category :: "string option"
  i_quantity :: "num option"
  i_minStock :: "num option"
  i_minimumStock :: "num option"
  i_min_quantity :: "num option"
  i_unit :: "string option"

record pnote =
  n_patientId :: "nat option"
  n_note :: "string option"
  n_text :: "string option"
  n_author :: "string option"

definition no_patient :: patient where
  "no_patient = \<lparr>p_id = None, p_name = None, p_dob = None, p_phone = None, p_email = None,
     p_patientNumber = None, p_patient_number = None\<rparr>"

definition no_appointment :: appointment where
  "no_appointment = \<lparr>a_id = None, a_patientName = None, a_date = None, a_time = None,
     a_type = None, a_duration = None, a_notes = None, a_status = None\<rparr>"

definition no_deadline :: deadline where
  "no_deadline = \<lparr>d_id = None, d_title = None, d_date = None, d_dueDate = None,
     d_priority = None, d_description = None\<rparr>"

definition no_item :: item where
  "no_item = \<lparr>i_id = None, i_name = None, i_itemName = None, i_item_name = None,
     i_category = None, i_quantity = None, i_minStock = None, i_minimumStock = None,
     i_min_quantity = None, i_unit = None\<rparr>"

text \<open>\<open>a || b\<close> on record ids and patient numbers (\<open>0\<close> is falsy), and their interpolation.\<close>

definition or_nat :: "nat option \<Rightarrow> nat option \<Rightarrow> nat option" where
  "or_nat a b = (case a of Some n \<Rightarrow> if n = 0 then b else a | None \<Rightarrow> b)"

definition nat_truthy :: "nat option \<Rightarrow> bool" where
  "nat_truthy v = (case v of None \<Rightarrow> False | Some n \<Rightarrow> n \<noteq> 0)"

definition interp_nat :: "nat option \<Rightarrow> string" where
  "interp_nat v = (case v of None \<Rightarrow> ''undefined'' | Some n \<Rightarrow> show_nat n)"

section \<open>The outcome of an action\<close>

datatype data =
    DPatient patient
  | DPatients "patient list"
  | DAppointment appointment
  | DAppointments "appointment list"
  | DDeadline deadline
  | DDeadlines "deadline list"
  | DItem item
  | DItems "item list"
  | DNote pnote
  | DNotes "pnote list"

record outcome =
  success :: bool
  message :: string
  data :: "data option"

definition failed :: "string \<Rightarrow> outcome" where
  "failed m = \<lparr>success = False, message = m, data = None\<rparr>"

definition done_msg :: "string \<Rightarrow> outcome" where
  "done_msg m = \<lparr>success = True, message = m, data = None\<rparr>"

definition done_with :: "string \<Rightarrow> data \<Rightarrow> outcome" where
  "done_with m d = \<lparr>success = True, message = m, data = Some d\<rparr>"

section \<open>The world: persistence collaborator, cache, views\<close>

text \<open>
  Every call the front end makes on \<open>window.db\<close> and every view it repaints is recorded, in
  order, in the trace of the world; a call is recorded when it is made, whether or not it
  then fails.
\<close>

datatype event =
    DbGetAllPatients
  | DbCreatePatient patient
  | DbUpdatePatient "nat option" patient
  | DbDeletePatient "nat option"
  | DbSearchPatients string
  | DbGetPatient "string option"
  | DbAddPatientNote "nat option" string string
  | DbGetPatientNotes "nat option"
  | DbGetAllAppointments
  | DbCreateAppointment appointment
  | DbUpdateAppointment "nat option" appointment
  | DbDeleteAppointment "nat option"
  | DbGetAppointmentsByDate string
  | DbGetAllDeadlines
  | DbCreateDeadline deadline
  | DbUpdateDeadline "nat option" deadline
  | DbDeleteDeadline "nat option"
  | DbGetAllInventory
  | DbCreateInventoryItem item
  | DbUpdateInventoryItem "nat option" item
  | DbDeleteInventoryItem "nat option"
  | DbGetLowStock
  | ViewPatientsTable "patient list"
  | ViewInventoryTable "(item \<times> bool) list"
  | ViewStats nat nat nat nat
  | ViewConnectionStatus bool
  | ViewCalendar
  | ViewSchedule string bool

record database =
  db_patients :: "patient list"
  db_appointments :: "appointment list"
  db_deadlines :: "deadline list"
  db_inventory :: "item list"
  db_notes :: "pnote list"
  db_next_id :: nat
  db_throws :: "(string \<times> string) list"

record world =
  window_db :: "database option"
  cache_patients :: "patient list"
  cache_appointments :: "appointment list"
  cache_deadlines :: "deadline list"
  cache_inventory :: "item list"
  selectedCalendarDate :: "string option"
  trace :: "event list"


section \<open>The persistence collaborator\<close>

text \<open>
  Modelled from the spec: \<open>window.db\<close>, the persistence collaborator, is not part of the
  front end. Its interface is the spec's: \<open>createK(record) -> record-with-id\<close>,
  \<open>updateK(id, partialRecord) -> ack\<close>, \<open>deleteK(id) -> ack\<close>, \<open>getAllK -> {data: K[]}\<close>,
  \<open>searchPatients\<close>, \<open>getLowStock\<close>, \<open>getAppointmentsByDate\<close> and the patient-notes
  sub-resource. It is an in-memory store: an update replaces exactly the fields the partial
  record carries, and the patient search finds the patients whose name contains the query,
  the letters of ASCII compared without regard to case. Every call may fail: \<open>db_throws\<close>
  lists the methods that throw, each with the message of its error.
\<close>

definition backend ::
  "string \<Rightarrow> (database \<Rightarrow> 'r \<times> database) \<Rightarrow> database \<Rightarrow> (string + 'r) \<times> database" where
  "backend method f db =
     (case map_of (db_throws db) method of
        Some e \<Rightarrow> (Inl e, db)
      | None \<Rightarrow> (case f db of (r, db') \<Rightarrow> (Inr r, db')))"

definition pick :: "'a option \<Rightarrow> 'a option \<Rightarrow> 'a option" where
  "pick new old = (case new of None \<Rightarrow> old | Some v \<Rightarrow> Some v)"

definition same_id :: "nat option \<Rightarrow> nat option \<Rightarrow> bool" where
  "same_id i j = (i \<noteq> None \<and> i = j)"

definition merge_patient :: "patient \<Rightarrow> patient \<Rightarrow> patient" where
  "merge_patient old u =
     \<lparr>p_id = p_id old, p_name = pick (p_name u) (p_name old), p_dob = pick (p_dob u) (p_dob old),
      p_phone = pick (p_phone u) (p_phone old), p_email = pick (p_email u) (p_email old),
      p_patientNumber = pick (p_patientNumber u) (p_patientNumber old),
      p_patient_number = pick (p_patient_number u) (p_patient_number old)\<rparr>"

definition merge_appointment :: "appointment \<Rightarrow> appointment \<Rightarrow> appointment" where
  "merge_appointment old u =
     \<lparr>a_id = a_id old, a_patientName = pick (a_patientName u) (a_patientName old),
      a_date = pick (a_date u) (a_date old), a_time = pick (a_time u) (a_time old),
      a_type = pick (a_type u) (a_type old), a_duration = pick (a_duration u) (a_duration old),
      a_notes = pick (a_notes u) (a_notes old), a_status = pick (a_status u) (a_status old)\<rparr>"

definition merge_deadline :: "deadline \<Rightarrow> deadline \<Rightarrow> deadline" where
  "merge_deadline old u =
     \<lparr>d_id = d_id old, d_title = pick (d_title u) (d_title old),
      d_date = pick (d_date u) (d_date old), d_dueDate = pick (d_dueDate u) (d_dueDate old),
      d_priority = pick (d_priority u) (d_priority old),
      d_description = pick (d_description u) (d_description old)\<rparr>"

definition merge_item :: "item \<Rightarrow> item \<Rightarrow> item" where
  "merge_item old u =
     \<lparr>i_id = i_id old, i_name = pick (i_name u) (i_name old),
      i_itemName = pick (i_itemName u) (i_itemName old),
      i_item_name = pick (i_item_name u) (i_item_name old),
      i_category = pick (i_category u) (i_category old),
      i_quantity = pick (i_quantity u) (i_quantity old),
      i_minStock = pick (i_minStock u) (i_minStock old),
      i_minimumStock = pick (i_minimumStock u) (i_minimumStock old),
      i_min_quantity = pick (i_min_quantity u) (i_min_quantity old),
      i_unit = pick (i_unit u) (i_unit old)\<rparr>"

definition db_getAllPatients :: "database \<Rightarrow> patient list \<times> database" where
  "db_getAllPatients db = (db_patients db, db)"

definition db_createPatient :: "patient \<Rightarrow> database \<Rightarrow> patient \<times> database" where
  "db_createPatient p db =
     (let r = p\<lparr>p_id := Some (db_next_id db), p_patientNumber := Some (db_next_id db)\<rparr>
      in (r, db\<lparr>db_patients := db_patients db @ [r], db_next_id := Suc (db_next_id db)\<rparr>))"

definition db_updatePatient :: "nat option \<Rightarrow> patient \<Rightarrow> database \<Rightarrow> unit \<times> database" where
  "db_updatePatient i u db =
     ((), db\<lparr>db_patients := map (\<lambda>p. if same_id i (p_id p) then merge_patient p u else p) (db_patients db)\<rparr>)"

definition db_deletePatient :: "nat option \<Rightarrow> database \<Rightarrow> unit \<times> database" where
  "db_deletePatient i db =
     ((), db\<lparr>db_patients := filter (\<lambda>p. \<not> same_id i (p_id p)) (db_patients db)\<rparr>)"

definition db_searchPatients :: "string \<Rightarrow> database \<Rightarrow> patient list \<times> database" where
  "db_searchPatients query db =
     (take 20 (filter (\<lambda>p. str_includes (asciiLower (or_str (p_name p) [])) (asciiLower query))
        (db_patients db)), db)"

definition db_getPatient :: "string option \<Rightarrow> database \<Rightarrow> patient option \<times> database" where
  "db_getPatient number db =
     (find (\<lambda>p. Some (interp_nat (or_nat (p_patientNumber p) (p_patient_number p))) = number)
        (db_patients db), db)"

definition db_addPatientNote :: "nat option \<Rightarrow> string \<Rightarrow> string \<Rightarrow> database \<Rightarrow> pnote \<times> database" where
  "db_addPatientNote i t author db =
     (let n = \<lparr>n_patientId = i, n_note = Some t, n_text = None, n_author = Some author\<rparr>
      in (n, db\<lparr>db_notes := db_notes db @ [n]\<rparr>))"

definition db_getPatientNotes :: "nat option \<Rightarrow> database \<Rightarrow> pnote list \<times> database" where
  "db_getPatientNotes i db = (filter (\<lambda>n. same_id i (n_patientId n)) (db_notes db), db)"

definition db_getAllAppointments :: "database \<Rightarrow> appointment list \<times> database" where
  "db_getAllAppointments db = (db_appointments db, db)"

definition db_createAppointment :: "appointment \<Rightarrow> database \<Rightarrow> appointment \<times> database" where
  "db_createAppointment a db =
     (let r = a\<lparr>a_id := Some (db_next_id db)\<rparr>
      in (r, db\<lparr>db_appointments := db_appointments db @ [r], db_next_id := Suc (db_next_id db)\<rparr>))"

definition db_updateAppointment :: "nat option \<Rightarrow> appointment \<Rightarrow> database \<Rightarrow> unit \<times> database" where
  "db_updateAppointment i u db =
     ((), db\<lparr>db_appointments :=
        map (\<lambda>a. if same_id i (a_id a) then merge_appointment a u else a) (db_appointments db)\<rparr>)"

definition db_deleteAppointment :: "nat option \<Rightarrow> database \<Rightarrow> unit \<times> database" where
  "db_deleteAppointment i db =
     ((), db\<lparr>db_appointments := filter (\<lambda>a. \<not> same_id i (a_id a)) (db_appointments db)\<rparr>)"

definition db_getAppointmentsByDate :: "string \<Rightarrow> database \<Rightarrow> appointment list \<times> database" where
  "db_getAppointmentsByDate date db = (filter (\<lambda>a. a_date a = Some date) (db_appointments db), db)"

definition db_getAllDeadlines :: "database \<Rightarrow> deadline list \<times> database" where
  "db_getAllDeadlines db = (db_deadlines db, db)"

definition db_createDeadline :: "deadline \<Rightarrow> database \<Rightarrow> deadline \<times> database" where
  "db_createDeadline d db =
     (let r = d\<lparr>d_id := Some (db_next_id db)\<rparr>
      in (r, db\<lparr>db_deadlines := db_deadlines db @ [r], db_next_id := Suc (db_next_id db)\<rparr>))"

definition db_updateDeadline :: "nat option \<Rightarrow> deadline \<Rightarrow> database \<Rightarrow> unit \<times> database" where
  "db_updateDeadline i u db =
     ((), db\<lparr>db_deadlines :=
        map (\<lambda>d. if same_id i (d_id d) then merge_deadline d u else d) (db_deadlines db)\<rparr>)"

definition db_deleteDeadline :: "nat option \<Rightarrow> database \<Rightarrow> unit \<times> database" where
  "db_deleteDeadline i db =
     ((), db\<lparr>db_deadlines := filter (\<lambda>d. \<not> same_id i (d_id d)) (db_deadlines db)\<rparr>)"

definition db_getAllInventory :: "database \<Rightarrow> item list \<times> database" where
  "db_getAllInventory db = (db_inventory db, db)"

definition db_createInventoryItem :: "item \<Rightarrow> database \<Rightarrow> item \<times> database" where
  "db_createInventoryItem i db =
     (let r = i\<lparr>i_id := Some (db_next_id db)\<rparr>
      in (r, db\<lparr>db_inventory := db_inventory db @ [r], db_next_id := Suc (db_next_id db)\<rparr>))"

definition db_updateInventoryItem :: "nat option \<Rightarrow> item \<Rightarrow> database \<Rightarrow> unit \<times> database" where
  "db_updateInventoryItem i u db =
     ((), db\<lparr>db_inventory :=
        map (\<lambda>x. if same_id i (i_id x) then merge_item x u else x) (db_inventory db)\<rparr>)"

definition db_deleteInventoryItem :: "nat option \<Rightarrow> database \<Rightarrow> unit \<times> database" where
  "db_deleteInventoryItem i db =
     ((), db\<lparr>db_inventory := filter (\<lambda>x. \<not> same_id i (i_id x)) (db_inventory db)\<rparr>)"

definition db_getLowStock :: "database \<Rightarrow> item list \<times> database" where
  "db_getLowStock db =
     (filter (\<lambda>x. or_num (i_quantity x) 0 \<le> or_num (i_minStock x) 10) (db_inventory db), db)"

subsection \<open>Calls on \<open>window.db\<close>\<close>

text \<open>
  A call on \<open>window.db\<close> while the collaborator is missing throws a \<open>TypeError\<close>; its message
  is the runtime's.
\<close>

definition type_error :: string where
  "type_error = ''Cannot read properties of undefined''"

definition window_db_call ::
  "event \<Rightarrow> string \<Rightarrow> (database \<Rightarrow> 'r \<times> database) \<Rightarrow> world \<Rightarrow> (string + 'r) \<times> world" where
  "window_db_call ev method f w =
     (case window_db w of
        None \<Rightarrow> (Inl type_error, w)
      | Some db \<Rightarrow>
          (case backend method f db of
             (r, db') \<Rightarrow> (r, w\<lparr>window_db := Some db', trace := trace w @ [ev]\<rparr>)))"


section \<open>The \<open>Database\<close> wrapper\<close>

text \<open>
  \<open>Database.isConnected\<close> tests that \<open>window.db\<close> exists and offers \<open>loadAll\<close>; a collaborator
  that is present offers it. The read wrappers return an empty list when the collaborator
  is missing or its call throws; the write wrappers throw \<open>Database not connected\<close> when it
  is missing and pass on the error of the call.
\<close>

definition isConnected :: "world \<Rightarrow> bool" where
  "isConnected w = (window_db w \<noteq> None)"

definition read_or_empty :: "(string + 'a list) \<times> world \<Rightarrow> 'a list \<times> world" where
  "read_or_empty r = (case r of (Inl e, w) \<Rightarrow> ([], w) | (Inr xs, w) \<Rightarrow> (xs, w))"

definition not_connected :: string where
  "not_connected = ''Database not connected''"

definition Database_getPatients :: "world \<Rightarrow> patient list \<times> world" where
  "Database_getPatients w =
     (if \<not> isConnected w then ([], w)
      else read_or_empty (window_db_call DbGetAllPatients ''getAllPatients'' db_getAllPatients w))"

definition Database_createPatient :: "patient \<Rightarrow> world \<Rightarrow> (string + patient) \<times> world" where
  "Database_createPatient p w =
     (if \<not> isConnected w then (Inl not_connected, w)
      else window_db_call (DbCreatePatient p) ''createPatient'' (db_createPatient p) w)"

definition Database_updatePatient :: "nat option \<Rightarrow> patient \<Rightarrow> world \<Rightarrow> (string + unit) \<times> world" where
  "Database_updatePatient i u w =
     (if \<not> isConnected w then (Inl not_connected, w)
      else window_db_call (DbUpdatePatient i u) ''updatePatient'' (db_updatePatient i u) w)"

definition Database_deletePatient :: "nat option \<Rightarrow> world \<Rightarrow> (string + unit) \<times> world" where
  "Database_deletePatient i w =
     (if \<not> isConnected w then (Inl not_connected, w)
      else window_db_call (DbDeletePatient i) ''deletePatient'' (db_deletePatient i) w)"

definition Database_searchPatients :: "string \<Rightarrow> world \<Rightarrow> patient list \<times> world" where
  "Database_searchPatients query w =
     (if \<not> isConnected w then ([], w)
      else read_or_empty (window_db_call (DbSearchPatients query) ''searchPatients''
             (db_searchPatients query) w))"

definition Database_getAppointments :: "world \<Rightarrow> appointment list \<times> world" where
  "Database_getAppointments w =
     (if \<not> isConnected w then ([], w)
      else read_or_empty (window_db_call DbGetAllAppointments ''getAllAppointments''
             db_getAllAppointments w))"

definition Database_createAppointment ::
  "appointment \<Rightarrow> world \<Rightarrow> (string + appointment) \<times> world" where
  "Database_createAppointment a w =
     (if \<not> isConnected w then (Inl not_connected, w)
      else window_db_call (DbCreateAppointment a) ''createAppointment'' (db_createAppointment a) w)"

definition Database_updateAppointment ::
  "nat option \<Rightarrow> appointment \<Rightarrow> world \<Rightarrow> (string + unit) \<times> world" where
  "Database_updateAppointment i u w =
     (if \<not> isConnected w then (Inl not_connected, w)
      else window_db_call (DbUpdateAppointment i u) ''updateAppointment''
             (db_updateAppointment i u) w)"

definition Database_deleteAppointment :: "nat option \<Rightarrow> world \<Rightarrow> (string + unit) \<times> world" where
  "Database_deleteAppointment i w =
     (if \<not> isConnected w then (Inl not_connected, w)
      else window_db_call (DbDeleteAppointment i) ''deleteAppointment'' (db_deleteAppointment i) w)"

definition Database_getDeadlines :: "world \<Rightarrow> deadline list \<times> world" where
  "Database_getDeadlines w =
     (if \<not> isConnected w then ([], w)
      else read_or_empty (window_db_call DbGetAllDeadlines ''getAllDeadlines'' db_getAllDeadlines w))"

definition Database_createDeadline :: "deadline \<Rightarrow> world \<Rightarrow> (string + deadline) \<times> world" where
  "Database_createDeadline d w =
     (if \<not> isConnected w then (Inl not_connected, w)
      else window_db_call (DbCreateDeadline d) ''createDeadline'' (db_createDeadline d) w)"

definition Database_updateDeadline ::
  "nat option \<Rightarrow> deadline \<Rightarrow> world \<Rightarrow> (string + unit) \<times> world" where
  "Database_updateDeadline i u w =
     (if \<not> isConnected w then (Inl not_connected, w)
      else window_db_call (DbUpdateDeadline i u) ''updateDeadline'' (db_updateDeadline i u) w)"

definition Database_deleteDeadline :: "nat option \<Rightarrow> world \<Rightarrow> (string + unit) \<times> world" where
  "Database_deleteDeadline i w =
     (if \<not> isConnected w then (Inl not_connected, w)
      else window_db_call (DbDeleteDeadline i) ''deleteDeadline'' (db_deleteDeadline i) w)"

definition Database_getInventory :: "world \<Rightarrow> item list \<times> world" where
  "Database_getInventory w =
     (if \<not> isConnected w then ([], w)
      else read_or_empty (window_db_call DbGetAllInventory ''getAllInventory'' db_getAllInventory w))"

definition Database_createInventoryItem :: "item \<Rightarrow> world \<Rightarrow> (string + item) \<times> world" where
  "Database_createInventoryItem i w =
     (if \<not> isConnected w then (Inl not_connected, w)
      else window_db_call (DbCreateInventoryItem i) ''createInventoryItem''
             (db_createInventoryItem i) w)"

definition Database_updateInventoryItem ::
  "nat option \<Rightarrow> item \<Rightarrow> world \<Rightarrow> (string + unit) \<times> world" where
  "Database_updateInventoryItem i u w =
     (if \<not> isConnected w then (Inl not_connected, w)
      else window_db_call (DbUpdateInventoryItem i u) ''updateInventoryItem''
             (db_updateInventoryItem i u) w)"

definition Database_deleteInventoryItem :: "nat option \<Rightarrow> world \<Rightarrow> (string + unit) \<times> world" where
  "Database_deleteInventoryItem i w =
     (if \<not> isConnected w then (Inl not_connected, w)
      else window_db_call (DbDeleteInventoryItem i) ''deleteInventoryItem''
             (db_deleteInventoryItem i) w)"

definition Database_getLowStock :: "world \<Rightarrow> item list \<times> world" where
  "Database_getLowStock w =
     (if \<not> isConnected w then ([], w)
      else read_or_empty (window_db_call DbGetLowStock ''getLowStock'' db_getLowStock w))"

section \<open>Views\<close>

text \<open>\<open>UI.formatDate\<close>: a missing or empty date is shown as a dash.\<close>

definition formatDate :: "env \<Rightarrow> string option \<Rightarrow> string" where
  "formatDate e dateStr =
     (case dateStr of None \<Rightarrow> ''-'' | Some s \<Rightarrow> if s = [] then ''-'' else localeDate e s)"

text \<open>\<open>new Date(x) >= new Date().setHours(0,0,0,0)\<close>; an invalid date compares false.\<close>

definition isUpcoming :: "env \<Rightarrow> string option \<Rightarrow> bool" where
  "isUpcoming e x = (case dateMs e x of None \<Rightarrow> False | Some t \<Rightarrow> midnightMs e \<le> t)"

definition renderCalendar :: "world \<Rightarrow> world" where
  "renderCalendar w = w\<lparr>trace := trace w @ [ViewCalendar]\<rparr>"

definition showDateSchedule :: "string \<Rightarrow> bool \<Rightarrow> world \<Rightarrow> world" where
  "showDateSchedule date isToday w =
     w\<lparr>selectedCalendarDate := Some date, trace := trace w @ [ViewSchedule date isToday]\<rparr>"

definition loadTodaySchedule :: "env \<Rightarrow> world \<Rightarrow> world" where
  "loadTodaySchedule e w = showDateSchedule (todayIso e) True w"

text \<open>
  \<open>loadStats\<close> issues its four reads, then replaces three cached collections and repaints
  the counters. In \<open>loadDashboard\<close> the calendar and the schedule are repainted between the
  two halves: \<open>Promise.all\<close> runs them while the reads are pending.
\<close>

definition loadStats_reads ::
  "world \<Rightarrow> (patient list \<times> appointment list \<times> deadline list \<times> item list) \<times> world" where
  "loadStats_reads w =
     (case Database_getPatients w of (patients, w1) \<Rightarrow>
      case Database_getAppointments w1 of (appointments, w2) \<Rightarrow>
      case Database_getDeadlines w2 of (deadlines, w3) \<Rightarrow>
      case Database_getLowStock w3 of (lowStock, w4) \<Rightarrow>
        ((patients, appointments, deadlines, lowStock), w4))"

definition loadStats_apply ::
  "env \<Rightarrow> patient list \<times> appointment list \<times> deadline list \<times> item list \<Rightarrow> world \<Rightarrow> world" where
  "loadStats_apply e r w =
     (case r of (patients, appointments, deadlines, lowStock) \<Rightarrow>
        w\<lparr>cache_patients := patients, cache_appointments := appointments,
          cache_deadlines := deadlines,
          trace := trace w @
            [ViewStats (length patients)
               (length (filter (\<lambda>a. a_date a = Some (todayIso e)) appointments))
               (length (filter (\<lambda>d. isUpcoming e (js_or (d_date d) (d_dueDate d))) deadlines))
               (length lowStock),
             ViewConnectionStatus True]\<rparr>)"

definition loadStats :: "env \<Rightarrow> world \<Rightarrow> world" where
  "loadStats e w = (case loadStats_reads w of (r, w') \<Rightarrow> loadStats_apply e r w')"

definition loadDashboard :: "env \<Rightarrow> world \<Rightarrow> world" where
  "loadDashboard e w =
     (case loadStats_reads w of (r, w') \<Rightarrow>
        loadStats_apply e r (loadTodaySchedule e (renderCalendar w')))"

definition loadPatients :: "world \<Rightarrow> world" where
  "loadPatients w =
     (case Database_getPatients w of (patients, w') \<Rightarrow>
        w'\<lparr>cache_patients := patients, trace := trace w' @ [ViewPatientsTable patients]\<rparr>)"

text \<open>\<open>a || b\<close> on numeric properties (\<open>0\<close> and \<open>NaN\<close> are falsy).\<close>

definition js_or_num :: "num option \<Rightarrow> num option \<Rightarrow> num option" where
  "js_or_num a b = (if num_truthy a then a else b)"

text \<open>
  The low-stock test of the inventory table:
  \<open>(item.quantity || 0) <= (item.minStock || item.minimumStock || 10)\<close>.
\<close>

definition isLowRow :: "item \<Rightarrow> bool" where
  "isLowRow item =
     (or_num (i_quantity item) 0 \<le> or_num (js_or_num (i_minStock item) (i_minimumStock item)) 10)"

definition loadInventory :: "world \<Rightarrow> world" where
  "loadInventory w =
     (case Database_getInventory w of (inventory, w') \<Rightarrow>
        w'\<lparr>cache_inventory := inventory,
           trace := trace w' @ [ViewInventoryTable (map (\<lambda>item. (item, isLowRow item)) inventory)]\<rparr>)"


section \<open>The action handlers of \<open>ToolExecutor\<close>\<close>

text \<open>
  \<open>params.x\<close> is \<open>params ''x''\<close>. Each handler returns its outcome and the world it leaves.
  A handler's \<open>try\<close>/\<open>catch\<close> turns the error of a failed call into a failure outcome.
\<close>

type_synonym params = "string \<Rightarrow> string option"

definition opt :: "bool \<Rightarrow> string \<Rightarrow> string" where
  "opt b s = (if b then s else [])"

definition set_if :: "string option \<Rightarrow> string option" where
  "set_if v = (if truthy v then v else None)"

text \<open>
  The block each date-accepting handler starts with: a date with \<open>/\<close> separators, three
  parts and a first part of at most two code units is day/month/year and is rewritten
  year-month-day, month and day filled up with zeros to two code units.
\<close>

definition convertDate :: "string \<Rightarrow> string" where
  "convertDate dateStr =
     (if dateStr \<noteq> [] \<and> CHR ''/'' \<in> set dateStr then
        (let parts = split_on CHR ''/'' dateStr in
         if length parts = 3 \<and> js_length (parts ! 0) \<le> 2
         then parts ! 2 @ ''-'' @ padStart 2 CHR ''0'' (parts ! 1) @ ''-''
                @ padStart 2 CHR ''0'' (parts ! 0)
         else dateStr)
      else dateStr)"

text \<open>The schedule panel after a create: the created date if it is the one shown, else today.\<close>

definition refreshSchedule :: "env \<Rightarrow> string \<Rightarrow> world \<Rightarrow> world" where
  "refreshSchedule e dateStr w =
     (if selectedCalendarDate w = Some dateStr then showDateSchedule dateStr False w
      else loadTodaySchedule e w)"

definition priorityEmoji :: "string option \<Rightarrow> string" where
  "priorityEmoji p =
     (if p = Some ''high'' then sym_red else if p = Some ''low'' then sym_green else sym_yellow)"

definition createPatient :: "env \<Rightarrow> params \<Rightarrow> world \<Rightarrow> outcome \<times> world" where
  "createPatient e params w =
     (let name = or_str (js_or (params ''patientName'') (params ''name'')) [];
          dob = or_str (js_or (params ''patientDob'') (params ''dob'')) [];
          phone = or_str (params ''phone'') [];
          email = or_str (params ''email'') [];
          patient = no_patient\<lparr>p_name := Some name, p_dob := Some dob, p_phone := Some phone,
                      p_email := Some email\<rparr>
      in if name = [] then (failed (sym_cross @ '' Patient name is required.''), w)
         else
           (case Database_createPatient patient w of
              (Inl err, w1) \<Rightarrow> (failed (sym_cross @ '' Failed to create patient: '' @ err), w1)
            | (Inr result, w1) \<Rightarrow>
                (let w2 = loadStats e (loadPatients w1);
                     patientNumber =
                       or_nat (or_nat (p_patientNumber result) (p_patient_number result)) (p_id result)
                 in (done_with
                       (sym_check @ '' Patient created successfully!'' @ nl @ nl @ sym_clipboard
                        @ '' **Details:**'' @ nl @ sym_bullet @ '' Patient #: ''
                        @ interp_nat patientNumber @ nl @ sym_bullet @ '' Name: '' @ name
                        @ opt (dob \<noteq> []) (nl @ sym_bullet @ '' DOB: '' @ formatDate e (Some dob))
                        @ opt (phone \<noteq> []) (nl @ sym_bullet @ '' Phone: '' @ phone)
                        @ opt (email \<noteq> []) (nl @ sym_bullet @ '' Email: '' @ email))
                       (DPatient result), w2))))"

text \<open>\<open>createAppointment\<close> once the patient's name is settled.\<close>

definition createAppointment_named ::
  "env \<Rightarrow> params \<Rightarrow> string option \<Rightarrow> world \<Rightarrow> outcome \<times> world" where
  "createAppointment_named e params patientName w =
     (let dateStr = convertDate (or_str (params ''date'') []);
          time = or_str (params ''time'') [];
          type = or_str (params ''type'') ''checkup'';
          duration = parseInt_or (params ''duration'') 30;
          notes = or_str (params ''notes'') [];
          appointment =
            \<lparr>a_id = None, a_patientName = patientName, a_date = Some dateStr, a_time = Some time,
             a_type = Some type, a_duration = Some (Num duration), a_notes = Some notes,
             a_status = Some (or_str (params ''status'') ''scheduled'')\<rparr>
      in if \<not> truthy patientName
         then (failed (sym_cross @ '' Patient name or number is required.''), w)
         else if dateStr = [] then (failed (sym_cross @ '' Appointment date is required.''), w)
         else
           (case Database_createAppointment appointment w of
              (Inl err, w1) \<Rightarrow>
                (failed (sym_cross @ '' Failed to schedule appointment: '' @ err), w1)
            | (Inr result, w1) \<Rightarrow>
                (let w2 = refreshSchedule e dateStr (renderCalendar (loadStats e w1))
                 in (done_with
                       (sym_check @ '' Appointment scheduled successfully!'' @ nl @ nl
                        @ sym_clipboard @ '' **Details:**'' @ nl @ sym_bullet @ '' Patient: ''
                        @ interp patientName @ nl @ sym_bullet @ '' Date: ''
                        @ formatDate e (Some dateStr)
                        @ opt (time \<noteq> []) (nl @ sym_bullet @ '' Time: '' @ time)
                        @ opt (type \<noteq> []) (nl @ sym_bullet @ '' Type: '' @ type)
                        @ opt (duration \<noteq> 0)
                            (nl @ sym_bullet @ '' Duration: '' @ show_int duration @ '' min'')
                        @ opt (notes \<noteq> []) (nl @ sym_bullet @ '' Notes: '' @ notes)
                        @ nl @ nl @ sym_bulb @ '' Click on the date in the calendar to view it.'')
                       (DAppointment result), w2))))"

definition createAppointment :: "env \<Rightarrow> params \<Rightarrow> world \<Rightarrow> outcome \<times> world" where
  "createAppointment e params w =
     (let patientName = or_str (js_or (params ''patientName'') (params ''patient'')) []
      in if truthy (params ''patientNumber'') \<and> patientName = [] then
           (case window_db_call (DbGetPatient (params ''patientNumber'')) ''getPatient''
                   (db_getPatient (params ''patientNumber'')) w of
              (Inl err, w1) \<Rightarrow>
                (failed (sym_cross @ '' Could not find patient #'' @ interp (params ''patientNumber'')
                         @ ''.''), w1)
            | (Inr None, w1) \<Rightarrow>
                (failed (sym_cross @ '' Patient #'' @ interp (params ''patientNumber'')
                         @ '' not found.''), w1)
            | (Inr (Some patient), w1) \<Rightarrow> createAppointment_named e params (p_name patient) w1)
         else createAppointment_named e params (Some patientName) w)"

definition createDeadline :: "env \<Rightarrow> params \<Rightarrow> world \<Rightarrow> outcome \<times> world" where
  "createDeadline e params w =
     (let dateStr = convertDate (or_str (js_or (params ''date'') (params ''dueDate'')) []);
          title = or_str (js_or (params ''title'') (params ''description'')) [];
          priority = or_str (params ''priority'') ''medium'';
          description = or_str (params ''description'') [];
          deadline =
            \<lparr>d_id = None, d_title = Some title, d_date = Some dateStr, d_dueDate = Some dateStr,
             d_priority = Some priority, d_description = Some description\<rparr>
      in if title = [] then (failed (sym_cross @ '' Deadline title is required.''), w)
         else
           (case Database_createDeadline deadline w of
              (Inl err, w1) \<Rightarrow> (failed (sym_cross @ '' Failed to create deadline: '' @ err), w1)
            | (Inr result, w1) \<Rightarrow>
                (let w2 = refreshSchedule e dateStr (renderCalendar (loadStats e w1))
                 in (done_with
                       (sym_check @ '' Deadline created successfully!'' @ nl @ nl @ sym_clipboard
                        @ '' **Details:**'' @ nl @ sym_bullet @ '' Title: '' @ title @ nl
                        @ sym_bullet @ '' Due: '' @ formatDate e (Some dateStr) @ nl @ sym_bullet
                        @ '' Priority: '' @ priorityEmoji (Some priority) @ '' '' @ priority
                        @ opt (description \<noteq> [])
                            (nl @ sym_bullet @ '' Description: '' @ description)
                        @ nl @ nl @ sym_bulb @ '' Click on the date in the calendar to view it.'')
                       (DDeadline result), w2))))"


definition dq :: string where
  "dq = [CHR 0x22]"

definition addPatientNote :: "params \<Rightarrow> world \<Rightarrow> outcome \<times> world" where
  "addPatientNote params w =
     (case Database_searchPatients (or_str (params ''patientName'') []) w of
        ([], w1) \<Rightarrow>
          (failed (sym_cross @ '' Patient '' @ dq @ interp (params ''patientName'') @ dq
                   @ '' not found.''), w1)
      | (patient # rest, w1) \<Rightarrow>
          (case window_db_call
                  (DbAddPatientNote (p_id patient) (or_str (params ''note'') []) ''admin'')
                  ''addPatientNote''
                  (db_addPatientNote (p_id patient) (or_str (params ''note'') []) ''admin'') w1 of
             (Inl err, w2) \<Rightarrow> (failed (sym_cross @ '' Failed to add note: '' @ err), w2)
           | (Inr result, w2) \<Rightarrow>
               (done_with
                  (sym_check @ '' Note added successfully!'' @ nl @ nl @ sym_clipboard
                   @ '' **Details:**'' @ nl @ sym_bullet @ '' Patient: '' @ interp (p_name patient)
                   @ nl @ sym_bullet @ '' Note: '' @ or_str (params ''note'') ''(empty)'')
                  (DNote result), w2)))"

definition getPatientNotes :: "params \<Rightarrow> world \<Rightarrow> outcome \<times> world" where
  "getPatientNotes params w =
     (case Database_searchPatients (or_str (params ''patientName'') []) w of
        ([], w1) \<Rightarrow>
          (failed (sym_cross @ '' Patient '' @ dq @ interp (params ''patientName'') @ dq
                   @ '' not found.''), w1)
      | (patient # rest, w1) \<Rightarrow>
          (case window_db_call (DbGetPatientNotes (p_id patient)) ''getPatientNotes''
                  (db_getPatientNotes (p_id patient)) w1 of
             (Inl err, w2) \<Rightarrow> (failed (sym_cross @ '' Failed to get notes: '' @ err), w2)
           | (Inr notes, w2) \<Rightarrow>
               (if notes = []
                then (done_msg (sym_clipboard @ '' **'' @ interp (p_name patient)
                                @ ''** - No notes found.''), w2)
                else (done_with
                        (sym_clipboard @ '' **Notes for '' @ interp (p_name patient) @ '':**'' @ nl
                         @ join_nl (map (\<lambda>n. sym_bullet @ '' '' @ interp (js_or (n_note n) (n_text n)))
                                      notes))
                        (DNotes notes), w2))))"

definition listPatients :: "world \<Rightarrow> outcome \<times> world" where
  "listPatients w =
     (case Database_getPatients w of (patients, w1) \<Rightarrow>
        if patients = [] then (done_msg (sym_clipboard @ '' **Patients:** None found.''), w1)
        else
          (let list = join_nl (map (\<lambda>p. sym_bullet @ '' #''
                          @ interp_nat (or_nat (or_nat (p_patientNumber p) (p_patient_number p)) (p_id p))
                          @ '' - '' @ interp (p_name p)) (take 10 patients));
               more = opt (length patients > 10)
                        (nl @ ''... +'' @ show_nat (length patients - 10) @ '' more'')
           in (done_with
                 (sym_clipboard @ '' **Patients ('' @ show_nat (length patients) @ ''):**'' @ nl
                  @ list @ more)
                 (DPatients patients), w1)))"

text \<open>
  \<open>[...xs].sort((a, b) => new Date(a.date) - new Date(b.date))\<close>: a stable sort by time stamp.
  The difference of two dates of which one is invalid is \<open>NaN\<close>, which the sort reads as
  \<open>0\<close>; the order the engine then produces is its own, and is fixed here as that of an
  insertion sort.
\<close>

definition cmp_dates :: "env \<Rightarrow> string option \<Rightarrow> string option \<Rightarrow> int" where
  "cmp_dates e a b = (case (dateMs e a, dateMs e b) of (Some x, Some y) \<Rightarrow> x - y | _ \<Rightarrow> 0)"

fun insort_cmp :: "('a \<Rightarrow> 'a \<Rightarrow> int) \<Rightarrow> 'a \<Rightarrow> 'a list \<Rightarrow> 'a list" where
  "insort_cmp cmp x [] = [x]"
| "insort_cmp cmp x (y # ys) = (if cmp x y \<le> 0 then x # y # ys else y # insort_cmp cmp x ys)"

definition sort_cmp :: "('a \<Rightarrow> 'a \<Rightarrow> int) \<Rightarrow> 'a list \<Rightarrow> 'a list" where
  "sort_cmp cmp xs = foldr (insort_cmp cmp) xs []"

definition listAppointments :: "env \<Rightarrow> world \<Rightarrow> outcome \<times> world" where
  "listAppointments e w =
     (case Database_getAppointments w of (appointments, w1) \<Rightarrow>
        if appointments = []
        then (done_msg (sym_calendar @ '' **Appointments:** None scheduled.''), w1)
        else
          (let sorted = sort_cmp (\<lambda>a b. cmp_dates e (a_date a) (a_date b)) appointments;
               upcoming = filter (\<lambda>a. isUpcoming e (a_date a)) sorted
           in if upcoming = []
              then (done_msg (sym_calendar @ '' **Appointments:** No upcoming appointments.''), w1)
              else
                (let list = join_nl (map (\<lambda>a. sym_bullet @ '' '' @ formatDate e (a_date a) @ '' ''
                                @ or_str (a_time a) [] @ '' - '' @ or_str (a_patientName a) ''Unknown'')
                              (take 8 upcoming));
                     more = opt (length upcoming > 8)
                              (nl @ ''... +'' @ show_nat (length upcoming - 8) @ '' more'')
                 in (done_with
                       (sym_calendar @ '' **Upcoming Appointments ('' @ show_nat (length upcoming)
                        @ ''):**'' @ nl @ list @ more)
                       (DAppointments appointments), w1))))"

definition listDeadlines :: "env \<Rightarrow> world \<Rightarrow> outcome \<times> world" where
  "listDeadlines e w =
     (case Database_getDeadlines w of (deadlines, w1) \<Rightarrow>
        if deadlines = [] then (done_msg (sym_clock @ '' **Deadlines:** None set.''), w1)
        else
          (let sorted = sort_cmp (\<lambda>a b. cmp_dates e (js_or (d_date a) (d_dueDate a))
                                                   (js_or (d_date b) (d_dueDate b))) deadlines;
               upcoming = filter (\<lambda>d. isUpcoming e (js_or (d_date d) (d_dueDate d))) sorted
           in if upcoming = []
              then (done_msg (sym_clock @ '' **Deadlines:** No upcoming deadlines.''), w1)
              else
                (let list = join_nl (map (\<lambda>d. priorityEmoji (d_priority d) @ '' ''
                                @ formatDate e (js_or (d_date d) (d_dueDate d)) @ '' - ''
                                @ interp (d_title d))
                              (take 8 upcoming))
                 in (done_with
                       (sym_clock @ '' **Upcoming Deadlines ('' @ show_nat (length upcoming)
                        @ ''):**'' @ nl @ list)
                       (DDeadlines deadlines), w1))))"

definition searchPatients :: "env \<Rightarrow> params \<Rightarrow> world \<Rightarrow> outcome \<times> world" where
  "searchPatients e params w =
     (let query = or_str (js_or (params ''query'') (params ''patientName'')) []
      in case Database_searchPatients query w of
           ([], w1) \<Rightarrow>
             (done_msg (sym_glass @ '' **Search '' @ dq @ query @ dq @ '':** No patients found.''), w1)
         | ([p], w1) \<Rightarrow>
             (done_with
                (sym_glass @ '' **Found Patient:**'' @ nl @ sym_bullet @ '' Name: '' @ interp (p_name p)
                 @ opt (truthy (p_dob p)) (nl @ sym_bullet @ '' DOB: '' @ formatDate e (p_dob p))
                 @ opt (truthy (p_phone p)) (nl @ sym_bullet @ '' Phone: '' @ interp (p_phone p))
                 @ opt (truthy (p_email p)) (nl @ sym_bullet @ '' Email: '' @ interp (p_email p)))
                (DPatients [p]), w1)
         | (patients, w1) \<Rightarrow>
             (done_with
                (sym_glass @ '' **Found '' @ show_nat (length patients) @ '' patients for '' @ dq
                 @ query @ dq @ '':**'' @ nl
                 @ join_nl (map (\<lambda>p. sym_bullet @ '' '' @ interp (p_name p)
                              @ opt (truthy (p_dob p)) ('' ('' @ formatDate e (p_dob p) @ '')''))
                            patients))
                (DPatients patients), w1))"

text \<open>
  The appointment that update and delete act on: the first whose patient name contains
  the given name, compared in lower case, and whose date is the given date if one is given.
\<close>

definition matchAppointment :: "env \<Rightarrow> params \<Rightarrow> appointment \<Rightarrow> bool" where
  "matchAppointment e params a =
     (str_includes (toLowerCase e (or_str (a_patientName a) []))
                   (toLowerCase e (or_str (params ''patientName'') []))
      \<and> (a_date a = params ''date'' \<or> \<not> truthy (params ''date'')))"

definition deleteAppointment :: "env \<Rightarrow> params \<Rightarrow> world \<Rightarrow> outcome \<times> world" where
  "deleteAppointment e params w =
     (case Database_getAppointments w of (appointments, w1) \<Rightarrow>
        case find (matchAppointment e params) appointments of
          None \<Rightarrow>
            (failed (sym_cross @ '' Appointment not found for '' @ dq
                     @ or_str (params ''patientName'') ''unknown'' @ dq @ ''.''), w1)
        | Some match \<Rightarrow>
            (case Database_deleteAppointment (a_id match) w1 of
               (Inl err, w2) \<Rightarrow>
                 (failed (sym_cross @ '' Failed to delete appointment: '' @ err), w2)
             | (Inr ack, w2) \<Rightarrow>
                 (done_msg
                    (sym_check @ '' Appointment deleted successfully!'' @ nl @ nl @ sym_clipboard
                     @ '' **Deleted:**'' @ nl @ sym_bullet @ '' Patient: ''
                     @ interp (a_patientName match) @ nl @ sym_bullet @ '' Date: ''
                     @ formatDate e (a_date match)
                     @ opt (truthy (a_time match))
                         (nl @ sym_bullet @ '' Time: '' @ interp (a_time match))),
                  loadDashboard e w2)))"

text \<open>The record whose title (or name) contains the search term, compared in lower case.\<close>

definition matchText :: "env \<Rightarrow> string option \<Rightarrow> string option \<Rightarrow> bool" where
  "matchText e field term =
     str_includes (toLowerCase e (or_str field [])) (toLowerCase e (or_str term []))"

definition deleteDeadline :: "env \<Rightarrow> params \<Rightarrow> world \<Rightarrow> outcome \<times> world" where
  "deleteDeadline e params w =
     (case Database_getDeadlines w of (deadlines, w1) \<Rightarrow>
        case find (\<lambda>d. matchText e (d_title d) (params ''title'')) deadlines of
          None \<Rightarrow>
            (failed (sym_cross @ '' Deadline '' @ dq @ or_str (params ''title'') ''unknown'' @ dq
                     @ '' not found.''), w1)
        | Some match \<Rightarrow>
            (case Database_deleteDeadline (d_id match) w1 of
               (Inl err, w2) \<Rightarrow> (failed (sym_cross @ '' Failed to delete deadline: '' @ err), w2)
             | (Inr ack, w2) \<Rightarrow>
                 (done_msg
                    (sym_check @ '' Deadline deleted successfully!'' @ nl @ nl @ sym_clipboard
                     @ '' **Deleted:**'' @ nl @ sym_bullet @ '' Title: '' @ interp (d_title match)
                     @ nl @ sym_bullet @ '' Due: ''
                     @ formatDate e (js_or (d_date match) (d_dueDate match))),
                  loadDashboard e w2)))"


definition patientNotFound :: "params \<Rightarrow> string" where
  "patientNotFound params =
     sym_cross @ '' Patient '' @ dq @ interp (js_or (params ''patientName'') (params ''name'')) @ dq
     @ '' not found.''"

definition updatePatient :: "env \<Rightarrow> params \<Rightarrow> world \<Rightarrow> outcome \<times> world" where
  "updatePatient e params w =
     (case Database_searchPatients (or_str (js_or (params ''patientName'') (params ''name'')) []) w of
        ([], w1) \<Rightarrow> (failed (patientNotFound params), w1)
      | (patient # rest, w1) \<Rightarrow>
          (let updates = no_patient\<lparr>p_name := set_if (params ''newName''),
                           p_dob := set_if (params ''newDob''),
                           p_phone := set_if (params ''newPhone''),
                           p_email := set_if (params ''newEmail'')\<rparr>
           in case Database_updatePatient (p_id patient) updates w1 of
                (Inl err, w2) \<Rightarrow> (failed (sym_cross @ '' Failed to update patient: '' @ err), w2)
              | (Inr ack, w2) \<Rightarrow>
                  (done_with
                     (sym_check @ '' Patient updated successfully!'' @ nl @ nl @ sym_clipboard
                      @ '' **Updated:**'' @ nl @ sym_bullet @ '' Name: ''
                      @ interp (js_or (p_name updates) (p_name patient))
                      @ opt (truthy (p_dob updates))
                          (nl @ sym_bullet @ '' DOB: '' @ formatDate e (p_dob updates))
                      @ opt (truthy (p_phone updates))
                          (nl @ sym_bullet @ '' Phone: '' @ interp (p_phone updates)))
                     (DPatient (updates\<lparr>p_id := p_id patient\<rparr>)),
                   loadPatients w2)))"

definition deletePatient :: "env \<Rightarrow> params \<Rightarrow> world \<Rightarrow> outcome \<times> world" where
  "deletePatient e params w =
     (case Database_searchPatients (or_str (js_or (params ''patientName'') (params ''name'')) []) w of
        ([], w1) \<Rightarrow> (failed (patientNotFound params), w1)
      | (patient # rest, w1) \<Rightarrow>
          (case Database_deletePatient (p_id patient) w1 of
             (Inl err, w2) \<Rightarrow> (failed (sym_cross @ '' Failed to delete patient: '' @ err), w2)
           | (Inr ack, w2) \<Rightarrow>
               (done_msg
                  (sym_check @ '' Patient deleted successfully!'' @ nl @ nl @ sym_clipboard
                   @ '' **Deleted:**'' @ nl @ sym_bullet @ '' Name: '' @ interp (p_name patient)
                   @ opt (truthy (p_dob patient))
                       (nl @ sym_bullet @ '' DOB: '' @ formatDate e (p_dob patient))),
                loadStats e (loadPatients w2))))"

definition patientDetails :: "env \<Rightarrow> patient \<Rightarrow> outcome" where
  "patientDetails e patient =
     done_with
       (sym_clipboard @ '' **Patient Details:**'' @ nl @ sym_bullet @ '' Name: ''
        @ interp (p_name patient)
        @ opt (truthy (p_dob patient)) (nl @ sym_bullet @ '' DOB: '' @ formatDate e (p_dob patient))
        @ opt (truthy (p_phone patient)) (nl @ sym_bullet @ '' Phone: '' @ interp (p_phone patient))
        @ opt (truthy (p_email patient)) (nl @ sym_bullet @ '' Email: '' @ interp (p_email patient))
        @ opt (nat_truthy (p_patientNumber patient))
            (nl @ sym_bullet @ '' Patient #: '' @ interp_nat (p_patientNumber patient)))
       (DPatient patient)"

definition getPatient :: "env \<Rightarrow> params \<Rightarrow> world \<Rightarrow> outcome \<times> world" where
  "getPatient e params w =
     (if truthy (params ''patientNumber'') then
        (case window_db_call (DbGetPatient (params ''patientNumber'')) ''getPatient''
                (db_getPatient (params ''patientNumber'')) w of
           (Inl err, w1) \<Rightarrow> (failed (sym_cross @ '' Failed to get patient: '' @ err), w1)
         | (Inr None, w1) \<Rightarrow> (failed (sym_cross @ '' Patient not found.''), w1)
         | (Inr (Some patient), w1) \<Rightarrow> (patientDetails e patient, w1))
      else if truthy (params ''patientName'') then
        (case Database_searchPatients (interp (params ''patientName'')) w of
           ([], w1) \<Rightarrow> (failed (sym_cross @ '' Patient not found.''), w1)
         | (patient # rest, w1) \<Rightarrow> (patientDetails e patient, w1))
      else (failed (sym_cross @ '' Patient not found.''), w))"

definition updateAppointment :: "env \<Rightarrow> params \<Rightarrow> world \<Rightarrow> outcome \<times> world" where
  "updateAppointment e params w =
     (case Database_getAppointments w of (appointments, w1) \<Rightarrow>
        case find (matchAppointment e params) appointments of
          None \<Rightarrow> (failed (sym_cross @ '' Appointment not found.''), w1)
        | Some match \<Rightarrow>
            (let updates = no_appointment\<lparr>a_date := set_if (params ''newDate''),
                             a_time := set_if (params ''newTime''),
                             a_type := set_if (params ''newType''),
                             a_status := set_if (params ''newStatus''),
                             a_notes := set_if (params ''newNotes'')\<rparr>
             in case Database_updateAppointment (a_id match) updates w1 of
                  (Inl err, w2) \<Rightarrow>
                    (failed (sym_cross @ '' Failed to update appointment: '' @ err), w2)
                | (Inr ack, w2) \<Rightarrow>
                    (done_with
                       (sym_check @ '' Appointment updated successfully!'' @ nl @ nl
                        @ sym_clipboard @ '' **Updated:**'' @ nl @ sym_bullet @ '' Patient: ''
                        @ interp (a_patientName match) @ nl @ sym_bullet @ '' Date: ''
                        @ (if truthy (a_date updates) then formatDate e (a_date updates)
                           else formatDate e (a_date match))
                        @ (if truthy (a_time updates)
                           then nl @ sym_bullet @ '' Time: '' @ interp (a_time updates)
                           else if truthy (a_time match)
                           then nl @ sym_bullet @ '' Time: '' @ interp (a_time match)
                           else []))
                       (DAppointment (updates\<lparr>a_id := a_id match\<rparr>)),
                     loadDashboard e w2)))"

definition getAppointmentsByDate :: "env \<Rightarrow> params \<Rightarrow> world \<Rightarrow> outcome \<times> world" where
  "getAppointmentsByDate e params w =
     (let dateStr = convertDate (or_str (params ''date'') [])
      in case window_db_call (DbGetAppointmentsByDate dateStr) ''getAppointmentsByDate''
                (db_getAppointmentsByDate dateStr) w of
           (Inl err, w1) \<Rightarrow> (failed (sym_cross @ '' Failed to get appointments: '' @ err), w1)
         | (Inr appointments, w1) \<Rightarrow>
             (if appointments = []
              then (done_msg (sym_calendar @ '' **Appointments for '' @ formatDate e (Some dateStr)
                              @ '':** None scheduled.''), w1)
              else (done_with
                      (sym_calendar @ '' **Appointments for '' @ formatDate e (Some dateStr) @ '' (''
                       @ show_nat (length appointments) @ ''):**'' @ nl
                       @ join_nl (map (\<lambda>a. sym_bullet @ '' '' @ or_str (a_time a) ''All day''
                                    @ '' - '' @ or_str (a_patientName a) ''Unknown''
                                    @ opt (truthy (a_type a)) ('' ('' @ interp (a_type a) @ '')''))
                                  appointments))
                      (DAppointments appointments), w1)))"

definition updateDeadline :: "env \<Rightarrow> params \<Rightarrow> world \<Rightarrow> outcome \<times> world" where
  "updateDeadline e params w =
     (case Database_getDeadlines w of (deadlines, w1) \<Rightarrow>
        case find (\<lambda>d. matchText e (d_title d) (js_or (params ''title'') (params ''oldTitle'')))
               deadlines of
          None \<Rightarrow>
            (failed (sym_cross @ '' Deadline '' @ dq
                     @ interp (js_or (params ''title'') (params ''oldTitle'')) @ dq
                     @ '' not found.''), w1)
        | Some match \<Rightarrow>
            (let updates = no_deadline\<lparr>d_title := set_if (params ''newTitle''),
                             d_date := set_if (params ''newDate''),
                             d_priority := set_if (params ''newPriority''),
                             d_description := set_if (params ''newDescription'')\<rparr>
             in case Database_updateDeadline (d_id match) updates w1 of
                  (Inl err, w2) \<Rightarrow> (failed (sym_cross @ '' Failed to update deadline: '' @ err), w2)
                | (Inr ack, w2) \<Rightarrow>
                    (done_with
                       (sym_check @ '' Deadline updated successfully!'' @ nl @ nl @ sym_clipboard
                        @ '' **Updated:**'' @ nl @ sym_bullet @ '' Title: ''
                        @ interp (js_or (d_title updates) (d_title match)) @ nl @ sym_bullet
                        @ '' Due: ''
                        @ (if truthy (d_date updates) then formatDate e (d_date updates)
                           else formatDate e (js_or (d_date match) (d_dueDate match))))
                       (DDeadline (updates\<lparr>d_id := d_id match\<rparr>)),
                     loadDashboard e w2)))"

definition getDeadlineDetails :: "env \<Rightarrow> params \<Rightarrow> world \<Rightarrow> outcome \<times> world" where
  "getDeadlineDetails e params w =
     (case Database_getDeadlines w of (deadlines, w1) \<Rightarrow>
        case find (\<lambda>d. matchText e (d_title d) (params ''title'')) deadlines of
          None \<Rightarrow>
            (failed (sym_cross @ '' Deadline '' @ dq @ interp (params ''title'') @ dq
                     @ '' not found.''), w1)
        | Some match \<Rightarrow>
            (done_with
               (sym_clock @ '' **Deadline Details:**'' @ nl @ sym_bullet @ '' Title: ''
                @ interp (d_title match) @ nl @ sym_bullet @ '' Due: ''
                @ formatDate e (js_or (d_date match) (d_dueDate match)) @ nl @ sym_bullet
                @ '' Priority: '' @ priorityEmoji (d_priority match) @ '' ''
                @ or_str (d_priority match) ''medium''
                @ opt (truthy (d_description match))
                    (nl @ sym_bullet @ '' Description: '' @ interp (d_description match)))
               (DDeadline match), w1))"

definition deadlineLine :: "deadline \<Rightarrow> string" where
  "deadlineLine d =
     priorityEmoji (d_priority d) @ '' '' @ interp (d_title d)
     @ opt (truthy (d_description d)) ('' - '' @ interp (d_description d))"

definition getDeadlinesByDate :: "env \<Rightarrow> params \<Rightarrow> world \<Rightarrow> outcome \<times> world" where
  "getDeadlinesByDate e params w =
     (let dateStr = convertDate (or_str (params ''date'') [])
      in case Database_getDeadlines w of (deadlines, w1) \<Rightarrow>
           (let filtered = filter (\<lambda>d. js_or (d_date d) (d_dueDate d) = Some dateStr) deadlines
            in if filtered = []
               then (done_msg (sym_clock @ '' **Deadlines for '' @ formatDate e (Some dateStr)
                               @ '':** None set.''), w1)
               else (done_with
                       (sym_clock @ '' **Deadlines for '' @ formatDate e (Some dateStr) @ '' (''
                        @ show_nat (length filtered) @ ''):**'' @ nl
                        @ join_nl (map deadlineLine filtered))
                       (DDeadlines filtered), w1)))"

definition searchDeadlines :: "env \<Rightarrow> params \<Rightarrow> world \<Rightarrow> outcome \<times> world" where
  "searchDeadlines e params w =
     (let query = or_str (js_or (params ''query'') (params ''title'')) []
      in case Database_getDeadlines w of (deadlines, w1) \<Rightarrow>
           (let filtered = filter (\<lambda>d. matchText e (d_title d) (Some query)
                                        \<or> matchText e (d_description d) (Some query)) deadlines
            in if filtered = []
               then (done_msg (sym_glass @ '' **Search '' @ dq @ query @ dq
                               @ '':** No deadlines found.''), w1)
               else (done_with
                       (sym_glass @ '' **Found '' @ show_nat (length filtered) @ '' deadlines for ''
                        @ dq @ query @ dq @ '':**'' @ nl
                        @ join_nl (map (\<lambda>d. priorityEmoji (d_priority d) @ '' ''
                                     @ formatDate e (js_or (d_date d) (d_dueDate d)) @ '' - ''
                                     @ interp (d_title d)) filtered))
                       (DDeadlines filtered), w1)))"


text \<open>
  The low-stock test of the inventory handlers: \<open>(i.quantity || 0) <= (i.minStock || 10)\<close>.
\<close>

definition isLow :: "item \<Rightarrow> bool" where
  "isLow i = (or_num (i_quantity i) 0 \<le> or_num (i_minStock i) 10)"

definition createInventoryItem :: "env \<Rightarrow> params \<Rightarrow> world \<Rightarrow> outcome \<times> world" where
  "createInventoryItem e params w =
     (let name = or_str (js_or (params ''name'') (params ''itemName'')) [];
          category = or_str (params ''category'') ''consumables'';
          quantity = parseInt_or (params ''quantity'') 0;
          minStock = parseInt_or (js_or (params ''minStock'') (params ''minimumStock'')) 10;
          unit = or_str (params ''unit'') [];
          item = no_item\<lparr>i_name := Some name, i_category := Some category,
                   i_quantity := Some (Num quantity), i_minStock := Some (Num minStock),
                   i_unit := Some unit\<rparr>
      in if name = [] then (failed (sym_cross @ '' Item name is required.''), w)
         else
           (case Database_createInventoryItem item w of
              (Inl err, w1) \<Rightarrow>
                (failed (sym_cross @ '' Failed to create inventory item: '' @ err), w1)
            | (Inr result, w1) \<Rightarrow>
                (done_with
                   (sym_check @ '' Inventory item created successfully!'' @ nl @ nl @ sym_clipboard
                    @ '' **Details:**'' @ nl @ sym_bullet @ '' Name: '' @ name @ nl @ sym_bullet
                    @ '' Category: '' @ category @ nl @ sym_bullet @ '' Quantity: ''
                    @ show_int quantity @ '' '' @ unit @ nl @ sym_bullet @ '' Min Stock: ''
                    @ show_int minStock)
                   (DItem result),
                 loadStats e (loadInventory w1))))"


definition itemNotFound :: "params \<Rightarrow> string" where
  "itemNotFound params =
     sym_cross @ '' Inventory item '' @ dq @ interp (js_or (params ''name'') (params ''itemName''))
     @ dq @ '' not found.''"

definition updateInventoryItem :: "env \<Rightarrow> params \<Rightarrow> world \<Rightarrow> outcome \<times> world" where
  "updateInventoryItem e params w =
     (case Database_getInventory w of (inventory, w1) \<Rightarrow>
        case find (\<lambda>i. matchText e (i_name i) (js_or (params ''name'') (params ''itemName'')))
               inventory of
          None \<Rightarrow> (failed (itemNotFound params), w1)
        | Some match \<Rightarrow>
            (let updates = no_item\<lparr>i_name := set_if (params ''newName''),
                             i_quantity := (case params ''newQuantity'' of None \<Rightarrow> None
                                            | Some v \<Rightarrow> Some (parseInt (Some v))),
                             i_minStock := (case params ''newMinStock'' of None \<Rightarrow> None
                                            | Some v \<Rightarrow> Some (parseInt (Some v))),
                             i_category := set_if (params ''newCategory''),
                             i_unit := set_if (params ''newUnit'')\<rparr>
             in case Database_updateInventoryItem (i_id match) updates w1 of
                  (Inl err, w2) \<Rightarrow>
                    (failed (sym_cross @ '' Failed to update inventory item: '' @ err), w2)
                | (Inr ack, w2) \<Rightarrow>
                    (done_with
                       (sym_check @ '' Inventory item updated successfully!'' @ nl @ nl
                        @ sym_clipboard @ '' **Updated:**'' @ nl @ sym_bullet @ '' Name: ''
                        @ interp (js_or (i_name updates) (i_name match)) @ nl @ sym_bullet
                        @ '' Quantity: ''
                        @ interp_num (pick (i_quantity updates) (i_quantity match)) @ '' ''
                        @ or_str (js_or (i_unit updates) (i_unit match)) [])
                       (DItem (updates\<lparr>i_id := i_id match\<rparr>)),
                     loadInventory w2)))"

definition deleteInventoryItem :: "env \<Rightarrow> params \<Rightarrow> world \<Rightarrow> outcome \<times> world" where
  "deleteInventoryItem e params w =
     (case Database_getInventory w of (inventory, w1) \<Rightarrow>
        case find (\<lambda>i. matchText e (i_name i) (js_or (params ''name'') (params ''itemName'')))
               inventory of
          None \<Rightarrow> (failed (itemNotFound params), w1)
        | Some match \<Rightarrow>
            (case Database_deleteInventoryItem (i_id match) w1 of
               (Inl err, w2) \<Rightarrow>
                 (failed (sym_cross @ '' Failed to delete inventory item: '' @ err), w2)
             | (Inr ack, w2) \<Rightarrow>
                 (done_with
                    (sym_check @ '' Inventory item deleted successfully!'' @ nl @ nl
                     @ sym_clipboard @ '' **Deleted:**'' @ nl @ sym_bullet @ '' Name: ''
                     @ interp (i_name match) @ nl @ sym_bullet @ '' Category: ''
                     @ or_str (i_category match) ''N/A'')
                    (DItem (no_item\<lparr>i_id := i_id match\<rparr>)),
                  loadStats e (loadInventory w2))))"

definition listInventoryItems :: "params \<Rightarrow> world \<Rightarrow> outcome \<times> world" where
  "listInventoryItems params w =
     (case Database_getInventory w of (inventory, w1) \<Rightarrow>
        if inventory = [] then (done_msg (sym_box @ '' **Inventory:** No items found.''), w1)
        else
          (let filtered = (if truthy (params ''lowStock'') then filter isLow inventory
                           else inventory)
           in if filtered = []
              then (done_msg (sym_box @ '' **Low Stock Items:** None found.''), w1)
              else
                (let list = join_nl (map (\<lambda>i. (if isLow i then sym_red else sym_green) @ '' ''
                                @ interp (i_name i) @ '' - '' @ show_int (or_num (i_quantity i) 0)
                                @ '' '' @ or_str (i_unit i) [] @ '' (min: ''
                                @ show_int (or_num (i_minStock i) 10) @ '')'')
                              (take 10 filtered));
                     more = opt (length filtered > 10)
                              (nl @ ''... +'' @ show_nat (length filtered - 10) @ '' more'')
                 in (done_with
                       (sym_box @ '' **Inventory ('' @ show_nat (length filtered) @ ''):**'' @ nl
                        @ list @ more)
                       (DItems filtered), w1))))"

definition searchInventory :: "env \<Rightarrow> params \<Rightarrow> world \<Rightarrow> outcome \<times> world" where
  "searchInventory e params w =
     (let query = or_str (js_or (params ''query'') (params ''name'')) []
      in case Database_getInventory w of (inventory, w1) \<Rightarrow>
           (let filtered = filter (\<lambda>i. matchText e (i_name i) (Some query)
                                        \<or> matchText e (i_category i) (Some query)) inventory
            in if filtered = []
               then (done_msg (sym_glass @ '' **Search '' @ dq @ query @ dq
                               @ '':** No inventory items found.''), w1)
               else (done_with
                       (sym_glass @ '' **Found '' @ show_nat (length filtered) @ '' items for '' @ dq
                        @ query @ dq @ '':**'' @ nl
                        @ join_nl (map (\<lambda>i. (if isLow i then sym_red else sym_green) @ '' ''
                                     @ interp (i_name i) @ '' - ''
                                     @ show_int (or_num (i_quantity i) 0) @ '' ''
                                     @ or_str (i_unit i) []) filtered))
                       (DItems filtered), w1)))"

text \<open>
  \<open>getLowStockItems\<close> asks the collaborator for the low-stock items and marks every item it
  returns; it does not test the items itself.
\<close>

definition getLowStockItems :: "world \<Rightarrow> outcome \<times> world" where
  "getLowStockItems w =
     (case window_db_call DbGetLowStock ''getLowStock'' db_getLowStock w of
        (Inl err, w1) \<Rightarrow> (failed (sym_cross @ '' Failed to get low stock items: '' @ err), w1)
      | (Inr items, w1) \<Rightarrow>
          (if items = []
           then (done_msg (sym_box
                   @ '' **Low Stock Items:** None found. All items are well stocked.''), w1)
           else (done_with
                   (sym_box @ '' **Low Stock Items ('' @ show_nat (length items) @ ''):**'' @ nl
                    @ join_nl (map (\<lambda>i. sym_red @ '' '' @ interp (js_or (i_name i) (i_item_name i))
                                 @ '' - '' @ show_int (or_num (i_quantity i) 0) @ '' ''
                                 @ or_str (i_unit i) [] @ '' (min: ''
                                 @ show_int (or_num (js_or_num (i_minStock i) (i_min_quantity i)) 10)
                                 @ '')'') items))
                   (DItems items), w1)))"

definition answerQuestion :: "params \<Rightarrow> outcome" where
  "answerQuestion params =
     done_msg (or_str (js_or (js_or (params ''response'') (params ''answer'')) (params ''message''))
       ''How can I help you? I can create appointments, manage patients, set deadlines, and more.'')"

section \<open>The dispatcher\<close>

text \<open>
  \<open>ToolExecutor.execute\<close>: the connection check, then the \<open>switch\<close> on the lower-cased tool
  name, its cases in the order of the source.
\<close>

definition apostrophe :: string where
  "apostrophe = [CHR 0x27]"

definition execute :: "env \<Rightarrow> string \<Rightarrow> params \<Rightarrow> world \<Rightarrow> outcome \<times> world" where
  "execute e toolName params w =
     (if \<not> isConnected w
      then (failed (sym_cross @ '' Database not connected. Please restart the application.''), w)
      else
        (let t = toLowerCase e toolName in
         if t = ''create_patient'' then createPatient e params w
         else if t = ''edit_patient'' \<or> t = ''update_patient'' then updatePatient e params w
         else if t = ''delete_patient'' then deletePatient e params w
         else if t = ''search_patients'' then searchPatients e params w
         else if t = ''list_patients'' \<or> t = ''get_patients'' then listPatients w
         else if t = ''get_patient'' then getPatient e params w
         else if t = ''add_patient_note'' then addPatientNote params w
         else if t = ''get_patient_notes'' then getPatientNotes params w
         else if t = ''create_appointment'' then createAppointment e params w
         else if t = ''edit_appointment'' \<or> t = ''update_appointment''
           then updateAppointment e params w
         else if t = ''delete_appointment'' then deleteAppointment e params w
         else if t = ''list_appointments'' \<or> t = ''get_appointments'' then listAppointments e w
         else if t = ''get_appointment'' then
           (if truthy (params ''patientName'') \<and> truthy (params ''date'')
            then createAppointment e params w
            else listAppointments e w)
         else if t = ''get_appointments_for_date'' \<or> t = ''get_appointments_by_date''
           then getAppointmentsByDate e params w
         else if t = ''create_deadline'' then createDeadline e params w
         else if t = ''edit_deadline'' \<or> t = ''update_deadline'' then updateDeadline e params w
         else if t = ''delete_deadline'' then deleteDeadline e params w
         else if t = ''list_upcoming_deadlines'' \<or> t = ''list_deadlines'' \<or> t = ''get_deadlines''
           then listDeadlines e w
         else if t = ''get_deadline'' \<or> t = ''get_deadline_details''
           then getDeadlineDetails e params w
         else if t = ''get_deadlines_for_date'' \<or> t = ''get_deadlines_by_date''
           then getDeadlinesByDate e params w
         else if t = ''search_deadlines'' then searchDeadlines e params w
         else if t = ''create_inventory_item'' \<or> t = ''add_inventory_item''
           then createInventoryItem e params w
         else if t = ''edit_inventory_item'' \<or> t = ''update_inventory_item''
           then updateInventoryItem e params w
         else if t = ''delete_inventory_item'' \<or> t = ''remove_inventory_item''
           then deleteInventoryItem e params w
         else if t = ''list_inventory_items'' \<or> t = ''get_inventory'' \<or> t = ''list_inventory''
           then listInventoryItems params w
         else if t = ''search_inventory'' then searchInventory e params w
         else if t = ''get_low_stock'' \<or> t = ''list_low_stock'' then getLowStockItems w
         else if t = ''answer_question'' then (answerQuestion params, w)
         else if truthy (params ''patientName'') \<and> truthy (params ''date'')
           then createAppointment e params w
         else (done_msg (or_str (js_or (params ''response'') (params ''message''))
                 (''I'' @ apostrophe @ ''ve processed your request. Is there anything else?'')), w)))"

text \<open>The names the \<open>switch\<close> has a case for.\<close>

definition registered :: "string list" where
  "registered =
     [''create_patient'', ''edit_patient'', ''update_patient'', ''delete_patient'',
      ''search_patients'', ''list_patients'', ''get_patients'', ''get_patient'',
      ''add_patient_note'', ''get_patient_notes'', ''create_appointment'', ''edit_appointment'',
      ''update_appointment'', ''delete_appointment'', ''list_appointments'', ''get_appointments'',
      ''get_appointment'', ''get_appointments_for_date'', ''get_appointments_by_date'',
      ''create_deadline'', ''edit_deadline'', ''update_deadline'', ''delete_deadline'',
      ''list_upcoming_deadlines'', ''list_deadlines'', ''get_deadlines'', ''get_deadline'',
      ''get_deadline_details'', ''get_deadlines_for_date'', ''get_deadlines_by_date'',
      ''search_deadlines'', ''create_inventory_item'', ''add_inventory_item'',
      ''edit_inventory_item'', ''update_inventory_item'', ''delete_inventory_item'',
      ''remove_inventory_item'', ''list_inventory_items'', ''get_inventory'', ''list_inventory'',
      ''search_inventory'', ''get_low_stock'', ''list_low_stock'', ''answer_question'']"


section \<open>The entity-mention linker\<close>

text \<open>
  \<open>escapeHtml\<close> writes the text into a detached element and reads its markup back: the
  ampersand, the angle brackets and the no-break space (two bytes in UTF-8) are escaped.
\<close>

fun escapeHtml :: "string \<Rightarrow> string" where
  "escapeHtml [] = []"
| "escapeHtml [c] =
     (if c = CHR ''&'' then ''&amp;'' else if c = CHR ''<'' then ''&lt;''
      else if c = CHR ''>'' then ''&gt;'' else [c])"
| "escapeHtml (c # d # cs) =
     (if c = CHR 0xC2 \<and> d = CHR 0xA0 then ''&nbsp;'' @ escapeHtml cs
      else if c = CHR ''&'' then ''&amp;'' @ escapeHtml (d # cs)
      else if c = CHR ''<'' then ''&lt;'' @ escapeHtml (d # cs)
      else if c = CHR ''>'' then ''&gt;'' @ escapeHtml (d # cs)
      else c # escapeHtml (d # cs))"

subsection \<open>Regular expressions of the linker\<close>

text \<open>
  \<open>text.replace(regex, callback)\<close> with a global regular expression: the text is scanned
  from the left; where the expression matches, the match is replaced by what the callback
  returns and the scan goes on behind it. A matcher gives the length of the match that starts
  at the head of the remaining text, \<open>0\<close> for none; it sees the character before, for \<open>\b\<close>.
\<close>

function regexReplaceAll ::
  "(char option \<Rightarrow> string \<Rightarrow> nat) \<Rightarrow> (string \<Rightarrow> string) \<Rightarrow> char option \<Rightarrow> string \<Rightarrow> string" where
  "regexReplaceAll mt f prev [] = []"
| "regexReplaceAll mt f prev (c # cs) =
     (if mt prev (c # cs) = 0 then c # regexReplaceAll mt f (Some c) cs
      else f (take (mt prev (c # cs)) (c # cs))
           @ regexReplaceAll mt f (Some (last (take (mt prev (c # cs)) (c # cs))))
               (drop (mt prev (c # cs)) (c # cs)))"
  by pat_completeness auto
termination
  by (relation "measure (\<lambda>(mt, f, prev, s). length s)") auto

text \<open>Word characters, and the boundary \<open>\b\<close> between two neighbours (\<open>None\<close>: no character).\<close>

definition is_word :: "char option \<Rightarrow> bool" where
  "is_word c =
     (case c of None \<Rightarrow> False
      | Some x \<Rightarrow> x \<in> set ''abcdefghijklmnopqrstuvwxyzABCDEFGHIJKLMNOPQRSTUVWXYZ0123456789_'')"

definition boundary :: "char option \<Rightarrow> char option \<Rightarrow> bool" where
  "boundary l r = (is_word l \<noteq> is_word r)"

definition nextChar :: "string \<Rightarrow> char option" where
  "nextChar s = (case s of [] \<Rightarrow> None | c # cs \<Rightarrow> Some c)"

text \<open>
  A literal read without regard to case (flag \<open>i\<close>) at the head of the text; case is folded
  for the letters of ASCII.
\<close>

definition startsWithCI :: "string \<Rightarrow> string \<Rightarrow> bool" where
  "startsWithCI lit s = (length lit \<le> length s \<and> asciiLower (take (length lit) s) = asciiLower lit)"

text \<open>\<open>new RegExp('\\b' + escapeRegex(name) + '\\b', 'gi')\<close>: the name as a whole word.\<close>

definition wordMatcher :: "string \<Rightarrow> char option \<Rightarrow> string \<Rightarrow> nat" where
  "wordMatcher name prev s =
     (if name \<noteq> [] \<and> startsWithCI name s \<and> boundary prev (nextChar s)
         \<and> boundary (Some (last (take (length name) s))) (nextChar (drop (length name) s))
      then length name else 0)"

text \<open>
  \<open>new RegExp('(?:patient\\s*)?#' + patientNumber + '\\b', 'gi')\<close>: the number behind a hash
  sign, with the word \<open>patient\<close> and white space before it if they are there.
\<close>

definition hashNumberLength :: "string \<Rightarrow> string \<Rightarrow> nat" where
  "hashNumberLength digits s =
     (if startsWithCI (CHR ''#'' # digits) s
         \<and> boundary (Some (last (CHR ''#'' # digits))) (nextChar (drop (Suc (length digits)) s))
      then Suc (length digits) else 0)"

definition numberMatcher :: "string \<Rightarrow> char option \<Rightarrow> string \<Rightarrow> nat" where
  "numberMatcher digits prev s =
     (if startsWithCI ''patient'' s then
        (let spaces = length (drop 7 s) - length (drop_spaces (drop 7 s));
             n = hashNumberLength digits (drop (7 + spaces) s)
         in if n = 0 then 0 else 7 + spaces + n)
      else hashNumberLength digits s)"

subsection \<open>Placeholders for existing markup\<close>

definition placeholder :: "nat \<Rightarrow> string" where
  "placeholder k = ''__PLACEHOLDER_'' @ show_nat k @ ''__''"

text \<open>
  \<open>text.replace(/<[^>]+>/g, ...)\<close>: every tag, from a \<open><\<close> through at least one other
  character to the next \<open>>\<close>, is replaced by the next placeholder and remembered under it.
\<close>

function extractTags :: "nat \<Rightarrow> string \<Rightarrow> string \<times> (string \<times> string) list" where
  "extractTags k [] = ([], [])"
| "extractTags k (c # cs) =
     (if c = CHR ''<'' \<and> takeWhile (\<lambda>x. x \<noteq> CHR ''>'') cs \<noteq> []
         \<and> dropWhile (\<lambda>x. x \<noteq> CHR ''>'') cs \<noteq> []
      then (case extractTags (Suc k) (tl (dropWhile (\<lambda>x. x \<noteq> CHR ''>'') cs)) of
              (t, m) \<Rightarrow> (placeholder k @ t,
                         (placeholder k, c # takeWhile (\<lambda>x. x \<noteq> CHR ''>'') cs @ ''>'') # m))
      else (case extractTags k cs of (t, m) \<Rightarrow> (c # t, m)))"
  by pat_completeness auto
termination
proof (relation "measure (\<lambda>(k, s). length s)")
  fix k :: nat and c :: char and cs :: string
  have "length (dropWhile (\<lambda>x. x \<noteq> CHR ''>'') cs) \<le> length cs"
    by (rule length_dropWhile_le)
  then have "length (tl (dropWhile (\<lambda>x. x \<noteq> CHR ''>'') cs)) \<le> length cs"
    by simp
  then show "c = CHR ''<'' \<and> takeWhile (\<lambda>x. x \<noteq> CHR ''>'') cs \<noteq> []
          \<and> dropWhile (\<lambda>x. x \<noteq> CHR ''>'') cs \<noteq> [] \<Longrightarrow>
        ((Suc k, tl (dropWhile (\<lambda>x. x \<noteq> CHR ''>'') cs)), k, c # cs) \<in> measure (\<lambda>(k, s). length s)"
    by simp
qed auto

text \<open>
  \<open>text.replace(placeholder, original)\<close> with two strings: the first occurrence of the
  placeholder is replaced, and in the replacement \<open>$$\<close>, \<open>$&\<close>, \<open>$`\<close> and \<open>$'\<close> stand for a
  dollar sign, the match, the text before it and the text behind it.
\<close>

fun splitFirst :: "string \<Rightarrow> string \<Rightarrow> (string \<times> string) option" where
  "splitFirst pat [] = (if pat = [] then Some ([], []) else None)"
| "splitFirst pat (c # cs) =
     (if prefix pat (c # cs) then Some ([], drop (length pat) (c # cs))
      else (case splitFirst pat cs of None \<Rightarrow> None | Some (b, a) \<Rightarrow> Some (c # b, a)))"

fun expandReplacement :: "string \<Rightarrow> string \<Rightarrow> string \<Rightarrow> string \<Rightarrow> string" where
  "expandReplacement m b a [] = []"
| "expandReplacement m b a [c] = [c]"
| "expandReplacement m b a (c # d # r) =
     (if c = CHR ''$'' \<and> d = CHR ''$'' then CHR ''$'' # expandReplacement m b a r
      else if c = CHR ''$'' \<and> d = CHR ''&'' then m @ expandReplacement m b a r
      else if c = CHR ''$'' \<and> d = CHR 0x60 then b @ expandReplacement m b a r
      else if c = CHR ''$'' \<and> d = CHR 0x27 then a @ expandReplacement m b a r
      else c # expandReplacement m b a (d # r))"

definition replaceFirst :: "string \<Rightarrow> string \<Rightarrow> string \<Rightarrow> string" where
  "replaceFirst pat repl text =
     (case splitFirst pat text of
        None \<Rightarrow> text
      | Some (b, a) \<Rightarrow> b @ expandReplacement pat b a repl @ a)"

subsection \<open>\<open>linkifyEntityMentions\<close>\<close>

definition marker :: string where
  "marker = ''entity-link''"

definition anchor :: "string \<Rightarrow> string \<Rightarrow> string \<Rightarrow> string \<Rightarrow> string \<Rightarrow> string" where
  "anchor kind ident attr val m =
     ''<a href='' @ dq @ ''#'' @ dq @ '' class='' @ dq @ ''entity-link '' @ kind @ ''-link'' @ dq
     @ '' data-type='' @ dq @ kind @ dq @ '' data-id='' @ dq @ ident @ dq
     @ '' data-'' @ attr @ ''='' @ dq @ val @ dq @ ''>'' @ m @ ''</a>''"

definition linkPatient :: "string \<Rightarrow> patient \<Rightarrow> string" where
  "linkPatient linkedText patient =
     (let name = or_str (p_name patient) [];
          byName =
            (if name \<noteq> [] \<and> js_length name > 2
             then regexReplaceAll (wordMatcher name)
                    (anchor ''patient'' (interp_nat (p_id patient)) ''name'' (escapeHtml name))
                    None linkedText
             else linkedText)
      in if nat_truthy (p_patient_number patient)
         then regexReplaceAll (numberMatcher (interp_nat (p_patient_number patient)))
                (anchor ''patient'' (interp_nat (p_id patient)) ''name''
                   (escapeHtml (if name \<noteq> [] then name
                                else ''Patient #'' @ interp_nat (p_patient_number patient))))
                None byName
         else byName)"

definition linkAppointment :: "env \<Rightarrow> string \<Rightarrow> appointment \<Rightarrow> string" where
  "linkAppointment e linkedText appointment =
     (if truthy (a_date appointment) \<and> formatDate e (a_date appointment) \<noteq> []
         \<and> formatDate e (a_date appointment) \<noteq> ''Invalid Date''
      then regexReplaceAll (wordMatcher (formatDate e (a_date appointment)))
             (anchor ''appointment'' (interp_nat (a_id appointment)) ''date''
                (interp (a_date appointment)))
             None linkedText
      else linkedText)"

definition linkDeadline :: "string \<Rightarrow> deadline \<Rightarrow> string" where
  "linkDeadline linkedText deadline =
     (let title = or_str (d_title deadline) []
      in if title \<noteq> [] \<and> js_length title > 3
         then regexReplaceAll (wordMatcher title)
                (anchor ''deadline'' (interp_nat (d_id deadline)) ''title'' (escapeHtml title))
                None linkedText
         else linkedText)"

definition linkItem :: "string \<Rightarrow> item \<Rightarrow> string" where
  "linkItem linkedText item =
     (let itemName = or_str (js_or (i_name item) (i_itemName item)) []
      in if itemName \<noteq> [] \<and> js_length itemName > 2
         then regexReplaceAll (wordMatcher itemName)
                (anchor ''inventory'' (interp_nat (i_id item)) ''name'' (escapeHtml itemName))
                None linkedText
         else linkedText)"

definition linkEntities :: "env \<Rightarrow> world \<Rightarrow> string \<Rightarrow> string" where
  "linkEntities e w t =
     foldl linkItem
       (foldl linkDeadline
          (foldl (linkAppointment e) (foldl linkPatient t (cache_patients w))
             (cache_appointments w))
          (cache_deadlines w))
       (cache_inventory w)"

definition restorePlaceholders :: "string \<Rightarrow> (string \<times> string) list \<Rightarrow> string" where
  "restorePlaceholders t placeholders =
     foldl (\<lambda>linkedText (ph, original). replaceFirst ph original linkedText) t placeholders"

definition linkifyEntityMentions :: "env \<Rightarrow> world \<Rightarrow> string \<Rightarrow> string" where
  "linkifyEntityMentions e w text =
     (if text = [] then text
      else if str_includes text marker then text
      else (case extractTags 0 text of
              (linkedText, placeholders) \<Rightarrow>
                restorePlaceholders (linkEntities e w linkedText) placeholders))"

section \<open>Reading the trace and the store\<close>

text \<open>The records handed to the collaborator's create calls, in the order of the calls.\<close>

definition created_appointments :: "event list \<Rightarrow> appointment list" where
  "created_appointments tr =
     concat (map (\<lambda>ev. case ev of DbCreateAppointment a \<Rightarrow> [a] | _ \<Rightarrow> []) tr)"

definition created_deadlines :: "event list \<Rightarrow> deadline list" where
  "created_deadlines tr =
     concat (map (\<lambda>ev. case ev of DbCreateDeadline d \<Rightarrow> [d] | _ \<Rightarrow> []) tr)"

text \<open>The events a step adds to the trace.\<close>

definition new_events :: "world \<Rightarrow> world \<Rightarrow> event list" where
  "new_events w w' = drop (length (trace w)) (trace w')"

text \<open>An event that hands no record to a create call for appointments or deadlines.\<close>

definition quiet :: "event \<Rightarrow> bool" where
  "quiet ev = (created_appointments [ev] = [] \<and> created_deadlines [ev] = [])"

text \<open>What the collaborator holds.\<close>

definition stored_appointments :: "world \<Rightarrow> appointment list" where
  "stored_appointments w = (case window_db w of None \<Rightarrow> [] | Some db \<Rightarrow> db_appointments db)"

definition stored_deadlines :: "world \<Rightarrow> deadline list" where
  "stored_deadlines w = (case window_db w of None \<Rightarrow> [] | Some db \<Rightarrow> db_deadlines db)"

definition stored_inventory :: "world \<Rightarrow> item list" where
  "stored_inventory w = (case window_db w of None \<Rightarrow> [] | Some db \<Rightarrow> db_inventory db)"

text \<open>The rows of the inventory table as last painted: the name of each item, and whether it is shown as low.\<close>

definition painted_stock :: "world \<Rightarrow> (string option \<times> bool) list" where
  "painted_stock w =
     (case rev (trace w) of
        ViewInventoryTable rows # earlier \<Rightarrow> map (\<lambda>row. (i_name (fst row), snd row)) rows
      | _ \<Rightarrow> [])"

text \<open>The rule of the specification for low stock: the quantity is at most the threshold.\<close>

definition low_by_threshold :: "int \<Rightarrow> int \<Rightarrow> bool" where
  "low_by_threshold quantity threshold = (quantity \<le> threshold)"

text \<open>What the generic outcome of the dispatcher says.\<close>

definition processed :: string where
  "processed = ''I'' @ apostrophe @ ''ve processed your request. Is there anything else?''"

text \<open>
  The appointment a request without a patient name acts on: the first whose date is the date
  given, and the first of all when no date is given.
\<close>

definition appointment_target :: "params \<Rightarrow> appointment list \<Rightarrow> appointment option" where
  "appointment_target params xs =
     (if truthy (params ''date'') then find (\<lambda>a. a_date a = params ''date'') xs
      else (case xs of [] \<Rightarrow> None | a # rest \<Rightarrow> Some a))"

section \<open>Sample clinic\<close>

text \<open>
  A runtime whose clock stands at 1 June 2025 (UTC) and that knows four dates (the sample
  texts are ASCII, and this runtime is never asked for the lower-case form of another text:
  it hands such a text back), a patient, and worlds with and without a reachable
  collaborator.
\<close>

definition sample_env :: env where
  "sample_env =
     \<lparr>lowerCase = (\<lambda>s. s),
      localeDate = (\<lambda>s. case map_of [(''2024-01-01'', ''01/01/2024''), (''2024-02-02'', ''02/02/2024''),
                                         (''2024-12-25'', ''25/12/2024''), (''2030-01-15'', ''15/01/2030'')] s of
                          None \<Rightarrow> ''Invalid Date'' | Some r \<Rightarrow> r),
      dateMs = (\<lambda>x. case x of None \<Rightarrow> None
                    | Some s \<Rightarrow> map_of [(''2024-01-01'', 1704067200000), (''2024-02-02'', 1706832000000),
                                        (''2024-12-25'', 1735084800000), (''2030-01-15'', 1894665600000)] s),
      midnightMs = 1748736000000,
      todayIso = ''2025-06-01''\<rparr>"

definition jane :: patient where
  "jane = no_patient\<lparr>p_id := Some 1, p_name := Some ''Jane Doe'', p_patientNumber := Some 1\<rparr>"

definition empty_db :: database where
  "empty_db = \<lparr>db_patients = [], db_appointments = [], db_deadlines = [], db_inventory = [],
     db_notes = [], db_next_id = 1, db_throws = []\<rparr>"

definition fresh_world :: world where
  "fresh_world = \<lparr>window_db = Some empty_db, cache_patients = [], cache_appointments = [],
     cache_deadlines = [], cache_inventory = [], selectedCalendarDate = None, trace = []\<rparr>"

text \<open>Jane is cached; then the collaborator goes away, or its patient read starts to throw.\<close>

definition offline_world :: world where
  "offline_world = fresh_world\<lparr>window_db := None, cache_patients := [jane]\<rparr>"

definition failing_world :: world where
  "failing_world =
     fresh_world\<lparr>window_db := Some (empty_db\<lparr>db_patients := [jane], db_next_id := 2,
                                     db_throws := [(''getAllPatients'', ''timeout'')]\<rparr>),
                 cache_patients := [jane]\<rparr>"

text \<open>The parameters of a request for Christmas Day, its date written day first.\<close>

definition xmas_params :: params where
  "xmas_params = [''patientName'' \<mapsto> ''Jane Doe'', ''title'' \<mapsto> ''Submit report'',
     ''date'' \<mapsto> ''25/12/2024'']"

text \<open>
  A request for 5 March, day and month of one digit, that names the patient under the alias
  \<open>patient\<close> and has a description for a title; and one that gives the date as \<open>dueDate\<close>.
\<close>

definition march_params :: params where
  "march_params = [''patient'' \<mapsto> ''Jane Doe'', ''description'' \<mapsto> ''Order gloves'',
     ''date'' \<mapsto> ''5/3/2024'']"

definition due_params :: params where
  "due_params = [''title'' \<mapsto> ''Order gloves'', ''dueDate'' \<mapsto> ''5/3/2024'']"

text \<open>
  A request whose month is the letter \<open>e\<close> with an acute accent: two bytes, one code unit.
\<close>

definition accent_params :: params where
  "accent_params = [''patientName'' \<mapsto> ''Jane Doe'',
     ''date'' \<mapsto> ''5/'' @ [CHR 0xC3, CHR 0xA9] @ ''/2024'']"

text \<open>
  The action name \<open>get_low_stoc\<close> followed by the Kelvin sign (\<open>U+212A\<close>), whose lower-case form
  is the letter \<open>k\<close>, and a runtime that knows this.
\<close>

definition kelvin_name :: string where
  "kelvin_name = ''get_low_stoc'' @ [CHR 0xE2, CHR 0x84, CHR 0xAA]"

definition kelvin_env :: env where
  "kelvin_env = sample_env\<lparr>lowerCase := (\<lambda>s. if s = kelvin_name then ''get_low_stock'' else s)\<rparr>"

text \<open>A deadline with both date fields equal, and the request to move it.\<close>

definition report :: deadline where
  "report = \<lparr>d_id = Some 1, d_title = Some ''Submit report'', d_date = Some ''2024-01-01'',
     d_dueDate = Some ''2024-01-01'', d_priority = Some ''high'', d_description = Some []\<rparr>"

definition report_world :: world where
  "report_world =
     fresh_world\<lparr>window_db := Some (empty_db\<lparr>db_deadlines := [report], db_next_id := 2\<rparr>)\<rparr>"

definition postpone_params :: params where
  "postpone_params = [''title'' \<mapsto> ''Submit report'', ''newDate'' \<mapsto> ''2024-02-02'']"

text \<open>Nine deadlines and nine appointments, all on 15 January 2030.\<close>

definition audit :: "nat \<Rightarrow> deadline" where
  "audit k = \<lparr>d_id = Some k, d_title = Some ''Audit'', d_date = Some ''2030-01-15'',
     d_dueDate = Some ''2030-01-15'', d_priority = Some ''medium'', d_description = None\<rparr>"

definition visit :: "nat \<Rightarrow> appointment" where
  "visit k = \<lparr>a_id = Some k, a_patientName = Some ''Jane Doe'', a_date = Some ''2030-01-15'',
     a_time = Some ''09:00'', a_type = Some ''checkup'', a_duration = Some (Num 30),
     a_notes = Some [], a_status = Some ''scheduled''\<rparr>"

definition busy_world :: world where
  "busy_world =
     fresh_world\<lparr>window_db := Some (empty_db\<lparr>db_deadlines := map audit [1, 2, 3, 4, 5, 6, 7, 8, 9],
        db_appointments := map visit [11, 12, 13, 14, 15, 16, 17, 18, 19], db_next_id := 20\<rparr>)\<rparr>"

text \<open>Gloves, five in stock with a threshold of ten, and the request to set the threshold to zero.\<close>

definition gloves :: item where
  "gloves = no_item\<lparr>i_id := Some 1, i_name := Some ''Gloves'', i_category := Some ''consumables'',
     i_quantity := Some (Num 5), i_minStock := Some (Num 10), i_unit := Some ''boxes''\<rparr>"

definition gloves_world :: world where
  "gloves_world =
     fresh_world\<lparr>window_db := Some (empty_db\<lparr>db_inventory := [gloves], db_next_id := 2\<rparr>)\<rparr>"

definition gloves_zero_params :: params where
  "gloves_zero_params = [''name'' \<mapsto> ''Gloves'', ''newMinStock'' \<mapsto> ''0'']"

text \<open>
  Masks, five in stock, as the inventory form saves them with a threshold of three (it writes
  \<open>minStock\<close> and \<open>minimumStock\<close>); the request to set their threshold to zero, the world it
  leaves, and the request for the low-stock list.
\<close>

definition masks :: item where
  "masks = no_item\<lparr>i_id := Some 1, i_name := Some ''Masks'', i_category := Some ''consumables'',
     i_quantity := Some (Num 5), i_minStock := Some (Num 3), i_minimumStock := Some (Num 3),
     i_unit := Some ''boxes''\<rparr>"

definition masks_world :: world where
  "masks_world =
     fresh_world\<lparr>window_db := Some (empty_db\<lparr>db_inventory := [masks], db_next_id := 2\<rparr>)\<rparr>"

definition no_threshold_params :: params where
  "no_threshold_params = [''name'' \<mapsto> ''Masks'', ''newMinStock'' \<mapsto> ''0'']"

definition zero_threshold_world :: world where
  "zero_threshold_world =
     snd (execute sample_env ''update_inventory_item'' no_threshold_params masks_world)"

definition low_stock_params :: params where
  "low_stock_params = [''lowStock'' \<mapsto> ''true'']"

text \<open>Three items with a threshold of ten: five, ten and eleven in stock.\<close>

definition stock_world :: world where
  "stock_world =
     fresh_world\<lparr>window_db := Some (empty_db\<lparr>db_inventory :=
        [gloves,
         gloves\<lparr>i_id := Some 2, i_name := Some ''Gowns'', i_quantity := Some (Num 10)\<rparr>,
         gloves\<lparr>i_id := Some 3, i_name := Some ''Drapes'', i_quantity := Some (Num 11)\<rparr>],
        db_next_id := 4\<rparr>)\<rparr>"

text \<open>
  Requests that carry a date and an empty patient name, or the patient under the alias
  \<open>patient\<close>; a request that names a date and no patient; a store with one appointment.
\<close>

definition blank_name_params :: params where
  "blank_name_params = [''patientName'' \<mapsto> [], ''date'' \<mapsto> ''2024-12-25'']"

definition alias_params :: params where
  "alias_params = [''patient'' \<mapsto> ''Jane Doe'', ''date'' \<mapsto> ''2024-12-25'']"

definition date_only_params :: params where
  "date_only_params = [''date'' \<mapsto> ''2024-12-25'']"

definition visit_world :: world where
  "visit_world =
     fresh_world\<lparr>window_db := Some (empty_db\<lparr>db_appointments := [visit 1], db_next_id := 2\<rparr>)\<rparr>"

text \<open>A store with one record of each kind.\<close>

definition clinic_world :: world where
  "clinic_world =
     fresh_world\<lparr>window_db := Some (empty_db\<lparr>db_appointments := [visit 1], db_deadlines := [report],
        db_inventory := [gloves], db_next_id := 2\<rparr>)\<rparr>"

text \<open>A request that names nothing, and a store with a second appointment, on Christmas Day.\<close>

definition no_params :: params where
  "no_params = Map.empty"

definition two_visit_world :: world where
  "two_visit_world =
     fresh_world\<lparr>window_db := Some (empty_db\<lparr>db_appointments :=
        [visit 1, (visit 2)\<lparr>a_date := Some ''2024-12-25''\<rparr>], db_next_id := 3\<rparr>)\<rparr>"

text \<open>Jane in the cache of the linker.\<close>

definition jane_world :: world where
  "jane_world = fresh_world\<lparr>cache_patients := [jane]\<rparr>"

section \<open>Dispatch without a reachable collaborator\<close>

text \<open>
  C4. When \<open>Database.isConnected\<close> is false at dispatch, \<open>execute\<close> returns a failure
  outcome for every action name and parameter set, and leaves the world as it was: no call
  on the collaborator is recorded, no cached collection is replaced and no view is repainted,
  so no handler has run.
\<close>

theorem execute_not_connected:
  assumes "\<not> isConnected w"
  shows "success (fst (execute e toolName params w)) = False
         \<and> snd (execute e toolName params w) = w"
  using assms by (simp add: execute_def failed_def)

theorem execute_not_connected_witness:
  "\<not> isConnected offline_world
   \<and> success (fst (execute sample_env ''create_patient'' [''name'' \<mapsto> ''Ann''] offline_world)) = False
   \<and> snd (execute sample_env ''create_patient'' [''name'' \<mapsto> ''Ann''] offline_world) = offline_world"
proof -
  have h: "\<not> isConnected offline_world"
    by (simp add: isConnected_def offline_world_def)
  show ?thesis
    using h execute_not_connected [OF h, of sample_env "''create_patient''" "[''name'' \<mapsto> ''Ann'']"]
    by simp
qed

section \<open>Refreshing the patient cache\<close>

text \<open>
  C5, as stated, fails: with Jane cached and the collaborator unreachable, \<open>loadPatients\<close>
  leaves an empty cache, and it does the same when the collaborator's read throws.
\<close>

theorem loadPatients_drops_snapshot:
  "\<not> isConnected offline_world
   \<and> cache_patients offline_world = [jane]
   \<and> cache_patients (loadPatients offline_world) = []
   \<and> cache_patients failing_world = [jane]
   \<and> cache_patients (loadPatients failing_world) = []"
  by (simp add: loadPatients_def Database_getPatients_def isConnected_def offline_world_def
      failing_world_def fresh_world_def empty_db_def window_db_call_def backend_def read_or_empty_def)

text \<open>
  C5, amended. When the collaborator is unreachable or its patient read throws, the refresh
  replaces the cached patients by the empty list and paints the empty table.
\<close>

theorem loadPatients_unreachable_empties:
  assumes "window_db w = None
           \<or> (\<exists>db msg. window_db w = Some db \<and> map_of (db_throws db) ''getAllPatients'' = Some msg)"
  shows "cache_patients (loadPatients w) = []
         \<and> last (trace (loadPatients w)) = ViewPatientsTable []"
  using assms
  by (auto simp: loadPatients_def Database_getPatients_def isConnected_def window_db_call_def
      backend_def read_or_empty_def)

theorem loadPatients_unreachable_empties_witness:
  "window_db offline_world = None
   \<and> cache_patients (loadPatients offline_world) = []
   \<and> last (trace (loadPatients offline_world)) = ViewPatientsTable []"
proof -
  have h: "window_db offline_world = None"
    by (simp add: offline_world_def fresh_world_def)
  then have "window_db offline_world = None
      \<or> (\<exists>db msg. window_db offline_world = Some db
            \<and> map_of (db_throws db) ''getAllPatients'' = Some msg)"
    by simp
  from loadPatients_unreachable_empties [OF this] h show ?thesis by simp
qed

section \<open>Dates handed to the collaborator\<close>

lemma split_on_no_sep: "c \<notin> set s \<Longrightarrow> split_on c s = [s]"
  by (induction s) auto

lemma split_on_sep: "c \<notin> set s \<Longrightarrow> split_on c (s @ c # rest) = s # split_on c rest"
  by (induction s) auto

lemma convertDate_dmy:
  assumes "CHR ''/'' \<notin> set d" "CHR ''/'' \<notin> set m" "CHR ''/'' \<notin> set y" "js_length d \<le> 2"
  shows "convertDate (d @ ''/'' @ m @ ''/'' @ y)
           = y @ ''-'' @ replicate (2 - js_length m) CHR ''0'' @ m @ ''-''
             @ replicate (2 - js_length d) CHR ''0'' @ d"
  using assms by (simp add: convertDate_def split_on_sep split_on_no_sep padStart_def)

lemma created_appointments_append [simp]:
  "created_appointments (xs @ ys) = created_appointments xs @ created_appointments ys"
  by (simp add: created_appointments_def)

lemma created_deadlines_append [simp]:
  "created_deadlines (xs @ ys) = created_deadlines xs @ created_deadlines ys"
  by (simp add: created_deadlines_def)

text \<open>A call adds at most its own event.\<close>

lemma window_db_call_trace:
  "trace (snd (window_db_call ev m f w)) = trace w
   \<or> trace (snd (window_db_call ev m f w)) = trace w @ [ev]"
  by (auto simp: window_db_call_def split: option.splits prod.splits)

lemma window_db_call_connected_trace:
  "isConnected w \<Longrightarrow> trace (snd (window_db_call ev m f w)) = trace w @ [ev]"
  by (auto simp: window_db_call_def isConnected_def split: option.splits prod.splits)

lemma read_or_empty_snd [simp]: "snd (read_or_empty r) = snd r"
  by (simp add: read_or_empty_def split: prod.splits sum.splits)

lemma created_call:
  assumes "quiet ev"
  shows "created_appointments (trace (snd (window_db_call ev m f w))) = created_appointments (trace w)"
    and "created_deadlines (trace (snd (window_db_call ev m f w))) = created_deadlines (trace w)"
  using assms window_db_call_trace [of ev m f w] by (auto simp: quiet_def)

lemma quiet_reads:
  "quiet DbGetAllPatients" "quiet DbGetAllAppointments" "quiet DbGetAllDeadlines"
  "quiet DbGetLowStock"
  by (simp_all add: quiet_def created_appointments_def created_deadlines_def)

lemma created_reads:
  "created_appointments (trace (snd (Database_getPatients w))) = created_appointments (trace w)"
  "created_deadlines (trace (snd (Database_getPatients w))) = created_deadlines (trace w)"
  "created_appointments (trace (snd (Database_getAppointments w))) = created_appointments (trace w)"
  "created_deadlines (trace (snd (Database_getAppointments w))) = created_deadlines (trace w)"
  "created_appointments (trace (snd (Database_getDeadlines w))) = created_appointments (trace w)"
  "created_deadlines (trace (snd (Database_getDeadlines w))) = created_deadlines (trace w)"
  "created_appointments (trace (snd (Database_getLowStock w))) = created_appointments (trace w)"
  "created_deadlines (trace (snd (Database_getLowStock w))) = created_deadlines (trace w)"
  by (simp_all add: Database_getPatients_def Database_getAppointments_def Database_getDeadlines_def
      Database_getLowStock_def created_call quiet_reads)

lemma created_loadStats:
  "created_appointments (trace (loadStats e w)) = created_appointments (trace w)"
  "created_deadlines (trace (loadStats e w)) = created_deadlines (trace w)"
proof -
  obtain p w1 where 1: "Database_getPatients w = (p, w1)" by (cases "Database_getPatients w")
  obtain a w2 where 2: "Database_getAppointments w1 = (a, w2)" by (cases "Database_getAppointments w1")
  obtain d w3 where 3: "Database_getDeadlines w2 = (d, w3)" by (cases "Database_getDeadlines w2")
  obtain l w4 where 4: "Database_getLowStock w3 = (l, w4)" by (cases "Database_getLowStock w3")
  have t: "trace (loadStats e w) = trace w4 @
      [ViewStats (length p) (length (filter (\<lambda>a. a_date a = Some (todayIso e)) a))
         (length (filter (\<lambda>d. isUpcoming e (js_or (d_date d) (d_dueDate d))) d)) (length l),
       ViewConnectionStatus True]"
    by (simp add: loadStats_def loadStats_reads_def loadStats_apply_def 1 2 3 4)
  have a4: "created_appointments (trace w4) = created_appointments (trace w)"
    using created_reads(1) [of w] created_reads(3) [of w1] created_reads(5) [of w2]
      created_reads(7) [of w3] by (simp add: 1 2 3 4)
  have d4: "created_deadlines (trace w4) = created_deadlines (trace w)"
    using created_reads(2) [of w] created_reads(4) [of w1] created_reads(6) [of w2]
      created_reads(8) [of w3] by (simp add: 1 2 3 4)
  show "created_appointments (trace (loadStats e w)) = created_appointments (trace w)"
    by (simp add: t a4) (simp add: created_appointments_def)
  show "created_deadlines (trace (loadStats e w)) = created_deadlines (trace w)"
    by (simp add: t d4) (simp add: created_deadlines_def)
qed

lemma created_views:
  "created_appointments (trace (refreshSchedule e ds (renderCalendar w))) = created_appointments (trace w)"
  "created_deadlines (trace (refreshSchedule e ds (renderCalendar w))) = created_deadlines (trace w)"
  by (simp_all add: refreshSchedule_def renderCalendar_def showDateSchedule_def loadTodaySchedule_def
      created_appointments_def created_deadlines_def)

lemma created_after_create:
  "created_appointments (trace (refreshSchedule e ds (renderCalendar (loadStats e w))))
     = created_appointments (trace w)"
  "created_deadlines (trace (refreshSchedule e ds (renderCalendar (loadStats e w))))
     = created_deadlines (trace w)"
  by (simp_all add: created_views created_loadStats)

lemma or_str_named:
  assumes "truthy a \<or> truthy b"
  shows "or_str (js_or a b) [] \<noteq> []"
  using assms by (auto simp: truthy_def js_or_def or_str_def split: option.splits)

lemma Database_createAppointment_trace:
  "trace (snd (Database_createAppointment ap w)) = trace w
   \<or> trace (snd (Database_createAppointment ap w)) = trace w @ [DbCreateAppointment ap]"
  using window_db_call_trace [of "DbCreateAppointment ap" "''createAppointment''"
      "db_createAppointment ap" w]
  by (simp add: Database_createAppointment_def)

lemma Database_createDeadline_trace:
  "trace (snd (Database_createDeadline dl w)) = trace w
   \<or> trace (snd (Database_createDeadline dl w)) = trace w @ [DbCreateDeadline dl]"
  using window_db_call_trace [of "DbCreateDeadline dl" "''createDeadline''"
      "db_createDeadline dl" w]
  by (simp add: Database_createDeadline_def)

text \<open>
  Whatever path \<open>createAppointment\<close> takes, it hands the collaborator's create call at most
  one record, and the date of that record is the converted date.
\<close>

lemma createAppointment_named_dates:
  assumes date: "params ''date'' = Some s"
  shows "map a_date (created_appointments (trace (snd (createAppointment_named e params pn w))))
           = map a_date (created_appointments (trace w))
         \<or> map a_date (created_appointments (trace (snd (createAppointment_named e params pn w))))
           = map a_date (created_appointments (trace w)) @ [Some (convertDate s)]"
proof -
  define ap where "ap = \<lparr>a_id = None, a_patientName = pn,
      a_date = Some (convertDate s), a_time = Some (or_str (params ''time'') []),
      a_type = Some (or_str (params ''type'') ''checkup''),
      a_duration = Some (Num (parseInt_or (params ''duration'') 30)),
      a_notes = Some (or_str (params ''notes'') []),
      a_status = Some (or_str (params ''status'') ''scheduled'')\<rparr>"
  obtain r w1 where call: "Database_createAppointment ap w = (r, w1)"
    by (cases "Database_createAppointment ap w")
  have ds: "or_str (params ''date'') [] = s"
    using date by (simp add: or_str_def)
  have c1: "map a_date (created_appointments (trace w1)) = map a_date (created_appointments (trace w))
      \<or> map a_date (created_appointments (trace w1))
           = map a_date (created_appointments (trace w)) @ [Some (convertDate s)]"
  proof -
    from Database_createAppointment_trace [of ap w] call
    have "trace w1 = trace w \<or> trace w1 = trace w @ [DbCreateAppointment ap]" by simp
    then show ?thesis
    proof
      assume "trace w1 = trace w"
      then show ?thesis by simp
    next
      assume "trace w1 = trace w @ [DbCreateAppointment ap]"
      then have "map a_date (created_appointments (trace w1))
          = map a_date (created_appointments (trace w)) @ map a_date (created_appointments [DbCreateAppointment ap])"
        by simp
      moreover have "map a_date (created_appointments [DbCreateAppointment ap]) = [Some (convertDate s)]"
        by (simp add: created_appointments_def ap_def)
      ultimately show ?thesis by simp
    qed
  qed
  show ?thesis
  proof (cases "truthy pn \<and> convertDate s \<noteq> []")
    case False
    then show ?thesis
      by (auto simp: createAppointment_named_def Let_def ds)
  next
    case True
    show ?thesis
    proof (cases r)
      case (Inl err)
      then show ?thesis
        using True call c1 by (simp add: createAppointment_named_def Let_def ds ap_def [symmetric])
    next
      case (Inr res)
      then show ?thesis
        using True call c1
        by (simp add: createAppointment_named_def Let_def ds ap_def [symmetric] created_after_create)
    qed
  qed
qed

lemma quiet_getPatient: "quiet (DbGetPatient n)"
  by (simp add: quiet_def created_appointments_def created_deadlines_def)

lemma createAppointment_dates:
  assumes date: "params ''date'' = Some s"
  shows "map a_date (created_appointments (trace (snd (createAppointment e params w))))
           = map a_date (created_appointments (trace w))
         \<or> map a_date (created_appointments (trace (snd (createAppointment e params w))))
           = map a_date (created_appointments (trace w)) @ [Some (convertDate s)]"
proof (cases "truthy (params ''patientNumber'')
    \<and> or_str (js_or (params ''patientName'') (params ''patient'')) [] = []")
  case False
  then have "createAppointment e params w
      = createAppointment_named e params
          (Some (or_str (js_or (params ''patientName'') (params ''patient'')) [])) w"
    by (auto simp: createAppointment_def Let_def)
  then show ?thesis
    using createAppointment_named_dates [of params s e
        "Some (or_str (js_or (params ''patientName'') (params ''patient'')) [])" w] date
    by simp
next
  case True
  let ?n = "params ''patientNumber''"
  obtain r w1 where call: "window_db_call (DbGetPatient ?n) ''getPatient'' (db_getPatient ?n) w = (r, w1)"
    by (cases "window_db_call (DbGetPatient ?n) ''getPatient'' (db_getPatient ?n) w")
  have q: "created_appointments (trace w1) = created_appointments (trace w)"
    using created_call(1) [OF quiet_getPatient, of ?n "''getPatient''" "db_getPatient ?n" w] call
    by simp
  show ?thesis
  proof (cases r)
    case (Inl err)
    then show ?thesis using True call q by (simp add: createAppointment_def Let_def)
  next
    case (Inr found)
    show ?thesis
    proof (cases found)
      case None
      then show ?thesis using True call q Inr by (simp add: createAppointment_def Let_def)
    next
      case (Some patient)
      then have "createAppointment e params w = createAppointment_named e params (p_name patient) w1"
        using True call Inr by (simp add: createAppointment_def Let_def)
      then show ?thesis
        using createAppointment_named_dates [of params s e "p_name patient" w1] date q by simp
    qed
  qed
qed

text \<open>A request that names the patient, with the collaborator reachable, makes the create call.\<close>

lemma createAppointment_date:
  assumes conn: "isConnected w"
    and name: "truthy (params ''patientName'') \<or> truthy (params ''patient'')"
    and date: "params ''date'' = Some s" and ne: "s \<noteq> []" "convertDate s \<noteq> []"
  shows "map a_date (created_appointments (trace (snd (createAppointment e params w))))
           = map a_date (created_appointments (trace w)) @ [Some (convertDate s)]"
proof -
  define n where "n = or_str (js_or (params ''patientName'') (params ''patient'')) []"
  define ap where "ap = \<lparr>a_id = None, a_patientName = Some n,
      a_date = Some (convertDate s), a_time = Some (or_str (params ''time'') []),
      a_type = Some (or_str (params ''type'') ''checkup''),
      a_duration = Some (Num (parseInt_or (params ''duration'') 30)),
      a_notes = Some (or_str (params ''notes'') []),
      a_status = Some (or_str (params ''status'') ''scheduled'')\<rparr>"
  obtain r w1 where call: "Database_createAppointment ap w = (r, w1)"
    by (cases "Database_createAppointment ap w")
  have tr1: "trace w1 = trace w @ [DbCreateAppointment ap]"
    using conn call window_db_call_connected_trace [OF conn, of "DbCreateAppointment ap"
        "''createAppointment''" "db_createAppointment ap"]
    by (simp add: Database_createAppointment_def)
  have nm: "n \<noteq> []"
    unfolding n_def using name by (rule or_str_named)
  have ds: "or_str (params ''date'') [] = s"
    using date ne by (simp add: or_str_def)
  have unfold: "createAppointment e params w = createAppointment_named e params (Some n) w"
    using nm by (simp add: createAppointment_def Let_def n_def [symmetric])
  show ?thesis
  proof (cases r)
    case (Inl err)
    then show ?thesis
      using call nm ds ne tr1
      by (simp add: unfold createAppointment_named_def Let_def truthy_def ap_def [symmetric])
        (simp add: created_appointments_def ap_def)
  next
    case (Inr res)
    then show ?thesis
      using call nm ds ne tr1
      by (simp add: unfold createAppointment_named_def Let_def truthy_def ap_def [symmetric]
          created_after_create)
        (simp add: created_appointments_def ap_def)
  qed
qed

text \<open>
  \<open>createDeadline\<close> reads the date from \<open>params.date\<close> or, if that is missing or empty, from
  \<open>params.dueDate\<close>, and writes the converted date into both date fields of the record.
\<close>

lemma createDeadline_dates:
  assumes date: "js_or (params ''date'') (params ''dueDate'') = Some s"
  shows "map (\<lambda>d. (d_date d, d_dueDate d)) (created_deadlines (trace (snd (createDeadline e params w))))
           = map (\<lambda>d. (d_date d, d_dueDate d)) (created_deadlines (trace w))
         \<or> map (\<lambda>d. (d_date d, d_dueDate d)) (created_deadlines (trace (snd (createDeadline e params w))))
           = map (\<lambda>d. (d_date d, d_dueDate d)) (created_deadlines (trace w))
             @ [(Some (convertDate s), Some (convertDate s))]"
proof -
  define dl where "dl = \<lparr>d_id = None,
      d_title = Some (or_str (js_or (params ''title'') (params ''description'')) []),
      d_date = Some (convertDate s), d_dueDate = Some (convertDate s),
      d_priority = Some (or_str (params ''priority'') ''medium''),
      d_description = Some (or_str (params ''description'') [])\<rparr>"
  obtain r w1 where call: "Database_createDeadline dl w = (r, w1)"
    by (cases "Database_createDeadline dl w")
  have ds: "or_str (js_or (params ''date'') (params ''dueDate'')) [] = s"
    using date by (simp add: or_str_def)
  have c1: "map (\<lambda>d. (d_date d, d_dueDate d)) (created_deadlines (trace w1))
        = map (\<lambda>d. (d_date d, d_dueDate d)) (created_deadlines (trace w))
      \<or> map (\<lambda>d. (d_date d, d_dueDate d)) (created_deadlines (trace w1))
        = map (\<lambda>d. (d_date d, d_dueDate d)) (created_deadlines (trace w))
          @ [(Some (convertDate s), Some (convertDate s))]"
  proof -
    from Database_createDeadline_trace [of dl w] call
    have "trace w1 = trace w \<or> trace w1 = trace w @ [DbCreateDeadline dl]" by simp
    then show ?thesis
    proof
      assume "trace w1 = trace w"
      then show ?thesis by simp
    next
      assume "trace w1 = trace w @ [DbCreateDeadline dl]"
      then have "map (\<lambda>d. (d_date d, d_dueDate d)) (created_deadlines (trace w1))
          = map (\<lambda>d. (d_date d, d_dueDate d)) (created_deadlines (trace w))
            @ map (\<lambda>d. (d_date d, d_dueDate d)) (created_deadlines [DbCreateDeadline dl])"
        by simp
      moreover have "map (\<lambda>d. (d_date d, d_dueDate d)) (created_deadlines [DbCreateDeadline dl])
          = [(Some (convertDate s), Some (convertDate s))]"
        by (simp add: created_deadlines_def dl_def)
      ultimately show ?thesis by simp
    qed
  qed
  show ?thesis
  proof (cases "or_str (js_or (params ''title'') (params ''description'')) [] = []")
    case True
    then show ?thesis by (simp add: createDeadline_def Let_def)
  next
    case False
    show ?thesis
    proof (cases r)
      case (Inl err)
      then show ?thesis
        using False call c1 by (simp add: createDeadline_def Let_def ds dl_def [symmetric])
    next
      case (Inr res)
      then show ?thesis
        using False call c1
        by (simp add: createDeadline_def Let_def ds dl_def [symmetric] created_after_create)
    qed
  qed
qed

lemma createDeadline_date:
  assumes conn: "isConnected w"
    and title: "truthy (params ''title'') \<or> truthy (params ''description'')"
    and date: "js_or (params ''date'') (params ''dueDate'') = Some s"
  shows "map (\<lambda>d. (d_date d, d_dueDate d)) (created_deadlines (trace (snd (createDeadline e params w))))
           = map (\<lambda>d. (d_date d, d_dueDate d)) (created_deadlines (trace w))
             @ [(Some (convertDate s), Some (convertDate s))]"
proof -
  define t where "t = or_str (js_or (params ''title'') (params ''description'')) []"
  define dl where "dl = \<lparr>d_id = None, d_title = Some t,
      d_date = Some (convertDate s), d_dueDate = Some (convertDate s),
      d_priority = Some (or_str (params ''priority'') ''medium''),
      d_description = Some (or_str (params ''description'') [])\<rparr>"
  obtain r w1 where call: "Database_createDeadline dl w = (r, w1)"
    by (cases "Database_createDeadline dl w")
  have tr1: "trace w1 = trace w @ [DbCreateDeadline dl]"
    using conn call window_db_call_connected_trace [OF conn, of "DbCreateDeadline dl"
        "''createDeadline''" "db_createDeadline dl"]
    by (simp add: Database_createDeadline_def)
  have tt: "t \<noteq> []"
    unfolding t_def using title by (rule or_str_named)
  have ds: "or_str (js_or (params ''date'') (params ''dueDate'')) [] = s"
    using date by (simp add: or_str_def)
  show ?thesis
  proof (cases r)
    case (Inl err)
    then show ?thesis
      using call tt ds tr1
      by (simp add: createDeadline_def Let_def t_def [symmetric] dl_def [symmetric])
        (simp add: created_deadlines_def dl_def)
  next
    case (Inr res)
    then show ?thesis
      using call tt ds tr1
      by (simp add: createDeadline_def Let_def t_def [symmetric] dl_def [symmetric]
          created_after_create)
        (simp add: created_deadlines_def dl_def)
  qed
qed

text \<open>
  C2. A date given to a create handler as day/month/year with \<open>/\<close> separators (the day of at
  most two code units) reaches the collaborator's create call in the form year-month-day,
  with the month and the day filled up with zeros to two code units: \<open>25/12/2024\<close> is handed
  over as \<open>2024-12-25\<close> and \<open>5/3/2024\<close> as \<open>2024-03-05\<close>. \<open>createAppointment\<close> reads the date
  from \<open>params.date\<close>; whatever path it takes, it makes at most one create call, and the record
  of that call carries the converted date; it makes the call when the request names the
  patient (\<open>patientName\<close> or \<open>patient\<close>) and the collaborator is reachable. \<open>createDeadline\<close>
  reads the date from \<open>params.date\<close> or \<open>params.dueDate\<close> and writes the converted date into
  both date fields of the record; it makes the call when the request has a title (\<open>title\<close> or
  \<open>description\<close>) and the collaborator is reachable.
\<close>

theorem create_handlers_normalize_date:
  assumes "CHR ''/'' \<notin> set d" and "CHR ''/'' \<notin> set m" and "CHR ''/'' \<notin> set y"
    and "js_length d \<le> 2"
    and "ymd = y @ ''-'' @ replicate (2 - js_length m) CHR ''0'' @ m @ ''-''
               @ replicate (2 - js_length d) CHR ''0'' @ d"
  shows "(params ''date'' = Some (d @ ''/'' @ m @ ''/'' @ y) \<longrightarrow>
            (map a_date (created_appointments (trace (snd (createAppointment e params w))))
               = map a_date (created_appointments (trace w))
             \<or> map a_date (created_appointments (trace (snd (createAppointment e params w))))
               = map a_date (created_appointments (trace w)) @ [Some ymd])
          \<and> (isConnected w \<and> (truthy (params ''patientName'') \<or> truthy (params ''patient'')) \<longrightarrow>
               map a_date (created_appointments (trace (snd (createAppointment e params w))))
                 = map a_date (created_appointments (trace w)) @ [Some ymd]))
         \<and> (js_or (params ''date'') (params ''dueDate'') = Some (d @ ''/'' @ m @ ''/'' @ y) \<longrightarrow>
            (map (\<lambda>x. (d_date x, d_dueDate x))
                 (created_deadlines (trace (snd (createDeadline e params w))))
               = map (\<lambda>x. (d_date x, d_dueDate x)) (created_deadlines (trace w))
             \<or> map (\<lambda>x. (d_date x, d_dueDate x))
                 (created_deadlines (trace (snd (createDeadline e params w))))
               = map (\<lambda>x. (d_date x, d_dueDate x)) (created_deadlines (trace w)) @ [(Some ymd, Some ymd)])
          \<and> (isConnected w \<and> (truthy (params ''title'') \<or> truthy (params ''description'')) \<longrightarrow>
               map (\<lambda>x. (d_date x, d_dueDate x))
                   (created_deadlines (trace (snd (createDeadline e params w))))
                 = map (\<lambda>x. (d_date x, d_dueDate x)) (created_deadlines (trace w))
                   @ [(Some ymd, Some ymd)]))"
proof -
  let ?s = "d @ ''/'' @ m @ ''/'' @ y"
  have cv: "convertDate ?s = ymd"
    using convertDate_dmy [OF assms(1-4)] assms(5) by simp
  have ne: "?s \<noteq> []" "convertDate ?s \<noteq> []"
    using cv assms(5) by simp_all
  have a1: "map a_date (created_appointments (trace (snd (createAppointment e params w))))
        = map a_date (created_appointments (trace w))
      \<or> map a_date (created_appointments (trace (snd (createAppointment e params w))))
        = map a_date (created_appointments (trace w)) @ [Some ymd]"
    if "params ''date'' = Some ?s"
    using that cv createAppointment_dates [of params ?s e w] by simp
  have a2: "map a_date (created_appointments (trace (snd (createAppointment e params w))))
        = map a_date (created_appointments (trace w)) @ [Some ymd]"
    if "params ''date'' = Some ?s" and "isConnected w"
      and "truthy (params ''patientName'') \<or> truthy (params ''patient'')"
    using that ne cv createAppointment_date [of w params ?s e] by simp
  have d1: "map (\<lambda>x. (d_date x, d_dueDate x)) (created_deadlines (trace (snd (createDeadline e params w))))
        = map (\<lambda>x. (d_date x, d_dueDate x)) (created_deadlines (trace w))
      \<or> map (\<lambda>x. (d_date x, d_dueDate x)) (created_deadlines (trace (snd (createDeadline e params w))))
        = map (\<lambda>x. (d_date x, d_dueDate x)) (created_deadlines (trace w)) @ [(Some ymd, Some ymd)]"
    if "js_or (params ''date'') (params ''dueDate'') = Some ?s"
    using that cv createDeadline_dates [of params ?s e w] by simp
  have d2: "map (\<lambda>x. (d_date x, d_dueDate x)) (created_deadlines (trace (snd (createDeadline e params w))))
        = map (\<lambda>x. (d_date x, d_dueDate x)) (created_deadlines (trace w)) @ [(Some ymd, Some ymd)]"
    if "js_or (params ''date'') (params ''dueDate'') = Some ?s" and "isConnected w"
      and "truthy (params ''title'') \<or> truthy (params ''description'')"
    using that cv createDeadline_date [of w params ?s e] by simp
  show ?thesis
    using a1 a2 d1 d2 by blast
qed

theorem create_handlers_normalize_date_witness:
  "isConnected fresh_world
   \<and> xmas_params ''date'' = Some ''25/12/2024''
   \<and> map a_date (created_appointments (trace (snd (createAppointment sample_env xmas_params fresh_world))))
       = [Some ''2024-12-25'']
   \<and> map (\<lambda>x. (d_date x, d_dueDate x))
        (created_deadlines (trace (snd (createDeadline sample_env xmas_params fresh_world))))
       = [(Some ''2024-12-25'', Some ''2024-12-25'')]
   \<and> march_params ''date'' = Some ''5/3/2024''
   \<and> map a_date (created_appointments (trace (snd (createAppointment sample_env march_params fresh_world))))
       = [Some ''2024-03-05'']
   \<and> due_params ''date'' = None \<and> due_params ''dueDate'' = Some ''5/3/2024''
   \<and> map (\<lambda>x. (d_date x, d_dueDate x))
        (created_deadlines (trace (snd (createDeadline sample_env due_params fresh_world))))
       = [(Some ''2024-03-05'', Some ''2024-03-05'')]
   \<and> accent_params ''date'' = Some (''5/'' @ [CHR 0xC3, CHR 0xA9] @ ''/2024'')
   \<and> map a_date (created_appointments (trace (snd (createAppointment sample_env accent_params fresh_world))))
       = [Some (''2024-0'' @ [CHR 0xC3, CHR 0xA9] @ ''-05'')]"
proof -
  have a: "CHR ''/'' \<notin> set ''5''" "CHR ''/'' \<notin> set [CHR 0xC3, CHR 0xA9]" "CHR ''/'' \<notin> set ''2024''"
    "js_length ''5'' \<le> 2"
    "''2024-0'' @ [CHR 0xC3, CHR 0xA9] @ ''-05''
       = ''2024'' @ ''-'' @ replicate (2 - js_length [CHR 0xC3, CHR 0xA9]) CHR ''0''
         @ [CHR 0xC3, CHR 0xA9] @ ''-'' @ replicate (2 - js_length ''5'') CHR ''0'' @ ''5''"
    by (simp_all add: js_length_def code_units_def)
  have q: "accent_params ''date'' = Some (''5'' @ ''/'' @ [CHR 0xC3, CHR 0xA9] @ ''/'' @ ''2024'')"
    "truthy (accent_params ''patientName'')"
    by (simp_all add: accent_params_def truthy_def)
  have x: "CHR ''/'' \<notin> set ''25''" "CHR ''/'' \<notin> set ''12''" "CHR ''/'' \<notin> set ''2024''"
    "js_length ''25'' \<le> 2"
    "''2024-12-25'' = ''2024'' @ ''-'' @ replicate (2 - js_length ''12'') CHR ''0'' @ ''12'' @ ''-''
        @ replicate (2 - js_length ''25'') CHR ''0'' @ ''25''"
    by (simp_all add: js_length_def code_units_def)
  have s: "CHR ''/'' \<notin> set ''5''" "CHR ''/'' \<notin> set ''3''" "CHR ''/'' \<notin> set ''2024''"
    "js_length ''5'' \<le> 2"
    "''2024-03-05'' = ''2024'' @ ''-'' @ replicate (2 - js_length ''3'') CHR ''0'' @ ''3'' @ ''-''
        @ replicate (2 - js_length ''5'') CHR ''0'' @ ''5''"
    by (simp_all add: js_length_def code_units_def)
  have p: "isConnected fresh_world" "trace fresh_world = []"
    "xmas_params ''date'' = Some ''25/12/2024''"
    "js_or (xmas_params ''date'') (xmas_params ''dueDate'') = Some ''25/12/2024''"
    "truthy (xmas_params ''patientName'')" "truthy (xmas_params ''title'')"
    "march_params ''date'' = Some ''5/3/2024''" "truthy (march_params ''patient'')"
    "due_params ''date'' = None" "due_params ''dueDate'' = Some ''5/3/2024''"
    "js_or (due_params ''date'') (due_params ''dueDate'') = Some ''5/3/2024''"
    "truthy (due_params ''title'')"
    by (simp_all add: xmas_params_def march_params_def due_params_def truthy_def js_or_def
        isConnected_def fresh_world_def)
  show ?thesis
    using p q
      create_handlers_normalize_date [OF x, of xmas_params sample_env fresh_world]
      create_handlers_normalize_date [OF s, of march_params sample_env fresh_world]
      create_handlers_normalize_date [OF s, of due_params sample_env fresh_world]
      create_handlers_normalize_date [OF a, of accent_params sample_env fresh_world]
    by (simp add: created_appointments_def created_deadlines_def)
qed

section \<open>The two date fields of a deadline\<close>

text \<open>
  \<open>createDeadline\<close> hands the collaborator a record whose two date fields are the same
  converted date (lemma \<open>createDeadline_date\<close>). C1 fails on \<open>updateDeadline\<close>: the partial
  record it hands the collaborator carries \<open>date\<close> and no \<open>dueDate\<close>. Moving the report from 1 January to 2 February succeeds and leaves
  the stored deadline with \<open>date\<close> 2 February and \<open>dueDate\<close> 1 January.
\<close>

theorem updateDeadline_dates_diverge:
  "map (\<lambda>d. (d_date d, d_dueDate d)) (stored_deadlines report_world)
     = [(Some ''2024-01-01'', Some ''2024-01-01'')]
   \<and> success (fst (updateDeadline sample_env postpone_params report_world)) = True
   \<and> take 2 (new_events report_world (snd (updateDeadline sample_env postpone_params report_world)))
     = [DbGetAllDeadlines, DbUpdateDeadline (Some 1) (no_deadline\<lparr>d_date := Some ''2024-02-02''\<rparr>)]
   \<and> map (\<lambda>d. (d_date d, d_dueDate d))
        (stored_deadlines (snd (updateDeadline sample_env postpone_params report_world)))
     = [(Some ''2024-02-02'', Some ''2024-01-01'')]"
  by code_simp

section \<open>The display cap of the list actions\<close>

text \<open>
  C6 fails on \<open>listDeadlines\<close>: with nine upcoming deadlines it shows eight and reports the
  total, but not the count of those left out; \<open>listAppointments\<close>, with nine upcoming
  appointments, shows eight and ends with \<open>... +1 more\<close>.
\<close>

theorem listDeadlines_no_remaining_count:
  "message (fst (listDeadlines sample_env busy_world))
     = sym_clock @ '' **Upcoming Deadlines (9):**'' @ nl
       @ join_nl (replicate 8 (sym_yellow @ '' 15/01/2030 - Audit''))
   \<and> \<not> str_includes (message (fst (listDeadlines sample_env busy_world))) ''more''
   \<and> message (fst (listAppointments sample_env busy_world))
     = sym_calendar @ '' **Upcoming Appointments (9):**'' @ nl
       @ join_nl (replicate 8 (sym_bullet @ '' 15/01/2030 09:00 - Jane Doe''))
       @ nl @ ''... +1 more''"
  by code_simp

section \<open>Low stock\<close>

text \<open>
  Low stock is not a field of the record: the list and search handlers (\<open>isLow\<close>) and the
  inventory table (\<open>isLowRow\<close>) compute it from the quantity and the threshold of the item
  they read. Where the stored \<open>minStock\<close> is a number other than zero, both are the rule of the
  specification, \<open>quantity \<le> threshold\<close>.
\<close>

lemma isLow_threshold_set:
  assumes "i_quantity i = Some (Num q)" and "i_minStock i = Some (Num m)" and "m \<noteq> 0"
  shows "isLow i = low_by_threshold q m" and "isLowRow i = low_by_threshold q m"
  using assms
  by (simp_all add: isLow_def isLowRow_def or_num_def js_or_num_def num_truthy_def
      low_by_threshold_def)

text \<open>What the list handler returns under the low-stock filter, and what the table paints.\<close>

lemma listInventoryItems_filter:
  assumes "Database_getInventory w = (inventory, w1)" and "truthy (params ''lowStock'')"
    and "filter isLow inventory \<noteq> []"
  shows "data (fst (listInventoryItems params w)) = Some (DItems (filter isLow inventory))"
proof -
  have "inventory \<noteq> []" using assms(3) by auto
  then show ?thesis
    using assms by (simp add: listInventoryItems_def Let_def done_with_def)
qed

lemma loadInventory_rows:
  assumes "Database_getInventory w = (inventory, w1)"
  shows "painted_stock (loadInventory w) = map (\<lambda>i. (i_name i, isLowRow i)) inventory"
  using assms by (simp add: loadInventory_def painted_stock_def comp_def)

text \<open>
  The examples of the specification, through the list handler and the table: with a
  threshold of ten, five and ten in stock are low and eleven is not.
\<close>

lemma low_stock_boundary:
  "message (fst (execute sample_env ''list_inventory'' no_params stock_world))
     = sym_box @ '' **Inventory (3):**'' @ nl
       @ sym_red @ '' Gloves - 5 boxes (min: 10)'' @ nl
       @ sym_red @ '' Gowns - 10 boxes (min: 10)'' @ nl
       @ sym_green @ '' Drapes - 11 boxes (min: 10)''
   \<and> painted_stock (loadInventory stock_world)
     = [(Some ''Gloves'', True), (Some ''Gowns'', True), (Some ''Drapes'', False)]"
  by code_simp

text \<open>
  C7 fails where the stored \<open>minStock\<close> is zero. \<open>updateInventoryItem\<close> stores the threshold it
  is given whenever \<open>newMinStock\<close> is supplied, zero included; the handlers and the table then
  read \<open>minStock || ...\<close>, so a threshold of zero counts as missing, and they do not fall back
  on the same value: the handlers take the default ten, the table takes \<open>minimumStock\<close>, the
  field the inventory form writes beside \<open>minStock\<close>. The masks, five in stock, were saved by
  the form with a threshold of three. Setting the threshold to zero through
  \<open>update_inventory_item\<close> succeeds and stores \<open>minStock = 0\<close>; the table the handler repaints
  shows the masks as in stock, and \<open>list_inventory\<close> with the low-stock filter then lists them
  as low, with a minimum of ten, though five is above the threshold stored, zero, and above
  the one it replaced, three.
\<close>

theorem low_stock_readers_disagree:
  "map (\<lambda>i. (i_quantity i, i_minStock i, i_minimumStock i)) (stored_inventory masks_world)
     = [(Some (Num 5), Some (Num 3), Some (Num 3))]
   \<and> success (fst (execute sample_env ''update_inventory_item'' no_threshold_params masks_world))
   \<and> map (\<lambda>i. (i_quantity i, i_minStock i, i_minimumStock i)) (stored_inventory zero_threshold_world)
     = [(Some (Num 5), Some (Num 0), Some (Num 3))]
   \<and> painted_stock zero_threshold_world = [(Some ''Masks'', False)]
   \<and> message (fst (execute sample_env ''list_inventory'' low_stock_params zero_threshold_world))
     = sym_box @ '' **Inventory (1):**'' @ nl @ sym_red @ '' Masks - 5 boxes (min: 10)''
   \<and> data (fst (execute sample_env ''list_inventory'' low_stock_params zero_threshold_world))
     = Some (DItems (stored_inventory zero_threshold_world))
   \<and> \<not> low_by_threshold 5 0 \<and> \<not> low_by_threshold 5 3"
  by code_simp

text \<open>
  Without a \<open>minimumStock\<close> field the two agree with each other and not with the rule: the
  gloves, five in stock, are low for the table and for the handler once their threshold is
  zero.
\<close>

lemma low_stock_zero_threshold:
  "map (\<lambda>i. (i_quantity i, i_minStock i, i_minimumStock i))
       (stored_inventory (snd (execute sample_env ''update_inventory_item'' gloves_zero_params
          gloves_world)))
     = [(Some (Num 5), Some (Num 0), None)]
   \<and> painted_stock (snd (execute sample_env ''update_inventory_item'' gloves_zero_params gloves_world))
     = [(Some ''Gloves'', True)]
   \<and> message (fst (execute sample_env ''list_inventory'' low_stock_params
        (snd (execute sample_env ''update_inventory_item'' gloves_zero_params gloves_world))))
     = sym_box @ '' **Inventory (1):**'' @ nl @ sym_red @ '' Gloves - 5 boxes (min: 10)''
   \<and> \<not> low_by_threshold 5 0"
  by code_simp

section \<open>Action names without a handler, and \<open>get_appointment\<close>\<close>

lemma toLowerCase_create_appointment: "toLowerCase e ''create_appointment'' = ''create_appointment''"
  by (simp add: toLowerCase_def asciiLower_def toLowerChar_def is_ascii_def)

lemma toLowerCase_get_appointment: "toLowerCase e ''get_appointment'' = ''get_appointment''"
  by (simp add: toLowerCase_def asciiLower_def toLowerChar_def is_ascii_def)

lemma toLowerCase_list_appointments: "toLowerCase e ''list_appointments'' = ''list_appointments''"
  by (simp add: toLowerCase_def asciiLower_def toLowerChar_def is_ascii_def)

lemma execute_create_appointment:
  "execute e ''create_appointment'' params w =
     (if \<not> isConnected w
      then (failed (sym_cross @ '' Database not connected. Please restart the application.''), w)
      else createAppointment e params w)"
  by (simp add: execute_def toLowerCase_create_appointment)

lemma execute_list_appointments:
  "execute e ''list_appointments'' params w =
     (if \<not> isConnected w
      then (failed (sym_cross @ '' Database not connected. Please restart the application.''), w)
      else listAppointments e w)"
  by (simp add: execute_def toLowerCase_list_appointments)

lemma execute_get_appointment:
  "execute e ''get_appointment'' params w =
     (if \<not> isConnected w
      then (failed (sym_cross @ '' Database not connected. Please restart the application.''), w)
      else if truthy (params ''patientName'') \<and> truthy (params ''date'')
      then createAppointment e params w
      else listAppointments e w)"
  by (simp add: execute_def toLowerCase_get_appointment)

lemma execute_unregistered:
  assumes "toLowerCase e toolName \<notin> set registered"
  shows "execute e toolName params w =
     (if \<not> isConnected w
      then (failed (sym_cross @ '' Database not connected. Please restart the application.''), w)
      else if truthy (params ''patientName'') \<and> truthy (params ''date'')
      then createAppointment e params w
      else (done_msg (or_str (js_or (params ''response'') (params ''message'')) processed), w))"
  using assms by (simp add: execute_def registered_def processed_def Let_def)

text \<open>
  An outcome of \<open>createAppointment\<close> is a failure or carries the stored record; the generic
  outcome of the dispatcher is a success that carries none.
\<close>

lemma createAppointment_named_outcome:
  "\<not> success (fst (createAppointment_named e params pn w))
   \<or> data (fst (createAppointment_named e params pn w)) \<noteq> None"
proof -
  define ap where "ap = \<lparr>a_id = None, a_patientName = pn,
      a_date = Some (convertDate (or_str (params ''date'') [])),
      a_time = Some (or_str (params ''time'') []),
      a_type = Some (or_str (params ''type'') ''checkup''),
      a_duration = Some (Num (parseInt_or (params ''duration'') 30)),
      a_notes = Some (or_str (params ''notes'') []),
      a_status = Some (or_str (params ''status'') ''scheduled'')\<rparr>"
  obtain r w1 where call: "Database_createAppointment ap w = (r, w1)"
    by (cases "Database_createAppointment ap w")
  show ?thesis
    using call
    by (cases r)
      (simp_all add: createAppointment_named_def Let_def ap_def [symmetric] failed_def done_with_def)
qed

lemma createAppointment_outcome:
  "\<not> success (fst (createAppointment e params w)) \<or> data (fst (createAppointment e params w)) \<noteq> None"
proof (cases "truthy (params ''patientNumber'')
    \<and> or_str (js_or (params ''patientName'') (params ''patient'')) [] = []")
  case False
  then have "createAppointment e params w
      = createAppointment_named e params
          (Some (or_str (js_or (params ''patientName'') (params ''patient'')) [])) w"
    by (auto simp: createAppointment_def Let_def)
  then show ?thesis
    using createAppointment_named_outcome
      [of e params "Some (or_str (js_or (params ''patientName'') (params ''patient'')) [])" w]
    by simp
next
  case True
  let ?n = "params ''patientNumber''"
  obtain r w1 where call: "window_db_call (DbGetPatient ?n) ''getPatient'' (db_getPatient ?n) w = (r, w1)"
    by (cases "window_db_call (DbGetPatient ?n) ''getPatient'' (db_getPatient ?n) w")
  show ?thesis
  proof (cases r)
    case (Inl err)
    then show ?thesis using True call by (simp add: createAppointment_def Let_def failed_def)
  next
    case (Inr found)
    show ?thesis
    proof (cases found)
      case None
      then show ?thesis using True call Inr by (simp add: createAppointment_def Let_def failed_def)
    next
      case (Some patient)
      then have "createAppointment e params w = createAppointment_named e params (p_name patient) w1"
        using True call Inr by (simp add: createAppointment_def Let_def)
      then show ?thesis
        using createAppointment_named_outcome [of e params "p_name patient" w1] by simp
    qed
  qed
qed

lemma createAppointment_not_generic: "fst (createAppointment e params w) \<noteq> done_msg m"
  using createAppointment_outcome [of e params w] by (auto simp: done_msg_def)

text \<open>
  Whether a name has a case is decided on its lower-case form, which for a name beyond ASCII
  is the runtime's: with the Kelvin sign for its last letter, \<open>get_low_stock\<close> is the name of
  the low-stock query.
\<close>

lemma kelvin_sign_name_is_registered:
  "toLowerCase kelvin_env kelvin_name \<in> set registered
   \<and> execute kelvin_env kelvin_name xmas_params fresh_world = getLowStockItems fresh_world"
  by code_simp

text \<open>
  C3, as stated, fails. A parameter set that contains the \<open>patientName\<close> field with an empty
  value, and a date, is answered under an unregistered name with the generic success outcome
  and under \<open>create_appointment\<close> with a failure. One that names the patient under the alias
  \<open>patient\<close> is answered under an unregistered name with the generic outcome, and no
  appointment is stored, while \<open>create_appointment\<close> stores one.
\<close>

theorem unregistered_blank_name_differs:
  "blank_name_params ''patientName'' \<noteq> None \<and> blank_name_params ''date'' \<noteq> None
   \<and> toLowerCase sample_env ''schedule_visit'' \<notin> set registered
   \<and> fst (execute sample_env ''schedule_visit'' blank_name_params fresh_world) = done_msg processed
   \<and> fst (execute sample_env ''create_appointment'' blank_name_params fresh_world)
     = failed (sym_cross @ '' Patient name or number is required.'')
   \<and> fst (execute sample_env ''schedule_visit'' alias_params fresh_world) = done_msg processed
   \<and> stored_appointments (snd (execute sample_env ''schedule_visit'' alias_params fresh_world)) = []
   \<and> success (fst (execute sample_env ''create_appointment'' alias_params fresh_world)) = True
   \<and> map a_patientName
        (stored_appointments (snd (execute sample_env ''create_appointment'' alias_params fresh_world)))
     = [Some ''Jane Doe'']"
  by code_simp

text \<open>
  C3, amended. Take an action name whose lower-case form the dispatcher has no case for.
  For every parameter set whose \<open>patientName\<close> and \<open>date\<close> fields are both present and not
  empty, dispatch gives the outcome, and leaves the world, that dispatching
  \<open>create_appointment\<close> with the same parameters gives. For every other parameter set (one of
  the two fields missing or empty, the patient named under the alias \<open>patient\<close> or by number
  only), with the collaborator reachable, dispatch runs no handler: it leaves the world as it
  was and returns the generic success outcome, whose message is \<open>params.response\<close>, else
  \<open>params.message\<close>, else the fixed sentence; this is never the outcome of
  \<open>create_appointment\<close>, which fails or returns the stored record.
\<close>

theorem unregistered_action_creates_appointment:
  assumes "toLowerCase e toolName \<notin> set registered"
  shows "(truthy (params ''patientName'') \<and> truthy (params ''date'') \<longrightarrow>
            execute e toolName params w = execute e ''create_appointment'' params w)
         \<and> (isConnected w \<and> \<not> (truthy (params ''patientName'') \<and> truthy (params ''date'')) \<longrightarrow>
            execute e toolName params w
              = (done_msg (or_str (js_or (params ''response'') (params ''message'')) processed), w)
            \<and> fst (execute e toolName params w) \<noteq> fst (execute e ''create_appointment'' params w))"
proof -
  have same: "truthy (params ''patientName'') \<and> truthy (params ''date'') \<Longrightarrow>
      execute e toolName params w = execute e ''create_appointment'' params w"
    by (simp add: execute_unregistered [OF assms] execute_create_appointment)
  have generic: "isConnected w \<Longrightarrow> \<not> (truthy (params ''patientName'') \<and> truthy (params ''date'')) \<Longrightarrow>
      execute e toolName params w
        = (done_msg (or_str (js_or (params ''response'') (params ''message'')) processed), w)"
    by (auto simp: execute_unregistered [OF assms])
  have differs: "fst (execute e toolName params w) \<noteq> fst (execute e ''create_appointment'' params w)"
    if "isConnected w" and "\<not> (truthy (params ''patientName'') \<and> truthy (params ''date''))"
  proof -
    have "fst (execute e toolName params w)
        = done_msg (or_str (js_or (params ''response'') (params ''message'')) processed)"
      using generic [OF that] by simp
    moreover have "fst (execute e ''create_appointment'' params w) = fst (createAppointment e params w)"
      using that(1) by (simp add: execute_create_appointment)
    ultimately show ?thesis
      using createAppointment_not_generic
        [of e params w "or_str (js_or (params ''response'') (params ''message'')) processed"]
      by simp
  qed
  show ?thesis
    using same generic differs by blast
qed

theorem unregistered_action_creates_appointment_witness:
  "toLowerCase sample_env ''schedule_visit'' \<notin> set registered
   \<and> truthy (xmas_params ''patientName'') \<and> truthy (xmas_params ''date'')
   \<and> execute sample_env ''schedule_visit'' xmas_params fresh_world
     = execute sample_env ''create_appointment'' xmas_params fresh_world
   \<and> success (fst (execute sample_env ''schedule_visit'' xmas_params fresh_world)) = True
   \<and> map a_date (stored_appointments (snd (execute sample_env ''schedule_visit'' xmas_params fresh_world)))
     = [Some ''2024-12-25'']
   \<and> isConnected fresh_world \<and> \<not> truthy (alias_params ''patientName'')
   \<and> execute sample_env ''schedule_visit'' alias_params fresh_world = (done_msg processed, fresh_world)
   \<and> fst (execute sample_env ''schedule_visit'' alias_params fresh_world)
     \<noteq> fst (execute sample_env ''create_appointment'' alias_params fresh_world)"
proof -
  have h: "toLowerCase sample_env ''schedule_visit'' \<notin> set registered"
    by code_simp
  have p: "truthy (xmas_params ''patientName'')" "truthy (xmas_params ''date'')"
    "isConnected fresh_world" "\<not> truthy (alias_params ''patientName'')"
    "or_str (js_or (alias_params ''response'') (alias_params ''message'')) processed = processed"
    by code_simp+
  have run: "success (fst (execute sample_env ''create_appointment'' xmas_params fresh_world)) = True
     \<and> map a_date (stored_appointments
          (snd (execute sample_env ''create_appointment'' xmas_params fresh_world)))
       = [Some ''2024-12-25'']"
    by code_simp
  have a: "execute sample_env ''schedule_visit'' xmas_params fresh_world
      = execute sample_env ''create_appointment'' xmas_params fresh_world"
    using p unregistered_action_creates_appointment [OF h, of xmas_params fresh_world] by simp
  have b0: "execute sample_env ''schedule_visit'' alias_params fresh_world
        = (done_msg (or_str (js_or (alias_params ''response'') (alias_params ''message'')) processed),
           fresh_world)
      \<and> fst (execute sample_env ''schedule_visit'' alias_params fresh_world)
        \<noteq> fst (execute sample_env ''create_appointment'' alias_params fresh_world)"
    using p(3,4) unregistered_action_creates_appointment [OF h, of alias_params fresh_world]
    by blast
  have b: "execute sample_env ''schedule_visit'' alias_params fresh_world = (done_msg processed, fresh_world)"
    using b0 p(5) by simp
  have c: "fst (execute sample_env ''schedule_visit'' alias_params fresh_world)
        \<noteq> fst (execute sample_env ''create_appointment'' alias_params fresh_world)"
    using b0 by blast
  show ?thesis
    using h p(1-4) run a b c by (simp only: simp_thms)
qed


text \<open>Reads leave the store as it is; so do the refreshes, which only read.\<close>

lemma window_db_call_read:
  assumes "\<And>db. snd (f db) = db"
  shows "window_db (snd (window_db_call ev m f w)) = window_db w"
proof (cases "window_db w")
  case None
  then show ?thesis by (simp add: window_db_call_def)
next
  case (Some db)
  obtain r db' where f: "f db = (r, db')" by (cases "f db")
  with assms [of db] have "db' = db" by simp
  with Some f show ?thesis
    by (simp add: window_db_call_def backend_def split: option.splits)
qed

lemma window_db_reads:
  "window_db (snd (Database_getPatients w)) = window_db w"
  "window_db (snd (Database_getAppointments w)) = window_db w"
  "window_db (snd (Database_getDeadlines w)) = window_db w"
  "window_db (snd (Database_getInventory w)) = window_db w"
  "window_db (snd (Database_getLowStock w)) = window_db w"
  by (simp_all add: Database_getPatients_def Database_getAppointments_def
      Database_getDeadlines_def Database_getInventory_def Database_getLowStock_def
      window_db_call_read db_getAllPatients_def db_getAllAppointments_def db_getAllDeadlines_def
      db_getAllInventory_def db_getLowStock_def)

lemma window_db_loadStats_reads: "window_db (snd (loadStats_reads w)) = window_db w"
proof -
  obtain p w1 where 1: "Database_getPatients w = (p, w1)" by (cases "Database_getPatients w")
  obtain a w2 where 2: "Database_getAppointments w1 = (a, w2)" by (cases "Database_getAppointments w1")
  obtain d w3 where 3: "Database_getDeadlines w2 = (d, w3)" by (cases "Database_getDeadlines w2")
  obtain l w4 where 4: "Database_getLowStock w3 = (l, w4)" by (cases "Database_getLowStock w3")
  have "window_db w4 = window_db w"
    using window_db_reads(1) [of w] window_db_reads(2) [of w1] window_db_reads(3) [of w2]
      window_db_reads(5) [of w3] by (simp add: 1 2 3 4)
  then show ?thesis by (simp add: loadStats_reads_def 1 2 3 4)
qed

lemma window_db_loadStats: "window_db (loadStats e w) = window_db w"
proof -
  obtain r w' where rd: "loadStats_reads w = (r, w')" by (cases "loadStats_reads w")
  then have "window_db w' = window_db w" using window_db_loadStats_reads [of w] by simp
  then show ?thesis
    by (simp add: loadStats_def rd loadStats_apply_def split: prod.splits)
qed

lemma window_db_views:
  "window_db (renderCalendar w) = window_db w"
  "window_db (refreshSchedule e ds w) = window_db w"
  by (simp_all add: renderCalendar_def refreshSchedule_def showDateSchedule_def loadTodaySchedule_def)

lemma convertDate_nonempty: "s \<noteq> [] \<Longrightarrow> convertDate s \<noteq> []"
  by (simp add: convertDate_def Let_def)

text \<open>A valid request, with a collaborator whose create call works, stores one more appointment.\<close>

lemma createAppointment_stores:
  assumes db: "window_db w = Some db" and ok: "map_of (db_throws db) ''createAppointment'' = None"
    and name: "truthy (params ''patientName'')" and date: "truthy (params ''date'')"
  shows "\<exists>a. stored_appointments (snd (createAppointment e params w)) = stored_appointments w @ [a]
             \<and> a_patientName a = params ''patientName''
             \<and> success (fst (createAppointment e params w))"
proof -
  obtain s where s: "params ''date'' = Some s" "s \<noteq> []"
    using date by (auto simp: truthy_def split: option.splits)
  obtain n where n: "params ''patientName'' = Some n" "n \<noteq> []"
    using name by (auto simp: truthy_def split: option.splits)
  have nm: "or_str (js_or (params ''patientName'') (params ''patient'')) [] = n"
    using n by (simp add: or_str_def js_or_def truthy_def)
  have ds: "or_str (params ''date'') [] = s"
    using s by (simp add: or_str_def)
  have cv: "convertDate s \<noteq> []"
    using s(2) by (rule convertDate_nonempty)
  show ?thesis
    using db ok n nm ds cv
    by (simp add: createAppointment_def createAppointment_named_def Let_def truthy_def
        Database_createAppointment_def isConnected_def window_db_call_def backend_def
        db_createAppointment_def stored_appointments_def window_db_views window_db_loadStats
        done_with_def)
qed

text \<open>
  C9, as stated, fails: with the \<open>patientName\<close> field present and empty, \<open>get_appointment\<close>
  lists the appointments, and \<open>create_appointment\<close> fails.
\<close>

theorem get_appointment_blank_name_lists:
  "blank_name_params ''patientName'' \<noteq> None \<and> blank_name_params ''date'' \<noteq> None
   \<and> fst (execute sample_env ''get_appointment'' blank_name_params fresh_world)
     = done_msg (sym_calendar @ '' **Appointments:** None scheduled.'')
   \<and> fst (execute sample_env ''create_appointment'' blank_name_params fresh_world)
     = failed (sym_cross @ '' Patient name or number is required.'')"
  by code_simp

text \<open>
  C9, amended. When the \<open>patientName\<close> and \<open>date\<close> fields are both present and not empty,
  dispatching \<open>get_appointment\<close> looks nothing up: it runs the appointment-creation handler,
  with the outcome and the world of dispatching \<open>create_appointment\<close>, and where the
  collaborator's create call works one more appointment, for that patient, is stored. When
  either field is absent or empty it lists the appointments, as \<open>list_appointments\<close> does.
\<close>

theorem get_appointment_creates_or_lists:
  "(truthy (params ''patientName'') \<and> truthy (params ''date'') \<longrightarrow>
      execute e ''get_appointment'' params w = execute e ''create_appointment'' params w
      \<and> (\<forall>db. window_db w = Some db \<and> map_of (db_throws db) ''createAppointment'' = None \<longrightarrow>
            (\<exists>a. stored_appointments (snd (execute e ''get_appointment'' params w))
                    = stored_appointments w @ [a]
                  \<and> a_patientName a = params ''patientName''
                  \<and> success (fst (execute e ''get_appointment'' params w)))))
   \<and> (\<not> (truthy (params ''patientName'') \<and> truthy (params ''date'')) \<longrightarrow>
        execute e ''get_appointment'' params w = execute e ''list_appointments'' params w)"
proof (intro conjI impI allI)
  assume t: "truthy (params ''patientName'') \<and> truthy (params ''date'')"
  then show "execute e ''get_appointment'' params w = execute e ''create_appointment'' params w"
    by (simp add: execute_get_appointment execute_create_appointment)
  fix db
  assume d: "window_db w = Some db \<and> map_of (db_throws db) ''createAppointment'' = None"
  then have c: "isConnected w" by (simp add: isConnected_def)
  from createAppointment_stores [of w db params e] d t
  show "\<exists>a. stored_appointments (snd (execute e ''get_appointment'' params w))
                = stored_appointments w @ [a]
              \<and> a_patientName a = params ''patientName''
              \<and> success (fst (execute e ''get_appointment'' params w))"
    using c t by (simp add: execute_get_appointment)
next
  assume "\<not> (truthy (params ''patientName'') \<and> truthy (params ''date''))"
  then show "execute e ''get_appointment'' params w = execute e ''list_appointments'' params w"
    by (auto simp: execute_get_appointment execute_list_appointments)
qed

theorem get_appointment_creates_or_lists_witness:
  "truthy (xmas_params ''patientName'') \<and> truthy (xmas_params ''date'')
   \<and> execute sample_env ''get_appointment'' xmas_params fresh_world
     = execute sample_env ''create_appointment'' xmas_params fresh_world
   \<and> map a_patientName
        (stored_appointments (snd (execute sample_env ''get_appointment'' xmas_params fresh_world)))
     = [Some ''Jane Doe'']
   \<and> \<not> (truthy (date_only_params ''patientName'') \<and> truthy (date_only_params ''date''))
   \<and> execute sample_env ''get_appointment'' date_only_params visit_world
     = execute sample_env ''list_appointments'' date_only_params visit_world
   \<and> stored_appointments (snd (execute sample_env ''get_appointment'' date_only_params visit_world))
     = [visit 1]"
proof -
  have h: "truthy (xmas_params ''patientName'') \<and> truthy (xmas_params ''date'')"
    "\<not> (truthy (date_only_params ''patientName'') \<and> truthy (date_only_params ''date''))"
    by code_simp+
  have run: "map a_patientName
        (stored_appointments (snd (execute sample_env ''get_appointment'' xmas_params fresh_world)))
     = [Some ''Jane Doe'']"
    "stored_appointments (snd (execute sample_env ''get_appointment'' date_only_params visit_world))
     = [visit 1]"
    by code_simp+
  show ?thesis
    using h run get_appointment_creates_or_lists [of xmas_params sample_env fresh_world]
      get_appointment_creates_or_lists [of date_only_params sample_env visit_world]
    by simp
qed

section \<open>Resolution with an empty search term\<close>

lemma read_call_ok:
  assumes "window_db w = Some db" and "map_of (db_throws db) m = None" and "f db = (r, db)"
  shows "window_db_call ev m f w = (Inr r, w\<lparr>trace := trace w @ [ev]\<rparr>)"
  using assms by (cases w) (simp add: window_db_call_def backend_def)

lemma getDeadlines_ok:
  assumes "window_db w = Some db" and "map_of (db_throws db) ''getAllDeadlines'' = None"
  shows "Database_getDeadlines w = (db_deadlines db, w\<lparr>trace := trace w @ [DbGetAllDeadlines]\<rparr>)"
  using assms(1)
  by (simp add: Database_getDeadlines_def isConnected_def read_or_empty_def
      read_call_ok [OF assms, of db_getAllDeadlines "db_deadlines db"] db_getAllDeadlines_def)

lemma getInventory_ok:
  assumes "window_db w = Some db" and "map_of (db_throws db) ''getAllInventory'' = None"
  shows "Database_getInventory w = (db_inventory db, w\<lparr>trace := trace w @ [DbGetAllInventory]\<rparr>)"
  using assms(1)
  by (simp add: Database_getInventory_def isConnected_def read_or_empty_def
      read_call_ok [OF assms, of db_getAllInventory "db_inventory db"] db_getAllInventory_def)

lemma getAppointments_ok:
  assumes "window_db w = Some db" and "map_of (db_throws db) ''getAllAppointments'' = None"
  shows "Database_getAppointments w
           = (db_appointments db, w\<lparr>trace := trace w @ [DbGetAllAppointments]\<rparr>)"
  using assms(1)
  by (simp add: Database_getAppointments_def isConnected_def read_or_empty_def
      read_call_ok [OF assms, of db_getAllAppointments "db_appointments db"]
      db_getAllAppointments_def)

text \<open>The trace only grows.\<close>

lemma grows_call: "prefix (trace w) (trace (snd (window_db_call ev m f w)))"
  using window_db_call_trace [of ev m f w] by auto

lemma grows_reads:
  "prefix (trace w) (trace (snd (Database_getPatients w)))"
  "prefix (trace w) (trace (snd (Database_getAppointments w)))"
  "prefix (trace w) (trace (snd (Database_getDeadlines w)))"
  "prefix (trace w) (trace (snd (Database_getInventory w)))"
  "prefix (trace w) (trace (snd (Database_getLowStock w)))"
  by (simp_all add: Database_getPatients_def Database_getAppointments_def
      Database_getDeadlines_def Database_getInventory_def Database_getLowStock_def grows_call)

lemma grows_loadStats_reads: "prefix (trace w) (trace (snd (loadStats_reads w)))"
proof -
  obtain p w1 where 1: "Database_getPatients w = (p, w1)" by (cases "Database_getPatients w")
  obtain a w2 where 2: "Database_getAppointments w1 = (a, w2)" by (cases "Database_getAppointments w1")
  obtain d w3 where 3: "Database_getDeadlines w2 = (d, w3)" by (cases "Database_getDeadlines w2")
  obtain l w4 where 4: "Database_getLowStock w3 = (l, w4)" by (cases "Database_getLowStock w3")
  have "prefix (trace w) (trace w1)" using grows_reads(1) [of w] by (simp add: 1)
  moreover have "prefix (trace w1) (trace w2)" using grows_reads(2) [of w1] by (simp add: 2)
  moreover have "prefix (trace w2) (trace w3)" using grows_reads(3) [of w2] by (simp add: 3)
  moreover have "prefix (trace w3) (trace w4)" using grows_reads(5) [of w3] by (simp add: 4)
  ultimately have "prefix (trace w) (trace w4)" by (meson prefix_order.trans)
  then show ?thesis by (simp add: loadStats_reads_def 1 2 3 4)
qed

lemma grows_loadStats: "prefix (trace w) (trace (loadStats e w))"
proof -
  obtain r w' where rd: "loadStats_reads w = (r, w')" by (cases "loadStats_reads w")
  then have "prefix (trace w) (trace w')" using grows_loadStats_reads [of w] by simp
  then show ?thesis
    by (auto simp: loadStats_def rd loadStats_apply_def prefix_def split: prod.splits)
qed

lemma grows_loadDashboard: "prefix (trace w) (trace (loadDashboard e w))"
proof -
  obtain r w' where rd: "loadStats_reads w = (r, w')" by (cases "loadStats_reads w")
  then have "prefix (trace w) (trace w')" using grows_loadStats_reads [of w] by simp
  then show ?thesis
    by (auto simp: loadDashboard_def rd loadStats_apply_def renderCalendar_def
        loadTodaySchedule_def showDateSchedule_def prefix_def split: prod.splits)
qed

lemma grows_loadInventory: "prefix (trace w) (trace (loadInventory w))"
proof -
  obtain r w' where rd: "Database_getInventory w = (r, w')" by (cases "Database_getInventory w")
  then have "prefix (trace w) (trace w')" using grows_reads(4) [of w] by simp
  then show ?thesis by (auto simp: loadInventory_def rd prefix_def)
qed

lemma take2_new_events:
  assumes "trace w2 = trace w @ [e1, e2]" and "prefix (trace w2) (trace w')"
  shows "take 2 (new_events w w') = [e1, e2]"
  using assms by (auto simp: new_events_def prefix_def)

lemma matchText_blank: "\<not> truthy term \<Longrightarrow> matchText e field term"
  by (auto simp: matchText_def truthy_def or_str_def str_includes_def toLowerCase_def
      asciiLower_def split: option.splits)

lemma js_or_blank: "\<not> truthy a \<Longrightarrow> \<not> truthy b \<Longrightarrow> \<not> truthy (js_or a b)"
  by (simp add: js_or_def)

text \<open>A write made while the collaborator is there is recorded, whatever comes of it.\<close>

lemma write_recorded:
  assumes "window_db w = Some db"
  shows "trace (snd (window_db_call ev m f (w\<lparr>trace := trace w @ [ev0]\<rparr>))) = trace w @ [ev0, ev]"
  using assms by (simp add: window_db_call_def split: prod.splits)

lemma deleteDeadline_first:
  assumes db: "window_db w = Some db" and rd: "map_of (db_throws db) ''getAllDeadlines'' = None"
    and coll: "db_deadlines db = x # xs" and blank: "\<not> truthy (params ''title'')"
  shows "take 2 (new_events w (snd (deleteDeadline e params w)))
           = [DbGetAllDeadlines, DbDeleteDeadline (d_id x)]"
proof -
  let ?w1 = "w\<lparr>trace := trace w @ [DbGetAllDeadlines]\<rparr>"
  have g: "Database_getDeadlines w = (x # xs, ?w1)"
    using getDeadlines_ok [OF db rd] coll by simp
  have m: "matchText e (d_title x) (params ''title'')"
    using blank by (rule matchText_blank)
  obtain r w2 where c: "Database_deleteDeadline (d_id x) ?w1 = (r, w2)"
    by (cases "Database_deleteDeadline (d_id x) ?w1")
  have t2: "trace w2 = trace w @ [DbGetAllDeadlines, DbDeleteDeadline (d_id x)]"
    using c db write_recorded [OF db, of "DbDeleteDeadline (d_id x)" "''deleteDeadline''"
        "db_deleteDeadline (d_id x)" DbGetAllDeadlines]
    by (simp add: Database_deleteDeadline_def isConnected_def)
  have fin: "prefix (trace w2) (trace (snd (deleteDeadline e params w)))"
    by (cases r) (simp_all add: deleteDeadline_def g m c grows_loadDashboard)
  show ?thesis using t2 fin by (rule take2_new_events)
qed

lemma updateDeadline_first:
  assumes db: "window_db w = Some db" and rd: "map_of (db_throws db) ''getAllDeadlines'' = None"
    and coll: "db_deadlines db = x # xs"
    and blank: "\<not> truthy (params ''title'')" "\<not> truthy (params ''oldTitle'')"
  shows "\<exists>u. take 2 (new_events w (snd (updateDeadline e params w)))
           = [DbGetAllDeadlines, DbUpdateDeadline (d_id x) u]"
proof -
  let ?w1 = "w\<lparr>trace := trace w @ [DbGetAllDeadlines]\<rparr>"
  let ?u = "no_deadline\<lparr>d_title := set_if (params ''newTitle''),
              d_date := set_if (params ''newDate''), d_priority := set_if (params ''newPriority''),
              d_description := set_if (params ''newDescription'')\<rparr>"
  have g: "Database_getDeadlines w = (x # xs, ?w1)"
    using getDeadlines_ok [OF db rd] coll by simp
  have m: "matchText e (d_title x) (js_or (params ''title'') (params ''oldTitle''))"
    using blank by (simp add: matchText_blank js_or_blank)
  obtain r w2 where c: "Database_updateDeadline (d_id x) ?u ?w1 = (r, w2)"
    by (cases "Database_updateDeadline (d_id x) ?u ?w1")
  have t2: "trace w2 = trace w @ [DbGetAllDeadlines, DbUpdateDeadline (d_id x) ?u]"
    using c db write_recorded [OF db, of "DbUpdateDeadline (d_id x) ?u" "''updateDeadline''"
        "db_updateDeadline (d_id x) ?u" DbGetAllDeadlines]
    by (simp add: Database_updateDeadline_def isConnected_def)
  have fin: "prefix (trace w2) (trace (snd (updateDeadline e params w)))"
    by (cases r) (simp_all add: updateDeadline_def Let_def g m c grows_loadDashboard)
  show ?thesis using take2_new_events [OF t2 fin] by blast
qed

lemma getDeadlineDetails_first:
  assumes db: "window_db w = Some db" and rd: "map_of (db_throws db) ''getAllDeadlines'' = None"
    and coll: "db_deadlines db = x # xs" and blank: "\<not> truthy (params ''title'')"
  shows "success (fst (getDeadlineDetails e params w))
         \<and> data (fst (getDeadlineDetails e params w)) = Some (DDeadline x)"
proof -
  let ?w1 = "w\<lparr>trace := trace w @ [DbGetAllDeadlines]\<rparr>"
  have g: "Database_getDeadlines w = (x # xs, ?w1)"
    using getDeadlines_ok [OF db rd] coll by simp
  have m: "matchText e (d_title x) (params ''title'')"
    using blank by (rule matchText_blank)
  show ?thesis by (simp add: getDeadlineDetails_def g m done_with_def)
qed

lemma deleteInventoryItem_first:
  assumes db: "window_db w = Some db" and rd: "map_of (db_throws db) ''getAllInventory'' = None"
    and coll: "db_inventory db = x # xs"
    and blank: "\<not> truthy (params ''name'')" "\<not> truthy (params ''itemName'')"
  shows "take 2 (new_events w (snd (deleteInventoryItem e params w)))
           = [DbGetAllInventory, DbDeleteInventoryItem (i_id x)]"
proof -
  let ?w1 = "w\<lparr>trace := trace w @ [DbGetAllInventory]\<rparr>"
  have g: "Database_getInventory w = (x # xs, ?w1)"
    using getInventory_ok [OF db rd] coll by simp
  have m: "matchText e (i_name x) (js_or (params ''name'') (params ''itemName''))"
    using blank by (simp add: matchText_blank js_or_blank)
  obtain r w2 where c: "Database_deleteInventoryItem (i_id x) ?w1 = (r, w2)"
    by (cases "Database_deleteInventoryItem (i_id x) ?w1")
  have t2: "trace w2 = trace w @ [DbGetAllInventory, DbDeleteInventoryItem (i_id x)]"
    using c db write_recorded [OF db, of "DbDeleteInventoryItem (i_id x)" "''deleteInventoryItem''"
        "db_deleteInventoryItem (i_id x)" DbGetAllInventory]
    by (simp add: Database_deleteInventoryItem_def isConnected_def)
  have "prefix (trace w2) (trace (loadStats e (loadInventory w2)))"
    using grows_loadInventory [of w2] grows_loadStats [of "loadInventory w2" e]
    by (meson prefix_order.trans)
  then have fin: "prefix (trace w2) (trace (snd (deleteInventoryItem e params w)))"
    by (cases r) (simp_all add: deleteInventoryItem_def g m c)
  show ?thesis using t2 fin by (rule take2_new_events)
qed

lemma updateInventoryItem_first:
  assumes db: "window_db w = Some db" and rd: "map_of (db_throws db) ''getAllInventory'' = None"
    and coll: "db_inventory db = x # xs"
    and blank: "\<not> truthy (params ''name'')" "\<not> truthy (params ''itemName'')"
  shows "\<exists>u. take 2 (new_events w (snd (updateInventoryItem e params w)))
           = [DbGetAllInventory, DbUpdateInventoryItem (i_id x) u]"
proof -
  let ?w1 = "w\<lparr>trace := trace w @ [DbGetAllInventory]\<rparr>"
  let ?u = "no_item\<lparr>i_name := set_if (params ''newName''),
              i_quantity := (case params ''newQuantity'' of None \<Rightarrow> None
                             | Some v \<Rightarrow> Some (parseInt (Some v))),
              i_minStock := (case params ''newMinStock'' of None \<Rightarrow> None
                             | Some v \<Rightarrow> Some (parseInt (Some v))),
              i_category := set_if (params ''newCategory''), i_unit := set_if (params ''newUnit'')\<rparr>"
  have g: "Database_getInventory w = (x # xs, ?w1)"
    using getInventory_ok [OF db rd] coll by simp
  have m: "matchText e (i_name x) (js_or (params ''name'') (params ''itemName''))"
    using blank by (simp add: matchText_blank js_or_blank)
  obtain r w2 where c: "Database_updateInventoryItem (i_id x) ?u ?w1 = (r, w2)"
    by (cases "Database_updateInventoryItem (i_id x) ?u ?w1")
  have t2: "trace w2 = trace w @ [DbGetAllInventory, DbUpdateInventoryItem (i_id x) ?u]"
    using c db write_recorded [OF db, of "DbUpdateInventoryItem (i_id x) ?u" "''updateInventoryItem''"
        "db_updateInventoryItem (i_id x) ?u" DbGetAllInventory]
    by (simp add: Database_updateInventoryItem_def isConnected_def)
  have fin: "prefix (trace w2) (trace (snd (updateInventoryItem e params w)))"
    by (cases r) (simp_all add: updateInventoryItem_def Let_def g m c grows_loadInventory)
  show ?thesis using take2_new_events [OF t2 fin] by blast
qed


lemma matchAppointment_blank:
  assumes "\<not> truthy (params ''patientName'')"
  shows "matchAppointment e params a = (a_date a = params ''date'' \<or> \<not> truthy (params ''date''))"
  using matchText_blank [OF assms, of e "a_patientName a"]
  by (simp add: matchAppointment_def matchText_def)

lemma find_matchAppointment_blank:
  assumes "\<not> truthy (params ''patientName'')"
  shows "find (matchAppointment e params) xs = appointment_target params xs"
proof -
  have eq: "matchAppointment e params
              = (\<lambda>a. a_date a = params ''date'' \<or> \<not> truthy (params ''date''))"
    using assms by (intro ext) (simp add: matchAppointment_blank)
  show ?thesis
  proof (cases "truthy (params ''date'')")
    case True
    then show ?thesis by (simp add: appointment_target_def eq)
  next
    case False
    then show ?thesis by (cases xs) (simp_all add: appointment_target_def eq)
  qed
qed

lemma deleteAppointment_resolved:
  assumes db: "window_db w = Some db" and rd: "map_of (db_throws db) ''getAllAppointments'' = None"
    and f: "find (matchAppointment e params) (db_appointments db) = Some b"
  shows "take 2 (new_events w (snd (deleteAppointment e params w)))
           = [DbGetAllAppointments, DbDeleteAppointment (a_id b)]"
proof -
  let ?w1 = "w\<lparr>trace := trace w @ [DbGetAllAppointments]\<rparr>"
  note g = getAppointments_ok [OF db rd]
  obtain r w2 where c: "Database_deleteAppointment (a_id b) ?w1 = (r, w2)"
    by (cases "Database_deleteAppointment (a_id b) ?w1")
  have t2: "trace w2 = trace w @ [DbGetAllAppointments, DbDeleteAppointment (a_id b)]"
    using c db write_recorded [OF db, of "DbDeleteAppointment (a_id b)" "''deleteAppointment''"
        "db_deleteAppointment (a_id b)" DbGetAllAppointments]
    by (simp add: Database_deleteAppointment_def isConnected_def)
  have fin: "prefix (trace w2) (trace (snd (deleteAppointment e params w)))"
    by (cases r) (simp_all add: deleteAppointment_def g f c grows_loadDashboard)
  show ?thesis using t2 fin by (rule take2_new_events)
qed

lemma updateAppointment_resolved:
  assumes db: "window_db w = Some db" and rd: "map_of (db_throws db) ''getAllAppointments'' = None"
    and f: "find (matchAppointment e params) (db_appointments db) = Some b"
  shows "\<exists>u. take 2 (new_events w (snd (updateAppointment e params w)))
           = [DbGetAllAppointments, DbUpdateAppointment (a_id b) u]"
proof -
  let ?w1 = "w\<lparr>trace := trace w @ [DbGetAllAppointments]\<rparr>"
  let ?u = "no_appointment\<lparr>a_date := set_if (params ''newDate''),
              a_time := set_if (params ''newTime''), a_type := set_if (params ''newType''),
              a_status := set_if (params ''newStatus''), a_notes := set_if (params ''newNotes'')\<rparr>"
  note g = getAppointments_ok [OF db rd]
  obtain r w2 where c: "Database_updateAppointment (a_id b) ?u ?w1 = (r, w2)"
    by (cases "Database_updateAppointment (a_id b) ?u ?w1")
  have t2: "trace w2 = trace w @ [DbGetAllAppointments, DbUpdateAppointment (a_id b) ?u]"
    using c db write_recorded [OF db, of "DbUpdateAppointment (a_id b) ?u" "''updateAppointment''"
        "db_updateAppointment (a_id b) ?u" DbGetAllAppointments]
    by (simp add: Database_updateAppointment_def isConnected_def)
  have fin: "prefix (trace w2) (trace (snd (updateAppointment e params w)))"
    by (cases r) (simp_all add: updateAppointment_def Let_def g f c grows_loadDashboard)
  show ?thesis using take2_new_events [OF t2 fin] by blast
qed

lemma appointment_unresolved:
  assumes db: "window_db w = Some db" and rd: "map_of (db_throws db) ''getAllAppointments'' = None"
    and f: "find (matchAppointment e params) (db_appointments db) = None"
  shows "\<not> success (fst (deleteAppointment e params w))
         \<and> new_events w (snd (deleteAppointment e params w)) = [DbGetAllAppointments]
         \<and> \<not> success (fst (updateAppointment e params w))
         \<and> new_events w (snd (updateAppointment e params w)) = [DbGetAllAppointments]"
  by (simp add: deleteAppointment_def updateAppointment_def getAppointments_ok [OF db rd] f
      failed_def new_events_def)

text \<open>
  C10, as stated, fails for the appointment handlers. A request that names a date and no
  patient is not resolved to the first appointment: with one appointment on another day,
  delete and update report that no appointment was found and write nothing; with a second
  appointment on the day named, delete removes the second and keeps the first.
\<close>

theorem blank_name_with_date_not_first:
  "date_only_params ''patientName'' = None
   \<and> stored_appointments visit_world = [visit 1]
   \<and> fst (deleteAppointment sample_env date_only_params visit_world)
     = failed (sym_cross @ '' Appointment not found for '' @ dq @ ''unknown'' @ dq @ ''.'')
   \<and> stored_appointments (snd (deleteAppointment sample_env date_only_params visit_world)) = [visit 1]
   \<and> fst (updateAppointment sample_env date_only_params visit_world)
     = failed (sym_cross @ '' Appointment not found.'')
   \<and> map a_id (stored_appointments two_visit_world) = [Some 1, Some 2]
   \<and> success (fst (deleteAppointment sample_env date_only_params two_visit_world))
   \<and> map a_id (stored_appointments (snd (deleteAppointment sample_env date_only_params two_visit_world)))
     = [Some 1]"
  by code_simp

text \<open>
  C10, amended. The handlers read the collection from the collaborator. With the search
  term absent or empty and the collection not empty, the deadline handlers (delete, update,
  details) and the inventory handlers (delete, update) resolve to the first record: the
  write that follows the read carries its id, and the details are those of that record. The
  appointment handlers (delete, update) resolve, with the patient name absent or empty, to
  the first appointment on the date given, or to the first appointment when no date is
  given; when no appointment has the date given they fail with a not-found outcome and
  write nothing.
\<close>

theorem blank_search_term_resolution:
  assumes "window_db w = Some db"
  shows
    "(map_of (db_throws db) ''getAllDeadlines'' = None \<and> db_deadlines db = d # ds
        \<and> \<not> truthy (params ''title'') \<longrightarrow>
        take 2 (new_events w (snd (deleteDeadline e params w)))
          = [DbGetAllDeadlines, DbDeleteDeadline (d_id d)]
        \<and> success (fst (getDeadlineDetails e params w))
        \<and> data (fst (getDeadlineDetails e params w)) = Some (DDeadline d)
        \<and> (\<not> truthy (params ''oldTitle'') \<longrightarrow>
             (\<exists>u. take 2 (new_events w (snd (updateDeadline e params w)))
                     = [DbGetAllDeadlines, DbUpdateDeadline (d_id d) u])))
     \<and> (map_of (db_throws db) ''getAllInventory'' = None \<and> db_inventory db = i # rest
          \<and> \<not> truthy (params ''name'') \<and> \<not> truthy (params ''itemName'') \<longrightarrow>
          take 2 (new_events w (snd (deleteInventoryItem e params w)))
            = [DbGetAllInventory, DbDeleteInventoryItem (i_id i)]
          \<and> (\<exists>u. take 2 (new_events w (snd (updateInventoryItem e params w)))
                    = [DbGetAllInventory, DbUpdateInventoryItem (i_id i) u]))
     \<and> (map_of (db_throws db) ''getAllAppointments'' = None
          \<and> \<not> truthy (params ''patientName'') \<longrightarrow>
          (case appointment_target params (db_appointments db) of
             Some a \<Rightarrow>
               take 2 (new_events w (snd (deleteAppointment e params w)))
                 = [DbGetAllAppointments, DbDeleteAppointment (a_id a)]
               \<and> (\<exists>u. take 2 (new_events w (snd (updateAppointment e params w)))
                         = [DbGetAllAppointments, DbUpdateAppointment (a_id a) u])
           | None \<Rightarrow>
               \<not> success (fst (deleteAppointment e params w))
               \<and> new_events w (snd (deleteAppointment e params w)) = [DbGetAllAppointments]
               \<and> \<not> success (fst (updateAppointment e params w))
               \<and> new_events w (snd (updateAppointment e params w)) = [DbGetAllAppointments]))"
proof (intro conjI impI)
  assume h: "map_of (db_throws db) ''getAllDeadlines'' = None \<and> db_deadlines db = d # ds
        \<and> \<not> truthy (params ''title'')"
  show "take 2 (new_events w (snd (deleteDeadline e params w)))
          = [DbGetAllDeadlines, DbDeleteDeadline (d_id d)]"
    using deleteDeadline_first [of w db d ds params e] assms h by simp
  show "success (fst (getDeadlineDetails e params w))"
    using getDeadlineDetails_first [of w db d ds params e] assms h by simp
  show "data (fst (getDeadlineDetails e params w)) = Some (DDeadline d)"
    using getDeadlineDetails_first [of w db d ds params e] assms h by simp
  assume "\<not> truthy (params ''oldTitle'')"
  then show "\<exists>u. take 2 (new_events w (snd (updateDeadline e params w)))
                     = [DbGetAllDeadlines, DbUpdateDeadline (d_id d) u]"
    using updateDeadline_first [of w db d ds params e] assms h by simp
next
  assume h: "map_of (db_throws db) ''getAllInventory'' = None \<and> db_inventory db = i # rest
          \<and> \<not> truthy (params ''name'') \<and> \<not> truthy (params ''itemName'')"
  show "take 2 (new_events w (snd (deleteInventoryItem e params w)))
            = [DbGetAllInventory, DbDeleteInventoryItem (i_id i)]"
    using deleteInventoryItem_first [of w db i rest params e] assms h by simp
  show "\<exists>u. take 2 (new_events w (snd (updateInventoryItem e params w)))
                    = [DbGetAllInventory, DbUpdateInventoryItem (i_id i) u]"
    using updateInventoryItem_first [of w db i rest params e] assms h by simp
next
  assume h: "map_of (db_throws db) ''getAllAppointments'' = None
          \<and> \<not> truthy (params ''patientName'')"
  then have f: "find (matchAppointment e params) (db_appointments db)
                  = appointment_target params (db_appointments db)"
    by (simp add: find_matchAppointment_blank)
  show "case appointment_target params (db_appointments db) of
             Some a \<Rightarrow>
               take 2 (new_events w (snd (deleteAppointment e params w)))
                 = [DbGetAllAppointments, DbDeleteAppointment (a_id a)]
               \<and> (\<exists>u. take 2 (new_events w (snd (updateAppointment e params w)))
                         = [DbGetAllAppointments, DbUpdateAppointment (a_id a) u])
           | None \<Rightarrow>
               \<not> success (fst (deleteAppointment e params w))
               \<and> new_events w (snd (deleteAppointment e params w)) = [DbGetAllAppointments]
               \<and> \<not> success (fst (updateAppointment e params w))
               \<and> new_events w (snd (updateAppointment e params w)) = [DbGetAllAppointments]"
  proof (cases "appointment_target params (db_appointments db)")
    case None
    then show ?thesis
      using appointment_unresolved [of w db e params] assms h f by simp
  next
    case (Some a)
    then show ?thesis
      using deleteAppointment_resolved [of w db e params a]
        updateAppointment_resolved [of w db e params a] assms h f by simp
  qed
qed

theorem blank_search_term_resolution_witness:
  "window_db clinic_world = Some (empty_db\<lparr>db_appointments := [visit 1], db_deadlines := [report],
        db_inventory := [gloves], db_next_id := 2\<rparr>)
   \<and> \<not> truthy (no_params ''title'') \<and> \<not> truthy (no_params ''patientName'')
   \<and> take 2 (new_events clinic_world (snd (deleteDeadline sample_env no_params clinic_world)))
     = [DbGetAllDeadlines, DbDeleteDeadline (Some 1)]
   \<and> data (fst (getDeadlineDetails sample_env no_params clinic_world)) = Some (DDeadline report)
   \<and> take 2 (new_events clinic_world (snd (deleteInventoryItem sample_env no_params clinic_world)))
     = [DbGetAllInventory, DbDeleteInventoryItem (Some 1)]
   \<and> take 2 (new_events clinic_world (snd (deleteAppointment sample_env no_params clinic_world)))
     = [DbGetAllAppointments, DbDeleteAppointment (Some 1)]
   \<and> stored_deadlines (snd (deleteDeadline sample_env no_params clinic_world)) = []"
proof -
  let ?db = "empty_db\<lparr>db_appointments := [visit 1], db_deadlines := [report],
        db_inventory := [gloves], db_next_id := 2\<rparr>"
  have w: "window_db clinic_world = Some ?db"
    by (simp add: clinic_world_def fresh_world_def)
  have h: "map_of (db_throws ?db) ''getAllDeadlines'' = None" "db_deadlines ?db = report # []"
    "map_of (db_throws ?db) ''getAllInventory'' = None" "db_inventory ?db = gloves # []"
    "map_of (db_throws ?db) ''getAllAppointments'' = None"
    "\<not> truthy (no_params ''title'')" "\<not> truthy (no_params ''patientName'')"
    "\<not> truthy (no_params ''name'')" "\<not> truthy (no_params ''itemName'')"
    "\<not> truthy (no_params ''oldTitle'')"
    "appointment_target no_params (db_appointments ?db) = Some (visit 1)"
    "d_id report = Some 1" "i_id gloves = Some 1" "a_id (visit 1) = Some 1"
    by (simp_all add: empty_db_def no_params_def truthy_def appointment_target_def report_def
        gloves_def visit_def no_item_def)
  have run: "stored_deadlines (snd (deleteDeadline sample_env no_params clinic_world)) = []"
    by code_simp
  show ?thesis
    using w h run
      blank_search_term_resolution [OF w, of report "[]" no_params sample_env gloves "[]"]
    by simp
qed

section \<open>Linking twice\<close>

text \<open>Every annotation carries the marker.\<close>

lemma marker_in_anchor: "sublist marker (anchor kind ident attr val m)"
proof -
  have "anchor kind ident attr val m
          = (''<a href='' @ dq @ ''#'' @ dq @ '' class='' @ dq) @ marker
            @ ('' '' @ kind @ ''-link'' @ dq @ '' data-type='' @ dq @ kind @ dq @ '' data-id='' @ dq
               @ ident @ dq @ '' data-'' @ attr @ ''='' @ dq @ val @ dq @ ''>'' @ m @ ''</a>'')"
    by (simp add: anchor_def marker_def)
  then show ?thesis by (simp only: sublist_appendI)
qed

text \<open>A replacement pass either finds nothing, and changes nothing, or leaves the marker.\<close>

lemma regexReplaceAll_same_or_marked:
  "(\<And>m. sublist marker (f m)) \<Longrightarrow>
     regexReplaceAll mt f prev s = s \<or> sublist marker (regexReplaceAll mt f prev s)"
proof (induction mt f prev s rule: regexReplaceAll.induct)
  case (1 mt f prev)
  show ?case by simp
next
  case (2 mt f prev c cs)
  show ?case
  proof (cases "mt prev (c # cs) = 0")
    case True
    have "regexReplaceAll mt f (Some c) cs = cs \<or> sublist marker (regexReplaceAll mt f (Some c) cs)"
      using "2.IH"(1) [OF True] "2.prems" by simp
    then show ?thesis using True by (auto simp: sublist_Cons_right)
  next
    case False
    have "sublist marker (f (take (mt prev (c # cs)) (c # cs)))"
      by (rule "2.prems")
    then show ?thesis using False by (simp add: sublist_append)
  qed
qed

lemma linkPatient_same_or_marked:
  "linkPatient t p = t \<or> sublist marker (linkPatient t p)"
proof -
  let ?name = "or_str (p_name p) []"
  let ?byName = "if ?name \<noteq> [] \<and> js_length ?name > 2
     then regexReplaceAll (wordMatcher ?name)
            (anchor ''patient'' (interp_nat (p_id p)) ''name'' (escapeHtml ?name)) None t
     else t"
  have 1: "?byName = t \<or> sublist marker ?byName"
    using regexReplaceAll_same_or_marked [of "anchor ''patient'' (interp_nat (p_id p)) ''name''
        (escapeHtml ?name)" "wordMatcher ?name" None t]
    by (simp add: marker_in_anchor)
  have 2: "linkPatient t p = ?byName \<or> sublist marker (linkPatient t p)"
    using regexReplaceAll_same_or_marked [of "anchor ''patient'' (interp_nat (p_id p)) ''name''
        (escapeHtml (if ?name \<noteq> [] then ?name
                     else ''Patient #'' @ interp_nat (p_patient_number p)))"
        "numberMatcher (interp_nat (p_patient_number p))" None ?byName]
    by (simp add: linkPatient_def Let_def marker_in_anchor)
  from 1 2 show ?thesis by metis
qed

lemma linkAppointment_same_or_marked:
  "linkAppointment e t a = t \<or> sublist marker (linkAppointment e t a)"
  using regexReplaceAll_same_or_marked [of "anchor ''appointment'' (interp_nat (a_id a)) ''date''
      (interp (a_date a))" "wordMatcher (formatDate e (a_date a))" None t]
  by (simp add: linkAppointment_def marker_in_anchor)

lemma linkDeadline_same_or_marked:
  "linkDeadline t d = t \<or> sublist marker (linkDeadline t d)"
  using regexReplaceAll_same_or_marked [of "anchor ''deadline'' (interp_nat (d_id d)) ''title''
      (escapeHtml (or_str (d_title d) []))" "wordMatcher (or_str (d_title d) [])" None t]
  by (simp add: linkDeadline_def Let_def marker_in_anchor)

lemma linkItem_same_or_marked:
  "linkItem t i = t \<or> sublist marker (linkItem t i)"
  using regexReplaceAll_same_or_marked [of "anchor ''inventory'' (interp_nat (i_id i)) ''name''
      (escapeHtml (or_str (js_or (i_name i) (i_itemName i)) []))"
      "wordMatcher (or_str (js_or (i_name i) (i_itemName i)) [])" None t]
  by (simp add: linkItem_def Let_def marker_in_anchor)

lemma foldl_same_or_marked:
  assumes "\<And>t x. g t x = t \<or> sublist marker (g t x)"
  shows "foldl g t xs = t \<or> sublist marker (foldl g t xs)"
proof (induction xs arbitrary: t)
  case Nil
  show ?case by simp
next
  case (Cons x xs)
  from Cons [of "g t x"] assms [of t x] show ?case by auto
qed

lemma linkEntities_same_or_marked:
  "linkEntities e w t = t \<or> sublist marker (linkEntities e w t)"
proof -
  let ?t1 = "foldl linkPatient t (cache_patients w)"
  let ?t2 = "foldl (linkAppointment e) ?t1 (cache_appointments w)"
  let ?t3 = "foldl linkDeadline ?t2 (cache_deadlines w)"
  let ?t4 = "foldl linkItem ?t3 (cache_inventory w)"
  have 1: "?t1 = t \<or> sublist marker ?t1"
    by (rule foldl_same_or_marked) (rule linkPatient_same_or_marked)
  have 2: "?t2 = ?t1 \<or> sublist marker ?t2"
    by (rule foldl_same_or_marked) (rule linkAppointment_same_or_marked)
  have 3: "?t3 = ?t2 \<or> sublist marker ?t3"
    by (rule foldl_same_or_marked) (rule linkDeadline_same_or_marked)
  have 4: "?t4 = ?t3 \<or> sublist marker ?t4"
    by (rule foldl_same_or_marked) (rule linkItem_same_or_marked)
  have "?t4 = t \<or> sublist marker ?t4"
    using 1 2 3 4 by metis
  then show ?thesis by (simp add: linkEntities_def)
qed

text \<open>Putting the markup back keeps the marker: a placeholder shares no character with it.\<close>

lemma sublist_skip_middle:
  assumes "sublist m (b @ p @ a)" and "set m \<inter> set p = {}" and "m \<noteq> []" and "p \<noteq> []"
  shows "sublist m b \<or> sublist m a"
proof -
  have np: "\<not> sublist m p"
    using assms(2,3) set_mono_sublist [of m p] by (cases m) auto
  from assms(1) consider "sublist m b" | "sublist m (p @ a)"
    | m1 m2 where "m = m1 @ m2" "suffix m1 b" "prefix m2 (p @ a)"
    by (auto simp: sublist_append)
  then show ?thesis
  proof cases
    case 1
    then show ?thesis by simp
  next
    case 2
    then consider "sublist m a" | m1 m2 where "m = m1 @ m2" "suffix m1 p" "prefix m2 a"
      using np by (auto simp: sublist_append)
    then show ?thesis
    proof cases
      case 1
      then show ?thesis by simp
    next
      case 2
      show ?thesis
      proof (cases "m1 = []")
        case True
        with 2 show ?thesis by auto
      next
        case False
        then have "last m1 \<in> set m" using 2(1) by auto
        moreover have "last m1 \<in> set p"
          using False 2(2) by (metis last_in_set set_mono_suffix subsetD)
        ultimately show ?thesis using assms(2) by auto
      qed
    qed
  next
    case 3
    show ?thesis
    proof (cases "m2 = []")
      case True
      with 3 show ?thesis by auto
    next
      case False
      show ?thesis
      proof -
        obtain x xs where p: "p = x # xs" using assms(4) by (cases p) auto
        with 3(3) False have "hd m2 = x"
          by (cases m2) (auto simp: prefix_Cons)
        then have "x \<in> set m" using 3(1) False by (cases m2) auto
        with p assms(2) show ?thesis by auto
      qed
    qed
  qed
qed

lemma splitFirst_sound: "splitFirst pat t = Some (b, a) \<Longrightarrow> t = b @ pat @ a"
proof (induction t arbitrary: b)
  case Nil
  then show ?case by (simp split: if_splits)
next
  case (Cons c cs)
  show ?case
  proof (cases "prefix pat (c # cs)")
    case True
    with Cons.prems show ?thesis by (auto simp: prefix_def)
  next
    case False
    with Cons.prems obtain b' where "splitFirst pat cs = Some (b', a)" "b = c # b'"
      by (auto split: option.splits)
    with Cons.IH [of b'] show ?thesis by simp
  qed
qed

lemma replaceFirst_marked:
  assumes "sublist marker t" and "set marker \<inter> set pat = {}" and "pat \<noteq> []"
  shows "sublist marker (replaceFirst pat repl t)"
proof (cases "splitFirst pat t")
  case None
  with assms(1) show ?thesis by (simp add: replaceFirst_def)
next
  case (Some ba)
  obtain b a where ba: "ba = (b, a)" by (cases ba)
  with Some have t: "t = b @ pat @ a" by (simp add: splitFirst_sound)
  have "marker \<noteq> []" by (simp add: marker_def)
  with assms t have "sublist marker b \<or> sublist marker a"
    using sublist_skip_middle [of marker b pat a] by simp
  then have "sublist marker (b @ expandReplacement pat b a repl @ a)"
    by (auto simp: sublist_append)
  with Some ba show ?thesis by (simp add: replaceFirst_def)
qed

lemma set_show_nat: "set (show_nat n) \<subseteq> set ''0123456789''"
proof (induction n rule: show_nat.induct)
  case (1 n)
  have d: "\<And>k. k < 10 \<Longrightarrow> digit_char k \<in> set ''0123456789''"
    unfolding digit_char_def by (rule nth_mem) simp
  show ?case
  proof (cases "n < 10")
    case True
    with d [of n] show ?thesis by (subst show_nat.simps) simp
  next
    case False
    have "n mod 10 < 10" by simp
    with "1.IH" [OF False] d [of "n mod 10"] False show ?thesis
      by (subst show_nat.simps) auto
  qed
qed

lemma placeholder_nonempty: "placeholder k \<noteq> []"
  by (simp add: placeholder_def)

lemma placeholder_marker_disjoint: "set marker \<inter> set (placeholder k) = {}"
proof -
  have 1: "set marker \<inter> set ''__PLACEHOLDER_'' = {}"
    by (simp add: marker_def)
  have 2: "set marker \<inter> set ''0123456789'' = {}"
    by (simp add: marker_def)
  have 3: "set marker \<inter> set (show_nat k) = {}"
    using 2 set_show_nat [of k] by blast
  have 4: "set marker \<inter> set ''__'' = {}"
    by (simp add: marker_def)
  have "set (placeholder k) = set ''__PLACEHOLDER_'' \<union> (set (show_nat k) \<union> set ''__'')"
    by (simp only: placeholder_def set_append)
  then show ?thesis using 1 3 4 by blast
qed

lemma extractTags_keys:
  "extractTags k s = (t0, phs) \<Longrightarrow> \<forall>x \<in> set phs. \<exists>j. fst x = placeholder j"
proof (induction k s arbitrary: t0 phs rule: extractTags.induct)
  case (1 k)
  then show ?case by simp
next
  case (2 k c cs)
  let ?c = "c = CHR ''<'' \<and> takeWhile (\<lambda>x. x \<noteq> CHR ''>'') cs \<noteq> []
         \<and> dropWhile (\<lambda>x. x \<noteq> CHR ''>'') cs \<noteq> []"
  show ?case
  proof (cases ?c)
    case True
    obtain t' m' where r: "extractTags (Suc k) (tl (dropWhile (\<lambda>x. x \<noteq> CHR ''>'') cs)) = (t', m')"
      by (cases "extractTags (Suc k) (tl (dropWhile (\<lambda>x. x \<noteq> CHR ''>'') cs))")
    from "2.IH"(1) [OF True r] have "\<forall>x \<in> set m'. \<exists>j. fst x = placeholder j" .
    moreover from "2.prems" True r
    have "phs = (placeholder k, c # takeWhile (\<lambda>x. x \<noteq> CHR ''>'') cs @ ''>'') # m'"
      by simp
    ultimately show ?thesis by auto
  next
    case False
    obtain t' m' where r: "extractTags k cs = (t', m')" by (cases "extractTags k cs")
    from "2.IH"(2) [OF False r] have "\<forall>x \<in> set m'. \<exists>j. fst x = placeholder j" .
    moreover from "2.prems" False r have "phs = m'" by auto
    ultimately show ?thesis by simp
  qed
qed

lemma restorePlaceholders_marked:
  assumes "sublist marker t" and "\<forall>x \<in> set phs. \<exists>j. fst x = placeholder j"
  shows "sublist marker (restorePlaceholders t phs)"
  using assms
proof (induction phs arbitrary: t)
  case Nil
  then show ?case by (simp add: restorePlaceholders_def)
next
  case (Cons x phs)
  obtain p orig where x: "x = (p, orig)" by (cases x)
  with Cons.prems(2) obtain j where "p = placeholder j" by auto
  then have "sublist marker (replaceFirst p orig t)"
    using replaceFirst_marked [OF Cons.prems(1) placeholder_marker_disjoint placeholder_nonempty,
        of j orig]
    by simp
  with Cons.IH [of "replaceFirst p orig t"] Cons.prems(2)
  have "sublist marker (restorePlaceholders (replaceFirst p orig t) phs)" by simp
  then show ?case by (simp add: restorePlaceholders_def x)
qed


text \<open>
  Where the text holds neither a dollar sign nor an underscore, putting the markup back
  undoes taking it out.
\<close>

lemma expandReplacement_plain:
  "CHR ''$'' \<notin> set repl \<Longrightarrow> expandReplacement m b a repl = repl"
  by (induction m b a repl rule: expandReplacement.induct) auto

lemma splitFirst_placeholder:
  "CHR ''_'' \<notin> set pre \<Longrightarrow>
     splitFirst (placeholder k) (pre @ placeholder k @ rest) = Some (pre, rest)"
proof (induction pre)
  case Nil
  obtain c cs where p: "placeholder k = c # cs"
    using placeholder_nonempty [of k] by (cases "placeholder k") auto
  have "splitFirst (placeholder k) ((c # cs) @ rest) = Some ([], rest)"
    by (simp add: p)
  then show ?case by (simp add: p)
next
  case (Cons x pre)
  have hd: "placeholder k = CHR ''_'' # tl (placeholder k)"
    by (simp add: placeholder_def)
  from Cons.prems have "x \<noteq> CHR ''_''" by auto
  then have "\<not> prefix (placeholder k) (x # pre @ placeholder k @ rest)"
    by (subst hd) simp
  with Cons show ?case by simp
qed

lemma replaceFirst_placeholder:
  assumes "CHR ''_'' \<notin> set pre" and "CHR ''$'' \<notin> set orig"
  shows "replaceFirst (placeholder k) orig (pre @ placeholder k @ rest) = pre @ orig @ rest"
  using splitFirst_placeholder [OF assms(1), of k rest] expandReplacement_plain [OF assms(2)]
  by (simp add: replaceFirst_def)

lemma restore_roundtrip:
  "extractTags k s = (t0, phs) \<Longrightarrow> CHR ''$'' \<notin> set s \<Longrightarrow> CHR ''_'' \<notin> set s \<Longrightarrow>
     CHR ''_'' \<notin> set pre \<Longrightarrow> restorePlaceholders (pre @ t0) phs = pre @ s"
proof (induction k s arbitrary: t0 phs pre rule: extractTags.induct)
  case (1 k)
  then show ?case by (simp add: restorePlaceholders_def)
next
  case (2 k c cs)
  let ?body = "takeWhile (\<lambda>x. x \<noteq> CHR ''>'') cs"
  let ?after = "dropWhile (\<lambda>x. x \<noteq> CHR ''>'') cs"
  let ?c = "c = CHR ''<'' \<and> ?body \<noteq> [] \<and> ?after \<noteq> []"
  show ?case
  proof (cases ?c)
    case True
    let ?tag = "c # ?body @ ''>''"
    obtain t' m' where r: "extractTags (Suc k) (tl ?after) = (t', m')"
      by (cases "extractTags (Suc k) (tl ?after)")
    from "2.prems"(1) True r
    have t0: "t0 = placeholder k @ t'" and phs: "phs = (placeholder k, ?tag) # m'"
      by simp_all
    from True have "hd ?after = CHR ''>''"
      using hd_dropWhile [of "\<lambda>x. x \<noteq> CHR ''>''" cs] by simp
    with True have after: "?after = CHR ''>'' # tl ?after"
      by (cases ?after) simp_all
    have cs: "cs = ?body @ CHR ''>'' # tl ?after"
      using takeWhile_dropWhile_id [of "\<lambda>x. x \<noteq> CHR ''>''" cs] after by simp
    have "set (tl ?after) \<subseteq> set ?after"
      by (rule set_mono_sublist) (rule sublist_tl)
    moreover have "set ?after \<subseteq> set cs"
      by (rule set_mono_sublist) (rule sublist_dropWhile)
    ultimately have sub1: "set (tl ?after) \<subseteq> set cs"
      by (rule subset_trans)
    have sub2: "set ?body \<subseteq> set cs"
      by (rule set_mono_sublist) (rule sublist_takeWhile)
    have "CHR ''$'' \<notin> set cs" "CHR ''_'' \<notin> set cs" "c \<noteq> CHR ''$''" "c \<noteq> CHR ''_''"
      using "2.prems"(2,3) by auto
    then have tag_ok: "CHR ''$'' \<notin> set ?tag" "CHR ''_'' \<notin> set ?tag"
      and rest_ok: "CHR ''$'' \<notin> set (tl ?after)" "CHR ''_'' \<notin> set (tl ?after)"
      using sub1 sub2 by auto
    have pre_ok: "CHR ''_'' \<notin> set (pre @ ?tag)"
      using "2.prems"(4) tag_ok(2) by simp
    have step: "replaceFirst (placeholder k) ?tag (pre @ placeholder k @ t') = pre @ ?tag @ t'"
      using "2.prems"(4) tag_ok(1) by (rule replaceFirst_placeholder)
    have "restorePlaceholders (pre @ t0) phs = restorePlaceholders ((pre @ ?tag) @ t') m'"
      using step by (simp add: restorePlaceholders_def t0 phs)
    also have "\<dots> = (pre @ ?tag) @ tl ?after"
      using "2.IH"(1) [OF True r rest_ok pre_ok] .
    also have "\<dots> = pre @ c # cs"
      using cs by simp
    finally show ?thesis .
  next
    case False
    obtain t' m' where r: "extractTags k cs = (t', m')" by (cases "extractTags k cs")
    from "2.prems"(1) False r have t0: "t0 = c # t'" and phs: "phs = m'"
      by auto
    have ok: "CHR ''$'' \<notin> set cs" "CHR ''_'' \<notin> set cs" "CHR ''_'' \<notin> set (pre @ [c])"
      using "2.prems"(2,3,4) by auto
    from "2.IH"(2) [OF False r ok] show ?thesis
      by (simp add: t0 phs)
  qed
qed

text \<open>
  C8 fails on the step that puts the markup back. In a text that holds placeholder tokens of
  its own, \<open>replace\<close> puts a tag back at the first token of the same name, which need not
  be the one that stands for the tag: linking the text and linking the result give different
  strings, with no entity cached and only line breaks for markup. The same happens where a
  tag holds \<open>$$\<close>, which \<open>replace\<close> reads as a pattern.
\<close>

theorem linkify_twice_differs:
  "linkifyEntityMentions sample_env fresh_world ''__PLACEHOLDER_1__ __PLACEHOLDER_1__<br><br>''
     = ''<br> __PLACEHOLDER_1__<br>__PLACEHOLDER_1__''
   \<and> linkifyEntityMentions sample_env fresh_world ''<br> __PLACEHOLDER_1__<br>__PLACEHOLDER_1__''
     = ''<br> <br>__PLACEHOLDER_1____PLACEHOLDER_1__''
   \<and> linkifyEntityMentions sample_env fresh_world ''<a$$&>'' = ''<a$&>''
   \<and> linkifyEntityMentions sample_env fresh_world ''<a$&>'' = ''<a__PLACEHOLDER_0__>''"
  by code_simp

text \<open>
  Away from such texts the linker is idempotent. With the cached collections held fixed, a
  string that contains the marker is returned unchanged; and for every string that contains
  neither a dollar sign nor an underscore, linking the linker's output yields that output
  again.
\<close>

theorem linkify_idempotent_plain:
  "(str_includes text marker \<longrightarrow> linkifyEntityMentions e w text = text)
   \<and> (CHR ''$'' \<notin> set text \<and> CHR ''_'' \<notin> set text \<longrightarrow>
        linkifyEntityMentions e w (linkifyEntityMentions e w text)
          = linkifyEntityMentions e w text)"
proof (intro conjI impI)
  assume "str_includes text marker"
  then show "linkifyEntityMentions e w text = text"
    by (simp add: linkifyEntityMentions_def)
next
  assume plain: "CHR ''$'' \<notin> set text \<and> CHR ''_'' \<notin> set text"
  have marked: "\<And>y. sublist marker y \<Longrightarrow> linkifyEntityMentions e w y = y"
    by (simp add: linkifyEntityMentions_def str_includes_def)
  show "linkifyEntityMentions e w (linkifyEntityMentions e w text)
          = linkifyEntityMentions e w text"
  proof (cases "text = [] \<or> str_includes text marker")
    case True
    then have "linkifyEntityMentions e w text = text"
      by (auto simp: linkifyEntityMentions_def)
    then show ?thesis by simp
  next
    case False
    obtain t0 phs where ex: "extractTags 0 text = (t0, phs)"
      by (cases "extractTags 0 text")
    have out: "linkifyEntityMentions e w text = restorePlaceholders (linkEntities e w t0) phs"
      using False by (simp add: linkifyEntityMentions_def ex)
    from linkEntities_same_or_marked [of e w t0] show ?thesis
    proof
      assume "linkEntities e w t0 = t0"
      moreover have "restorePlaceholders ([] @ t0) phs = [] @ text"
        using ex plain by (intro restore_roundtrip) simp_all
      ultimately have "linkifyEntityMentions e w text = text"
        using out by simp
      then show ?thesis by simp
    next
      assume "sublist marker (linkEntities e w t0)"
      then have "sublist marker (restorePlaceholders (linkEntities e w t0) phs)"
        using extractTags_keys [OF ex] by (rule restorePlaceholders_marked)
      then show ?thesis using out marked by simp
    qed
  qed
qed

theorem linkify_idempotent_plain_witness:
  "str_includes (anchor ''patient'' ''1'' ''name'' ''Jane Doe'' ''Jane Doe'') marker
   \<and> linkifyEntityMentions sample_env jane_world (anchor ''patient'' ''1'' ''name'' ''Jane Doe'' ''Jane Doe'')
     = anchor ''patient'' ''1'' ''name'' ''Jane Doe'' ''Jane Doe''
   \<and> CHR ''$'' \<notin> set ''Call <b>Ann</b>, then jane doe.''
   \<and> CHR ''_'' \<notin> set ''Call <b>Ann</b>, then jane doe.''
   \<and> linkifyEntityMentions sample_env jane_world ''Call <b>Ann</b>, then jane doe.''
     = ''Call <b>Ann</b>, then '' @ anchor ''patient'' ''1'' ''name'' ''Jane Doe'' ''jane doe'' @ ''.''
   \<and> linkifyEntityMentions sample_env jane_world
        (linkifyEntityMentions sample_env jane_world ''Call <b>Ann</b>, then jane doe.'')
     = linkifyEntityMentions sample_env jane_world ''Call <b>Ann</b>, then jane doe.''"
proof -
  have h: "str_includes (anchor ''patient'' ''1'' ''name'' ''Jane Doe'' ''Jane Doe'') marker"
    "CHR ''$'' \<notin> set ''Call <b>Ann</b>, then jane doe.''"
    "CHR ''_'' \<notin> set ''Call <b>Ann</b>, then jane doe.''"
    by code_simp+
  have run: "linkifyEntityMentions sample_env jane_world ''Call <b>Ann</b>, then jane doe.''
     = ''Call <b>Ann</b>, then '' @ anchor ''patient'' ''1'' ''name'' ''Jane Doe'' ''jane doe'' @ ''.''"
    by code_simp
  show ?thesis
    using h run
      linkify_idempotent_plain [of "anchor ''patient'' ''1'' ''name'' ''Jane Doe'' ''Jane Doe''"
        sample_env jane_world]
      linkify_idempotent_plain [of "''Call <b>Ann</b>, then jane doe.''" sample_env jane_world]
    by simp
qed

end
